theory Spec2Isabelle
  imports Main "HOL-Library.Word"
begin

unbundle bit_operations_syntax

section \<open>Data model of the TAMDL control core\<close>

text \<open>
  The firmware keeps all of its state in file-scope variables of \<^verbatim>\<open>RFID.c\<close>,
  \<^verbatim>\<open>Control.c\<close> and \<^verbatim>\<open>DM_PowerOutput.c\<close>.  The embedding collects them in
  one record \<open>sys\<close>; every C routine becomes a function from \<open>sys\<close> to \<open>sys\<close>.
  C enums are \<open>int\<close> (they are \<^verbatim>\<open>int\<close> in C, and the code checks their range),
  fixed-width unsigned variables are words, \<^verbatim>\<open>int32_t\<close> durations are \<open>int\<close>
  (the code never computes with them where they could overflow).
\<close>

type_synonym u8 = "8 word"
type_synonym u16 = "16 word"
type_synonym u32 = "32 word"

type_synonym PWR_OUT = int
type_synonym RFID_TYPE = int
type_synonym MEASURE = int
type_synonym TIM_HDL = int

abbreviation (input) NONE :: int where "NONE \<equiv> - 1"

abbreviation (input) PWR_OUT_NONE :: PWR_OUT where "PWR_OUT_NONE \<equiv> NONE"
abbreviation (input) PWR_OUT_UA1 :: PWR_OUT where "PWR_OUT_UA1 \<equiv> 0"
abbreviation (input) PWR_OUT_UA2 :: PWR_OUT where "PWR_OUT_UA2 \<equiv> 1"
abbreviation (input) PWR_OUT_BATT :: PWR_OUT where "PWR_OUT_BATT \<equiv> 2"
abbreviation (input) NUM_PWR_OUT :: int where "NUM_PWR_OUT \<equiv> 3"

abbreviation (input) PWR_OFF :: bool where "PWR_OFF \<equiv> False"
abbreviation (input) PWR_ON :: bool where "PWR_ON \<equiv> True"

abbreviation (input) RFID_TYPE_NONE :: RFID_TYPE where "RFID_TYPE_NONE \<equiv> NONE"
abbreviation (input) RFID_TYPE_SR :: RFID_TYPE where "RFID_TYPE_SR \<equiv> 0"
abbreviation (input) RFID_TYPE_LR :: RFID_TYPE where "RFID_TYPE_LR \<equiv> 1"

abbreviation (input) MEASURE_NONE :: MEASURE where "MEASURE_NONE \<equiv> NONE"
abbreviation (input) MEASURE_UA1 :: MEASURE where "MEASURE_UA1 \<equiv> 0"
abbreviation (input) MEASURE_UA2 :: MEASURE where "MEASURE_UA2 \<equiv> 1"
abbreviation (input) NUM_MEASURE :: int where "NUM_MEASURE \<equiv> 2"

text \<open>Arguments of the printf-style calls \<^verbatim>\<open>Log\<close> and \<^verbatim>\<open>LogError\<close>.\<close>

datatype log_arg = AInt int | AStr string

datatype UPD_ID = UPD_ALL | UPD_CONFIGURATION | UPD_SYSCLOCK | UPD_TRANSPONDER | UPD_POWERSTATUS

text \<open>
  What the core does to its collaborators is recorded in a trace, in program order:
  log lines, display updates, the calls of the timer interface, and the moment the
  decoder raises its new-ID flag (\<open>NewID_Raised\<close>, the notification that
  \<^verbatim>\<open>RFID_Check\<close> later delivers).
\<close>

datatype event =
    Log string "log_arg list"
  | LogError string "log_arg list"
  | DisplayUpdate UPD_ID
  | TimerStart TIM_HDL int
  | TimerCancel TIM_HDL
  | NewID_Raised string
  | INT_Disable
  | INT_Enable

text \<open>The routines that \<^verbatim>\<open>sTimerCreate\<close> binds to a timer of the pool.\<close>

datatype timer_callback =
    CB_MeasureStop
  | CB_MeasureStopBATT
  | CB_IntervalPowerControl
  | CB_TransponderAbsent
  | CB_SwitchRFID_Off
  | CB_RFID_DetectTimeout
  | CB_SwitchLCD_Off

text \<open>The ten virtual EEPROM variables declared in \<^verbatim>\<open>ControlInit\<close>.\<close>

datatype ee_var = magic | ua1mV_h | ua1mV_l | ua1mA_h | ua1mA_l
                | ua2mV_h | ua2mV_l | ua2mA_h | ua2mA_l | chksum

record sys =
  \<comment> \<open>compile-time switches of the missing \<^verbatim>\<open>config.h\<close>; never written\<close>
  cfg_LOGGING :: bool
  cfg_LIGHT_BARRIER :: bool
  cfg_DISPLAY_UPDATE_WHEN_ABSENT :: bool
  cfg_ALARM_UA1_ON_TIME_1 :: int
  \<comment> \<open>RFID.c, global data\<close>
  g_RFID_Type :: RFID_TYPE
  g_RFID_Power :: PWR_OUT
  g_RFID_AbsentDetectTimeout :: u32
  g_RFID_PwrOffTimeout :: int
  g_RFID_DetectTimeout :: int
  g_FERR_Cnt :: u16
  g_PERR_Cnt :: u16
  g_Transponder :: string
  \<comment> \<open>RFID.c, local data\<close>
  l_flgRFID_Activate :: bool
  l_pRFID_Cfg_Type :: RFID_TYPE
  l_pRFID_Cfg_PwrOut :: PWR_OUT
  l_flgRFID_On :: bool
  l_flgRFID_IsOn :: bool
  l_hdlRFID_AbsentDetect :: TIM_HDL
  l_hdlRFID_Off :: TIM_HDL
  l_flgObjectPresent :: bool
  l_hdlRFID_DetectTimeout :: TIM_HDL
  l_flgNewRun :: bool
  l_flgNewID :: bool
  l_State :: u8
  \<comment> \<open>RFID.c, static locals of \<^verbatim>\<open>RFID_Decode\<close>\<close>
  xorsum :: u8
  w :: "nat \<Rightarrow> u8"
  crc :: u16
  \<comment> \<open>UART hardware as \<^verbatim>\<open>uartSetup\<close> and \<^verbatim>\<open>RFID_PowerOff\<close> leave it\<close>
  uart_clock :: bool
  uart_rx_pin :: bool
  uart_type :: int
  em1_mod_rfid :: bool
  \<comment> \<open>Control.c, global data\<close>
  g_PwrInterval :: "int \<Rightarrow> int"
  g_On_Duration :: "int \<Rightarrow> int"
  g_flgIRQ :: bool
  \<comment> \<open>Control.c, local data\<close>
  l_hdlPwrInterval :: "int \<Rightarrow> TIM_HDL"
  pwr_pin :: "int \<Rightarrow> bool"
  meas_pin :: "int \<Rightarrow> bool"
  hdlFollowUpTime :: "int \<Rightarrow> TIM_HDL"
  FollowUpTime :: "int \<Rightarrow> u32"
  l_ScanDuration :: u32
  l_ADC_ActiveChanMask :: u8
  l_ADC_Value :: "int \<Rightarrow> u32"
  l_prev_value_mV :: "int \<Rightarrow> u32"
  l_prev_value_mA :: "int \<Rightarrow> u32"
  l_prev_BATT_mV :: int
  l_prev_BATT_mA :: int
  l_BATT_FollowUpTime :: u32
  l_hdlFollowUpTimeBATT :: TIM_HDL
  l_flgLogBATT :: bool
  l_BATT_MeasureInterval :: u32
  l_flgADC_On :: bool
  l_mV_Divider :: "int \<Rightarrow> u32"
  l_mA_Divider :: "int \<Rightarrow> u32"
  \<comment> \<open>DM_PowerOutput.c\<close>
  g_UA_Calib_mV :: "int \<Rightarrow> u32"
  g_UA_Calib_mA :: "int \<Rightarrow> u32"
  l_PwrOut :: PWR_OUT
  l_flgCalibration :: u8
  \<comment> \<open>DisplayMenu.c\<close>
  l_hdlLCD_Off :: TIM_HDL
  \<comment> \<open>collaborators: power-fail input, EEPROM image, timer pool, trace\<close>
  power_fail :: bool
  eeprom :: "ee_var \<Rightarrow> u16"
  timer_cb :: "int \<Rightarrow> timer_callback option"
  timer_remaining :: "int \<Rightarrow> int option"
  timer_count :: nat
  trace :: "event list"


section \<open>Collaborators\<close>

definition emit :: "event \<Rightarrow> sys \<Rightarrow> sys" where
  "emit e s = s\<lparr>trace := trace s @ [e]\<rparr>"

text \<open>\<^verbatim>\<open>#ifdef LOGGING  Log (...);  #endif\<close>\<close>

definition Log_if_LOGGING :: "string \<Rightarrow> log_arg list \<Rightarrow> sys \<Rightarrow> sys" where
  "Log_if_LOGGING fmt args s = (if cfg_LOGGING s then emit (Log fmt args) s else s)"

definition g_enum_PowerOutput :: "string list" where
  "g_enum_PowerOutput = [''UA1'', ''UA2'', ''BATT'']"

definition g_enum_RFID_Type :: "string list" where
  "g_enum_RFID_Type = [''SR'', ''LR'']"

text \<open>Reading a name table; the code only does so with an index it has checked.\<close>

definition enum_name :: "string list \<Rightarrow> int \<Rightarrow> string" where
  "enum_name tbl i = (if 0 \<le> i \<and> nat i < length tbl then tbl ! nat i else [])"

text \<open>
  \<^verbatim>\<open>IsPowerFail()\<close> of the missing \<^verbatim>\<open>PowerFail.c\<close> reads the power-fail
  condition; it is an input of the model.
\<close>

definition IsPowerFail :: "sys \<Rightarrow> bool" where
  "IsPowerFail s = power_fail s"

text \<open>
  Modelled from the spec: the software timer pool of \<^verbatim>\<open>AlarmClock.c\<close>, which is
  not among the sources.  \<open>start(handle, seconds)\<close> arms or rearms the countdown of the
  handle and overwrites a countdown that is still running; on a handle that was never
  created it does nothing.
\<close>

definition sTimerStart :: "TIM_HDL \<Rightarrow> int \<Rightarrow> sys \<Rightarrow> sys" where
  "sTimerStart hdl seconds s =
     (let s1 = emit (TimerStart hdl seconds) s in
      if timer_cb s1 hdl = None then s1
      else s1\<lparr>timer_remaining := (timer_remaining s1)(hdl := Some seconds)\<rparr>)"

text \<open>
  Modelled from the spec: \<open>cancel(handle)\<close> of the same timer pool disarms the
  countdown and is a no-op if it is already disarmed.
\<close>

definition sTimerCancel :: "TIM_HDL \<Rightarrow> sys \<Rightarrow> sys" where
  "sTimerCancel hdl s =
     (let s1 = emit (TimerCancel hdl) s in
      if timer_cb s1 hdl = None then s1
      else s1\<lparr>timer_remaining := (timer_remaining s1)(hdl := None)\<rparr>)"

section \<open>Control.c: switching a power output\<close>

text \<open>\<^verbatim>\<open>l_PwrOutDef[output].Measure\<close>\<close>

definition PwrOutDef_Measure :: "PWR_OUT \<Rightarrow> MEASURE" where
  "PwrOutDef_Measure output =
     (if output = PWR_OUT_UA1 then MEASURE_UA1
      else if output = PWR_OUT_UA2 then MEASURE_UA2
      else MEASURE_NONE)"

text \<open>
  \<^verbatim>\<open>l_MeasureDef[m].ChanU\<close> and \<^verbatim>\<open>.ChanI\<close>: ADC channels 6 and 0 for UA1,
  7 and 3 for UA2.
\<close>

definition ChanU :: "MEASURE \<Rightarrow> nat" where
  "ChanU m = (if m = MEASURE_UA1 then 6 else 7)"

definition ChanI :: "MEASURE \<Rightarrow> nat" where
  "ChanI m = (if m = MEASURE_UA1 then 0 else 3)"

definition PowerOutput :: "PWR_OUT \<Rightarrow> bool \<Rightarrow> sys \<Rightarrow> sys" where
  "PowerOutput output enable s =
     (if enable \<and> IsPowerFail s then s
      else if output = PWR_OUT_NONE then s
      else if 0 > output \<or> output \<ge> NUM_PWR_OUT then
        (if cfg_LOGGING s
         then emit (LogError ''PowerOutput(%d, %d): Invalid output parameter''
                      [AInt output, AInt (if enable then 1 else 0)]) s
         else s)
      else if pwr_pin s output = enable then s
      else
        (let s1 = s\<lparr>pwr_pin := (pwr_pin s)(output := enable)\<rparr>;
             s2 = Log_if_LOGGING ''Power Output %s %sabled''
                    [AStr (enum_name g_enum_PowerOutput output),
                     AStr (if enable then ''en'' else ''dis'')] s1;
             m = PwrOutDef_Measure output;
             s3 = (if m \<noteq> MEASURE_NONE then
                     (if enable then
                        (let a = (if hdlFollowUpTime s2 m \<noteq> NONE
                                  then sTimerCancel (hdlFollowUpTime s2 m) s2 else s2)
                         in a\<lparr>meas_pin := (meas_pin a)(m := True),
                              l_ADC_ActiveChanMask :=
                                set_bit (ChanI m) (set_bit (ChanU m) (l_ADC_ActiveChanMask a)),
                              l_prev_value_mV := (l_prev_value_mV a)(m := 0),
                              l_prev_value_mA := (l_prev_value_mA a)(m := 0),
                              l_flgADC_On := True,
                              g_flgIRQ := True\<rparr>)
                      else sTimerStart (hdlFollowUpTime s2 m) (uint (FollowUpTime s2 m)) s2)
                   else s2);
             s4 = (if enable then s3\<lparr>l_prev_BATT_mV := 0, l_prev_BATT_mA := 0\<rparr> else s3);
             s5 = (if output = PWR_OUT_BATT then
                     (if enable then
                        (let b = Log_if_LOGGING ''BATT_INP: Starting Measuring'' []
                                   (sTimerCancel (l_hdlFollowUpTimeBATT s4) s4)
                         in b\<lparr>l_BATT_MeasureInterval := 0, l_flgLogBATT := True\<rparr>)
                      else sTimerStart (l_hdlFollowUpTimeBATT s4)
                             (uint (l_BATT_FollowUpTime s4)) s4)
                   else s4)
         in emit (DisplayUpdate UPD_POWERSTATUS) s5))"

definition IsPowerOutputOn :: "PWR_OUT \<Rightarrow> sys \<Rightarrow> bool" where
  "IsPowerOutputOn output s = (if output = PWR_OUT_NONE then False else pwr_pin s output)"

fun power_off_all :: "int list \<Rightarrow> sys \<Rightarrow> sys" where
  "power_off_all [] s = s"
| "power_off_all (i # is) s = power_off_all is (PowerOutput i PWR_OFF s)"

definition ControlPowerFailHandler :: "sys \<Rightarrow> sys" where
  "ControlPowerFailHandler s =
     power_off_all [0, 1, 2] (Log_if_LOGGING ''Switching all power outputs OFF'' [] s)"

definition ControlUpdateID :: "string \<Rightarrow> sys \<Rightarrow> sys" where
  "ControlUpdateID transponderID s = Log_if_LOGGING (''Transponder: '' @ transponderID) [] s"

section \<open>RFID.c: power management of the reader\<close>

definition RFID_Enable :: "sys \<Rightarrow> sys" where
  "RFID_Enable s =
     (let s1 = (if cfg_LIGHT_BARRIER s then
                  (let a = s\<lparr>l_flgObjectPresent := True\<rparr>
                   in if l_hdlRFID_Off a \<noteq> NONE then sTimerCancel (l_hdlRFID_Off a) a else a)
                else s);
          s2 = s1\<lparr>l_flgRFID_On := True, l_flgNewRun := True\<rparr>
      in if cfg_LIGHT_BARRIER s2 \<and> l_hdlRFID_DetectTimeout s2 \<noteq> NONE
         then sTimerStart (l_hdlRFID_DetectTimeout s2) (g_RFID_DetectTimeout s2) s2
         else s2)"

text \<open>
  \<^verbatim>\<open>uartSetup\<close> enables the UART clock and the Rx pin and programs the UART with
  the parameter set of the configured reader type.
\<close>

definition uartSetup :: "sys \<Rightarrow> sys" where
  "uartSetup s = s\<lparr>uart_clock := True, uart_rx_pin := True, uart_type := l_pRFID_Cfg_Type s\<rparr>"

definition RFID_PowerOn :: "sys \<Rightarrow> sys" where
  "RFID_PowerOn s =
     (if l_flgRFID_Activate s then
        (let s1 = Log_if_LOGGING ''RFID is powered ON'' [] s;
             s2 = uartSetup (s1\<lparr>em1_mod_rfid := True\<rparr>);
             s3 = PowerOutput (l_pRFID_Cfg_PwrOut s2) PWR_ON s2
         in s3\<lparr>l_State := 0\<rparr>)
      else s)"

definition RFID_PowerOff :: "sys \<Rightarrow> sys" where
  "RFID_PowerOff s =
     (let s1 = PowerOutput (l_pRFID_Cfg_PwrOut s) PWR_OFF s;
          s2 = s1\<lparr>uart_clock := False, uart_rx_pin := False, l_State := 0,
                  em1_mod_rfid := False\<rparr>
      in Log_if_LOGGING ''RFID is powered off'' [] s2)"

definition RFID_Disable :: "sys \<Rightarrow> sys" where
  "RFID_Disable s =
     (let s1 = (if cfg_LIGHT_BARRIER s then
                  (let a = s\<lparr>l_flgObjectPresent := False\<rparr>
                   in if l_hdlRFID_DetectTimeout a \<noteq> NONE
                      then sTimerCancel (l_hdlRFID_DetectTimeout a) a else a)
                else s)
      in if l_flgRFID_On s1 then
           (let s2 = s1\<lparr>l_flgRFID_On := False\<rparr>;
                s3 = (if cfg_LIGHT_BARRIER s2 \<and> l_hdlRFID_Off s2 \<noteq> NONE
                      then sTimerCancel (l_hdlRFID_Off s2) s2 else s2)
            in if g_RFID_AbsentDetectTimeout s3 = 0 \<or> g_Transponder s3 = [] then
                 (let s4 = (if l_hdlRFID_AbsentDetect s3 \<noteq> NONE
                            then sTimerCancel (l_hdlRFID_AbsentDetect s3) s3 else s3)
                  in if l_flgRFID_IsOn s4
                     then (RFID_PowerOff s4)\<lparr>l_flgRFID_IsOn := False\<rparr>
                     else s4)
               else if g_Transponder s3 \<noteq> [] then
                 Log_if_LOGGING ''RFID power-off deferred - Bird still present'' [] s3
               else s3)
         else s1)"

definition IsRFID_Enabled :: "sys \<Rightarrow> bool" where
  "IsRFID_Enabled s = l_flgRFID_On s"

definition RFID_Check :: "sys \<Rightarrow> sys" where
  "RFID_Check s =
     (let s1 = (if l_flgRFID_On s then
                  (if \<not> l_flgRFID_IsOn s
                   then (RFID_PowerOn s)\<lparr>l_flgRFID_IsOn := True\<rparr>
                   else s)
                else
                  (if l_flgRFID_IsOn s then
                     (if g_RFID_AbsentDetectTimeout s = 0 \<or> g_Transponder s = [] then
                        (let a = (if l_hdlRFID_AbsentDetect s \<noteq> NONE
                                  then sTimerCancel (l_hdlRFID_AbsentDetect s) s else s)
                         in (RFID_PowerOff a)\<lparr>l_flgRFID_IsOn := False\<rparr>)
                      else s)
                   else s))
      in if l_flgNewID s1 then
           emit (DisplayUpdate UPD_TRANSPONDER)
             (ControlUpdateID (g_Transponder s1) (s1\<lparr>l_flgNewID := False\<rparr>))
         else s1)"

definition RFID_PowerFailHandler :: "sys \<Rightarrow> sys" where
  "RFID_PowerFailHandler s =
     (let s1 = (if cfg_LIGHT_BARRIER s then
                  (let a = (if l_hdlRFID_Off s \<noteq> NONE then sTimerCancel (l_hdlRFID_Off s) s else s)
                   in if l_hdlRFID_DetectTimeout a \<noteq> NONE
                      then sTimerCancel (l_hdlRFID_DetectTimeout a) a else a)
                else s);
          s2 = s1\<lparr>l_flgRFID_On := False\<rparr>
      in if l_flgRFID_IsOn s2 then (RFID_PowerOff s2)\<lparr>l_flgRFID_IsOn := False\<rparr> else s2)"

text \<open>The callback of the absence timer.\<close>

definition TransponderAbsent :: "TIM_HDL \<Rightarrow> sys \<Rightarrow> sys" where
  "TransponderAbsent hdl s =
     (let s1 = Log_if_LOGGING ''Transponder: %s ABSENT'' [AStr (g_Transponder s)] s;
          s2 = s1\<lparr>g_Transponder := []\<rparr>
      in if cfg_DISPLAY_UPDATE_WHEN_ABSENT s2 then emit (DisplayUpdate UPD_TRANSPONDER) s2 else s2)"

text \<open>The two callbacks that exist only in a light-barrier build.\<close>

definition SwitchRFID_Off :: "TIM_HDL \<Rightarrow> sys \<Rightarrow> sys" where
  "SwitchRFID_Off hdl s = s\<lparr>l_flgRFID_On := False, g_flgIRQ := True\<rparr>"

definition RFID_DetectTimeout :: "TIM_HDL \<Rightarrow> sys \<Rightarrow> sys" where
  "RFID_DetectTimeout hdl s =
     (if l_flgObjectPresent s
      then (emit (NewID_Raised ''UNKNOWN'') s)\<lparr>g_Transponder := ''UNKNOWN'', l_flgNewID := True\<rparr>
      else s)"

section \<open>RFID.c: the frame decoder\<close>

text \<open>
  Bits of the \<^verbatim>\<open>RXDATAX\<close> register of the EFM32 USART (emlib's
  \<^verbatim>\<open>efm32g_usart.h\<close>): parity error is bit 14, framing error bit 15.
\<close>

definition USART_RXDATAX_PERR :: u32 where "USART_RXDATAX_PERR = 0x4000"
definition USART_RXDATAX_FERR :: u32 where "USART_RXDATAX_FERR = 0x8000"

text \<open>\<^verbatim>\<open>const uint8_t v[5]\<close>, the prefix of a Short Range frame.\<close>

definition v :: "u8 list" where
  "v = [0x0E, 0x00, 0x11, 0x00, 0x05]"

definition HexChar :: string where
  "HexChar = ''0123456789ABCDEF''"

text \<open>\<^verbatim>\<open>HexChar[(b >> 4) & 0x0F]\<close> followed by \<^verbatim>\<open>HexChar[b & 0x0F]\<close>\<close>

definition hex2 :: "u8 \<Rightarrow> string" where
  "hex2 b = [HexChar ! unat (drop_bit 4 b AND 0x0F), HexChar ! unat (b AND 0x0F)]"

text \<open>The raw frame as the error message prints it: bytes \<open>0..n\<close>, a blank before each.\<close>

definition frame_dump :: "nat \<Rightarrow> (nat \<Rightarrow> u8) \<Rightarrow> string" where
  "frame_dump n buf = concat (map (\<lambda>i. CHR '' '' # hex2 (buf i)) [0..<Suc n])"

text \<open>\<^verbatim>\<open>newTransponder[2*i], [2*i+1]\<close> from \<^verbatim>\<open>w[8-i]\<close>, for \<open>i = 0..7\<close>\<close>

definition newTransponder :: "(nat \<Rightarrow> u8) \<Rightarrow> string" where
  "newTransponder buf = concat (map (\<lambda>i. hex2 (buf (8 - i))) [0..<8])"

text \<open>
  The Short Range state machine.  The result pairs the new state with the local
  \<^verbatim>\<open>flgRecvdID\<close>.  \<open>byte\<close> is the received word after \<^verbatim>\<open>byte &= 0xFF\<close>.
\<close>

definition decode_SR :: "u32 \<Rightarrow> sys \<Rightarrow> sys \<times> bool" where
  "decode_SR byte s =
     (let st = unat (l_State s) in
      if st \<le> 4 then
        (let s1 = (if st = 0 then s\<lparr>xorsum := 0\<rparr> else s) in
         if byte \<noteq> ucast (v ! st) then (s1\<lparr>l_State := 0\<rparr>, False)
         else (s1\<lparr>xorsum := xorsum s1 XOR ucast byte, l_State := l_State s1 + 1\<rparr>, False))
      else if st \<le> 12 then
        (s\<lparr>xorsum := xorsum s XOR ucast byte, l_State := l_State s + 1\<rparr>, False)
      else if st = 13 then
        (if w s 13 \<noteq> xorsum s then
           ((emit (LogError ''RFID_Decode(): recv.XOR=0x%02X, calc.XOR=0x%02X, data is%s''
                     [AInt (uint (w s 13)), AInt (uint (xorsum s)), AStr (frame_dump 13 (w s))]) s)
              \<lparr>l_State := 0\<rparr>, False)
         else (s, True))
      else (s\<lparr>l_State := 0\<rparr>, False))"

text \<open>
  One nibble step of the CRC-CCITT (Kermit) update, computed in 32 bits as C does and
  truncated by the assignment to the \<^verbatim>\<open>uint16_t val\<close>.
\<close>

definition crc_nibble :: "u16 \<Rightarrow> u32 \<Rightarrow> u16" where
  "crc_nibble val x =
     ucast (drop_bit 4 (ucast val :: u32) XOR (((ucast val XOR x) AND 0x0F) * 4225))"

definition crc_kermit :: "u16 \<Rightarrow> u32 \<Rightarrow> u16" where
  "crc_kermit c byte = crc_nibble (crc_nibble c byte) (drop_bit 4 byte)"

text \<open>The Long Range state machine.\<close>

definition decode_LR :: "u32 \<Rightarrow> sys \<Rightarrow> sys \<times> bool" where
  "decode_LR byte s =
     (let st = unat (l_State s) in
      if st = 0 \<and> byte \<noteq> 0x54 then (s\<lparr>l_State := 0\<rparr>, False)
      else if st \<le> 8 then
        (let s1 = (if st \<le> 1 then s\<lparr>crc := 0\<rparr> else s) in
         (s1\<lparr>crc := crc_kermit (crc s1) byte, l_State := l_State s1 + 1\<rparr>, False))
      else if st = 9 then (s\<lparr>l_State := l_State s + 1\<rparr>, False)
      else if st = 10 then
        (let val = (push_bit 8 (ucast (w s 10)) OR ucast (w s 9) :: u16) in
         if val \<noteq> crc s then
           ((emit (LogError ''RFID_Decode(): recv.CRC=0x%04X, calc.CRC=0x%04X, data is%s''
                     [AInt (uint val), AInt (uint (crc s)), AStr (frame_dump 10 (w s))]) s)
              \<lparr>l_State := 0\<rparr>, False)
         else (s, True))
      else (s\<lparr>l_State := 0\<rparr>, False))"

text \<open>The part of \<^verbatim>\<open>RFID_Decode\<close> under \<^verbatim>\<open>if (flgRecvdID)\<close>.\<close>

definition received_ID :: "sys \<Rightarrow> sys" where
  "received_ID s =
     (let s1 = s\<lparr>l_State := 0\<rparr>;
          new = newTransponder (w s1);
          s2 = (if cfg_LIGHT_BARRIER s1 \<and> l_flgObjectPresent s1
                     \<and> l_hdlRFID_DetectTimeout s1 \<noteq> NONE
                then sTimerStart (l_hdlRFID_DetectTimeout s1) (g_RFID_DetectTimeout s1) s1
                else s1);
          s3 = (if l_flgNewRun s2 \<or> new \<noteq> g_Transponder s2
                then (emit (NewID_Raised new) s2)
                       \<lparr>l_flgNewRun := False, g_Transponder := new, l_flgNewID := True\<rparr>
                else s2)
      in if g_RFID_AbsentDetectTimeout s3 > 0
         then sTimerStart (l_hdlRFID_AbsentDetect s3) (uint (g_RFID_AbsentDetectTimeout s3)) s3
         else s3)"

text \<open>
  The head of \<^verbatim>\<open>RFID_Decode\<close> counts the framing and parity errors of the received
  word.  The buffer \<^verbatim>\<open>w\<close> has 14 elements and the routine stores
  into \<^verbatim>\<open>w[l_State]\<close> without a check; a store beyond \<^verbatim>\<open>w[13]\<close> is undefined
  behaviour in C and is the result \<open>None\<close> here.
\<close>

definition count_comm_errors :: "u32 \<Rightarrow> sys \<Rightarrow> sys" where
  "count_comm_errors rx s =
     (let s1 = (if rx AND USART_RXDATAX_FERR \<noteq> 0 then s\<lparr>g_FERR_Cnt := g_FERR_Cnt s + 1\<rparr> else s)
      in if rx AND USART_RXDATAX_PERR \<noteq> 0 then s1\<lparr>g_PERR_Cnt := g_PERR_Cnt s1 + 1\<rparr> else s1)"

definition RFID_Decode :: "u32 \<Rightarrow> sys \<Rightarrow> sys option" where
  "RFID_Decode rx s =
     (let s2 = count_comm_errors rx s;
          byte = rx AND 0xFF
      in if \<not> unat (l_State s2) < 14 then None
         else
           (let s3 = s2\<lparr>w := (w s2)(unat (l_State s2) := ucast byte)\<rparr>;
                r = (if l_pRFID_Cfg_Type s3 = RFID_TYPE_SR then decode_SR byte s3
                     else if l_pRFID_Cfg_Type s3 = RFID_TYPE_LR then decode_LR byte s3
                     else (s3\<lparr>l_State := 0\<rparr>, False))
            in Some (if snd r then received_ID (fst r) else fst r)))"

text \<open>The UART interrupt delivers the received words one at a time, in arrival order.\<close>

fun RFID_Decode_stream :: "u32 list \<Rightarrow> sys \<Rightarrow> sys option" where
  "RFID_Decode_stream [] s = Some s"
| "RFID_Decode_stream (rx # rxs) s =
     (case RFID_Decode rx s of None \<Rightarrow> None | Some s' \<Rightarrow> RFID_Decode_stream rxs s')"

section \<open>An initial state\<close>

text \<open>
  The variables as the C start-up code and the initialisers of the sources leave them
  (zero, \<open>false\<close>, empty, \<open>NONE\<close> for the timer handles), after \<^verbatim>\<open>ControlInit\<close>
  has created its six timers and \<^verbatim>\<open>ClearConfiguration\<close> has set the defaults:
  handles 0 and 1 for the follow-up times of UA1 and UA2, 2 for BATT, 3 to 5 for the
  power cycle intervals.  Logging is compiled in, the light-barrier code is not.
\<close>

definition reset_state :: sys where
  "reset_state =
     \<lparr> cfg_LOGGING = True, cfg_LIGHT_BARRIER = False, cfg_DISPLAY_UPDATE_WHEN_ABSENT = False,
       cfg_ALARM_UA1_ON_TIME_1 = 0,
       g_RFID_Type = RFID_TYPE_NONE, g_RFID_Power = PWR_OUT_NONE,
       g_RFID_AbsentDetectTimeout = 5, g_RFID_PwrOffTimeout = 30, g_RFID_DetectTimeout = 10,
       g_FERR_Cnt = 0, g_PERR_Cnt = 0, g_Transponder = [],
       l_flgRFID_Activate = False, l_pRFID_Cfg_Type = 0, l_pRFID_Cfg_PwrOut = 0,
       l_flgRFID_On = False, l_flgRFID_IsOn = False,
       l_hdlRFID_AbsentDetect = NONE, l_hdlRFID_Off = NONE, l_flgObjectPresent = False,
       l_hdlRFID_DetectTimeout = NONE, l_flgNewRun = False, l_flgNewID = False, l_State = 0,
       xorsum = 0, w = (\<lambda>_. 0), crc = 0,
       uart_clock = False, uart_rx_pin = False, uart_type = 0, em1_mod_rfid = False,
       g_PwrInterval = (\<lambda>_. 0), g_On_Duration = (\<lambda>_. 0), g_flgIRQ = False,
       l_hdlPwrInterval = (\<lambda>i. if i = 0 then 3 else if i = 1 then 4 else if i = 2 then 5 else NONE),
       pwr_pin = (\<lambda>_. False), meas_pin = (\<lambda>_. False),
       hdlFollowUpTime = (\<lambda>m. if m = 0 then 0 else if m = 1 then 1 else NONE),
       FollowUpTime = (\<lambda>_. 60), l_ScanDuration = 1000,
       l_ADC_ActiveChanMask = 0, l_ADC_Value = (\<lambda>_. 0),
       l_prev_value_mV = (\<lambda>_. 0), l_prev_value_mA = (\<lambda>_. 0),
       l_prev_BATT_mV = 0, l_prev_BATT_mA = 0,
       l_BATT_FollowUpTime = 60, l_hdlFollowUpTimeBATT = 2, l_flgLogBATT = False,
       l_BATT_MeasureInterval = 0, l_flgADC_On = False,
       l_mV_Divider = (\<lambda>_. 0x10000), l_mA_Divider = (\<lambda>_. 0x10000),
       g_UA_Calib_mV = (\<lambda>_. 0), g_UA_Calib_mA = (\<lambda>_. 0), l_PwrOut = 0, l_flgCalibration = 0,
       l_hdlLCD_Off = NONE,
       power_fail = False, eeprom = (\<lambda>_. 0),
       timer_cb = (\<lambda>h. if h = 0 \<or> h = 1 then Some CB_MeasureStop
                        else if h = 2 then Some CB_MeasureStopBATT
                        else if h = 3 \<or> h = 4 \<or> h = 5 then Some CB_IntervalPowerControl
                        else None),
       timer_remaining = (\<lambda>_. None), timer_count = 6,
       trace = [] \<rparr>"

section \<open>Control.c: configuration check\<close>

abbreviation (input) MIN_VAL_INTERVAL :: int where "MIN_VAL_INTERVAL \<equiv> 10"
abbreviation (input) MIN_VAL_ON_DURATION :: int where "MIN_VAL_ON_DURATION \<equiv> 5"
abbreviation (input) MIN_VAL_OFF_DURATION :: int where "MIN_VAL_OFF_DURATION \<equiv> 5"
abbreviation (input) MIN_SCAN_DURATION :: u32 where "MIN_SCAN_DURATION \<equiv> 52"
abbreviation (input) MAX_SCAN_DURATION :: u32 where "MAX_SCAN_DURATION \<equiv> 2200"

text \<open>The body of the loop over the power outputs in \<^verbatim>\<open>VerifyConfiguration\<close>.\<close>

definition verify_interval :: "int \<Rightarrow> sys \<Rightarrow> sys" where
  "verify_interval i s =
     (let interval = g_PwrInterval s i; duration = g_On_Duration s i in
      if interval \<le> 0 then s
      else
        (let r = (if interval < MIN_VAL_INTERVAL then
                    (emit (LogError
                       ''Config File - %s_INTERVAL: Value %ds is too small, minimum is %ds''
                       [AStr (enum_name g_enum_PowerOutput i), AInt interval,
                        AInt MIN_VAL_INTERVAL]) s, True)
                  else if duration < MIN_VAL_ON_DURATION then
                    (emit (LogError
                       ''Config File - %s_ON_DURATION: Value %ds is too small, minimum is %ds''
                       [AStr (enum_name g_enum_PowerOutput i), AInt duration,
                        AInt MIN_VAL_ON_DURATION]) s, True)
                  else if interval - duration < MIN_VAL_OFF_DURATION then
                    (emit (LogError
                       ''Config File - %s_ON_DURATION: Off duration of %ds is too small, limit the On duration!''
                       [AStr (enum_name g_enum_PowerOutput i), AInt (interval - duration)]) s,
                     True)
                  else (s, False))
         in if snd r
            then (fst r)\<lparr>g_PwrInterval := (g_PwrInterval (fst r))(i := - 1),
                         g_On_Duration := (g_On_Duration (fst r))(i := - 1)\<rparr>
            else fst r))"

definition verify_scan_duration :: "sys \<Rightarrow> sys" where
  "verify_scan_duration s =
     (if l_ScanDuration s < MIN_SCAN_DURATION then
        (emit (LogError
           ''Config File - SCAN_DURATION: Scan time of %ldms is too small, limiting it to %dms''
           [AInt (uint (l_ScanDuration s)), AInt (uint MIN_SCAN_DURATION)]) s)
          \<lparr>l_ScanDuration := MIN_SCAN_DURATION\<rparr>
      else if l_ScanDuration s > MAX_SCAN_DURATION then
        (emit (LogError
           ''Config File - SCAN_DURATION: Scan time of %ldms is too long, limiting it to %dms''
           [AInt (uint (l_ScanDuration s)), AInt (uint MAX_SCAN_DURATION)]) s)
          \<lparr>l_ScanDuration := MAX_SCAN_DURATION\<rparr>
      else s)"

definition VerifyConfiguration :: "sys \<Rightarrow> sys" where
  "VerifyConfiguration s =
     verify_scan_duration (verify_interval 2 (verify_interval 1 (verify_interval 0 s)))"

section \<open>Control.c: alarms and power cycle intervals\<close>

text \<open>
  The first thirty entries of \<^verbatim>\<open>l_CfgVarList\<close>.  \<^verbatim>\<open>CfgData.c\<close> sets the alarm
  \<^verbatim>\<open>ALARM_UA1_ON_TIME_1 + varIdx\<close> for the variable at index \<open>varIdx\<close>.
\<close>

definition l_CfgVarList :: "string list" where
  "l_CfgVarList =
     [''UA1_ON_TIME_1'', ''UA1_ON_TIME_2'', ''UA1_ON_TIME_3'', ''UA1_ON_TIME_4'', ''UA1_ON_TIME_5'',
      ''UA2_ON_TIME_1'', ''UA2_ON_TIME_2'', ''UA2_ON_TIME_3'', ''UA2_ON_TIME_4'', ''UA2_ON_TIME_5'',
      ''BATT_ON_TIME_1'', ''BATT_ON_TIME_2'', ''BATT_ON_TIME_3'', ''BATT_ON_TIME_4'',
      ''BATT_ON_TIME_5'',
      ''UA1_OFF_TIME_1'', ''UA1_OFF_TIME_2'', ''UA1_OFF_TIME_3'', ''UA1_OFF_TIME_4'',
      ''UA1_OFF_TIME_5'',
      ''UA2_OFF_TIME_1'', ''UA2_OFF_TIME_2'', ''UA2_OFF_TIME_3'', ''UA2_OFF_TIME_4'',
      ''UA2_OFF_TIME_5'',
      ''BATT_OFF_TIME_1'', ''BATT_OFF_TIME_2'', ''BATT_OFF_TIME_3'', ''BATT_OFF_TIME_4'',
      ''BATT_OFF_TIME_5'']"

text \<open>
  Modelled from the spec: the enum \<^verbatim>\<open>ALARM_ID\<close> of the missing \<^verbatim>\<open>config.h\<close>.
  The power alarms are thirty consecutive ids: five ON times each for UA1, UA2 and BATT,
  followed by five OFF times each for UA1, UA2 and BATT, in the order of
  \<^verbatim>\<open>l_CfgVarList\<close>.  The value of the first id is a parameter.
\<close>

definition ALARM_UA1_ON_TIME_1 :: "sys \<Rightarrow> int" where
  "ALARM_UA1_ON_TIME_1 s = cfg_ALARM_UA1_ON_TIME_1 s"
definition ALARM_UA2_ON_TIME_1 :: "sys \<Rightarrow> int" where
  "ALARM_UA2_ON_TIME_1 s = cfg_ALARM_UA1_ON_TIME_1 s + 5"
definition ALARM_BATT_ON_TIME_1 :: "sys \<Rightarrow> int" where
  "ALARM_BATT_ON_TIME_1 s = cfg_ALARM_UA1_ON_TIME_1 s + 10"
definition ALARM_UA1_OFF_TIME_1 :: "sys \<Rightarrow> int" where
  "ALARM_UA1_OFF_TIME_1 s = cfg_ALARM_UA1_ON_TIME_1 s + 15"
definition ALARM_UA2_OFF_TIME_1 :: "sys \<Rightarrow> int" where
  "ALARM_UA2_OFF_TIME_1 s = cfg_ALARM_UA1_ON_TIME_1 s + 20"
definition ALARM_BATT_OFF_TIME_1 :: "sys \<Rightarrow> int" where
  "ALARM_BATT_OFF_TIME_1 s = cfg_ALARM_UA1_ON_TIME_1 s + 25"
definition FIRST_POWER_ALARM :: "sys \<Rightarrow> int" where
  "FIRST_POWER_ALARM s = cfg_ALARM_UA1_ON_TIME_1 s"
definition LAST_POWER_ALARM :: "sys \<Rightarrow> int" where
  "LAST_POWER_ALARM s = cfg_ALARM_UA1_ON_TIME_1 s + 29"

text \<open>\<^verbatim>\<open>pwrState = (alarmNum >= ALARM_UA1_OFF_TIME_1 ? PWR_OFF : PWR_ON)\<close>\<close>

definition alarm_pwrState :: "int \<Rightarrow> sys \<Rightarrow> bool" where
  "alarm_pwrState alarmNum s = (if alarmNum \<ge> ALARM_UA1_OFF_TIME_1 s then PWR_OFF else PWR_ON)"

text \<open>The chain of comparisons under \<^verbatim>\<open>/* Determine Power Output */\<close>.\<close>

definition alarm_pwrOut :: "int \<Rightarrow> sys \<Rightarrow> PWR_OUT" where
  "alarm_pwrOut alarmNum s =
     (if alarmNum \<ge> ALARM_BATT_OFF_TIME_1 s then PWR_OUT_BATT
      else if alarmNum \<ge> ALARM_UA2_OFF_TIME_1 s then PWR_OUT_UA2
      else if alarmNum \<ge> ALARM_UA1_OFF_TIME_1 s then PWR_OUT_UA1
      else if alarmNum \<ge> ALARM_BATT_ON_TIME_1 s then PWR_OUT_BATT
      else if alarmNum \<ge> ALARM_UA2_ON_TIME_1 s then PWR_OUT_UA2
      else PWR_OUT_UA1)"

text \<open>
  The tail shared by \<^verbatim>\<open>AlarmPowerControl\<close> and \<^verbatim>\<open>IntervalPowerControl\<close>: an
  output that supplies the RFID reader is switched through the RFID module.
\<close>

definition switch_output :: "PWR_OUT \<Rightarrow> bool \<Rightarrow> sys \<Rightarrow> sys" where
  "switch_output pwrOut pwrState s =
     (let s1 = (if pwrOut = g_RFID_Power s then
                  (if pwrState = PWR_ON then RFID_Enable s else RFID_Disable s)
                else PowerOutput pwrOut pwrState s)
      in s1\<lparr>g_flgIRQ := True\<rparr>)"

text \<open>
  \<^verbatim>\<open>AlarmPowerControl\<close>.  The \<^verbatim>\<open>EFM_ASSERT\<close> on the range of the alarm number
  is compiled out of a release build and is not part of the model.
\<close>

definition AlarmPowerControl :: "int \<Rightarrow> sys \<Rightarrow> sys" where
  "AlarmPowerControl alarmNum s =
     (let pwrState = alarm_pwrState alarmNum s;
          pwrOut = alarm_pwrOut alarmNum s;
          s1 = (if pwrState = PWR_OFF then sTimerCancel (l_hdlPwrInterval s pwrOut) s
                else if g_On_Duration s pwrOut \<ge> MIN_VAL_ON_DURATION
                then sTimerStart (l_hdlPwrInterval s pwrOut) (g_On_Duration s pwrOut) s
                else s)
      in switch_output pwrOut pwrState s1)"

definition IntervalPowerControl :: "TIM_HDL \<Rightarrow> sys \<Rightarrow> sys" where
  "IntervalPowerControl hdl s =
     (if hdl \<noteq> l_hdlPwrInterval s PWR_OUT_UA1 \<and> hdl \<noteq> l_hdlPwrInterval s PWR_OUT_UA2
         \<and> hdl \<noteq> l_hdlPwrInterval s PWR_OUT_BATT
      then emit (LogError ''IntervalPowerControl(%d): Invalid timer handle'' [AInt hdl]) s
      else
        (let pwrOut = (if hdl = l_hdlPwrInterval s PWR_OUT_UA1 then PWR_OUT_UA1
                       else if hdl = l_hdlPwrInterval s PWR_OUT_UA2 then PWR_OUT_UA2
                       else PWR_OUT_BATT)
         in if g_PwrInterval s pwrOut < MIN_VAL_INTERVAL then s
            else if IsPowerOutputOn pwrOut s then
              switch_output pwrOut PWR_OFF
                (sTimerStart (l_hdlPwrInterval s pwrOut)
                   (g_PwrInterval s pwrOut - g_On_Duration s pwrOut) s)
            else
              switch_output pwrOut PWR_ON
                (sTimerStart (l_hdlPwrInterval s pwrOut) (g_On_Duration s pwrOut) s)))"

text \<open>The callbacks of the follow-up timers.\<close>

definition MeasureStop :: "TIM_HDL \<Rightarrow> sys \<Rightarrow> sys" where
  "MeasureStop hdl s =
     (if hdlFollowUpTime s 0 \<noteq> hdl \<and> hdlFollowUpTime s 1 \<noteq> hdl then s
      else
        (let m = (if hdlFollowUpTime s 0 = hdl then 0 else 1);
             s1 = s\<lparr>l_ADC_ActiveChanMask :=
                       unset_bit (ChanI m) (unset_bit (ChanU m) (l_ADC_ActiveChanMask s))\<rparr>;
             s2 = (if l_ADC_ActiveChanMask s1 = 0
                   then s1\<lparr>l_flgADC_On := False, g_flgIRQ := True\<rparr> else s1)
         in s2\<lparr>meas_pin := (meas_pin s2)(m := False)\<rparr>))"

definition MeasureStopBATT :: "TIM_HDL \<Rightarrow> sys \<Rightarrow> sys" where
  "MeasureStopBATT hdl s =
     Log_if_LOGGING ''BATT_INP: Measuring stopped'' [] (s\<lparr>l_flgLogBATT := False\<rparr>)"

section \<open>Control.c: measurement values and calibration\<close>

text \<open>
  Unsigned 32-bit division.  No routine of \<^verbatim>\<open>Control.c\<close> checks the divisor, and a
  division by zero is undefined behaviour in C: it is the result \<open>None\<close>.  (What the
  processor then does is outside the program: it raises a fault, or writes a quotient
  that is no divider.)
\<close>

definition udiv32 :: "u32 \<Rightarrow> u32 \<Rightarrow> u32 option" where
  "udiv32 a b = (if b = 0 then None else Some (a div b))"

definition PowerVoltage :: "PWR_OUT \<Rightarrow> sys \<Rightarrow> u32 option" where
  "PowerVoltage output s =
     udiv32 (push_bit 16 (l_ADC_Value s (output * 2))) (l_mV_Divider s output)"

definition PowerCurrent :: "PWR_OUT \<Rightarrow> sys \<Rightarrow> u32 option" where
  "PowerCurrent output s =
     udiv32 (push_bit 16 (l_ADC_Value s (output * 2 + 1))) (l_mA_Divider s output)"

text \<open>
  \<^verbatim>\<open>CalibrateVoltage\<close> and \<^verbatim>\<open>CalibrateCurrent\<close> are \<^verbatim>\<open>void\<close>: they divide by the
  reference value and store the quotient.  (The \<^verbatim>\<open>EFM_ASSERT\<close> on the output is
  compiled out of a release build.)
\<close>

definition CalibrateVoltage :: "PWR_OUT \<Rightarrow> u32 \<Rightarrow> sys \<Rightarrow> sys option" where
  "CalibrateVoltage output referenceValue_mV s =
     (case udiv32 (push_bit 16 (l_ADC_Value s (output * 2))) referenceValue_mV of
        None \<Rightarrow> None
      | Some q \<Rightarrow> Some (s\<lparr>l_mV_Divider := (l_mV_Divider s)(output := q)\<rparr>))"

definition CalibrateCurrent :: "PWR_OUT \<Rightarrow> u32 \<Rightarrow> sys \<Rightarrow> sys option" where
  "CalibrateCurrent output referenceValue_mA s =
     (case udiv32 (push_bit 16 (l_ADC_Value s (output * 2 + 1))) referenceValue_mA of
        None \<Rightarrow> None
      | Some q \<Rightarrow> Some (s\<lparr>l_mA_Divider := (l_mA_Divider s)(output := q)\<rparr>))"

abbreviation (input) MAGIC_ID :: u16 where "MAGIC_ID \<equiv> 0x0815"

text \<open>
  Modelled from the spec: the EEPROM emulation (\<^verbatim>\<open>eeprom_emulation.c\<close>, not among
  the sources) is non-volatile storage of one 16-bit word per declared variable;
  \<^verbatim>\<open>EE_Write\<close> stores a word and \<^verbatim>\<open>EE_Read\<close> returns the stored word.
\<close>

definition EE_Write :: "ee_var \<Rightarrow> u16 \<Rightarrow> sys \<Rightarrow> sys" where
  "EE_Write var data s = s\<lparr>eeprom := (eeprom s)(var := data)\<rparr>"

text \<open>Modelled from the spec: \<^verbatim>\<open>EE_Read\<close> of the same EEPROM emulation.\<close>

definition EE_Read :: "ee_var \<Rightarrow> sys \<Rightarrow> u16" where
  "EE_Read var s = eeprom s var"

text \<open>\<^verbatim>\<open>(uint32_t)(data_h << 16) + (uint32_t)data_l\<close>\<close>

definition join16 :: "u16 \<Rightarrow> u16 \<Rightarrow> u32" where
  "join16 data_h data_l = push_bit 16 (ucast data_h) + ucast data_l"

text \<open>\<^verbatim>\<open>(uint16_t)((x >> 16) & 0xFFFF)\<close> and \<^verbatim>\<open>(uint16_t)(x & 0xFFFF)\<close>\<close>

definition high16 :: "u32 \<Rightarrow> u16" where
  "high16 x = ucast (drop_bit 16 x AND 0xFFFF)"

definition low16 :: "u32 \<Rightarrow> u16" where
  "low16 x = ucast (x AND 0xFFFF)"

definition set_default_dividers :: "sys \<Rightarrow> sys" where
  "set_default_dividers s =
     s\<lparr>l_mA_Divider := (l_mA_Divider s)(0 := 0x10000, 1 := 0x10000),
       l_mV_Divider := (l_mV_Divider s)(0 := 0x10000, 1 := 0x10000)\<rparr>"

definition ReadCalibrationData :: "sys \<Rightarrow> sys" where
  "ReadCalibrationData s0 =
     (let s = Log_if_LOGGING ''Reading Calibration Values from Flash'' [] s0 in
      if EE_Read magic s = MAGIC_ID then
        (let sum0 = EE_Read magic s;
             h1 = EE_Read ua1mV_h s; l1 = EE_Read ua1mV_l s;
             s1 = s\<lparr>l_mV_Divider := (l_mV_Divider s)(0 := join16 h1 l1)\<rparr>;
             h2 = EE_Read ua1mA_h s1; l2 = EE_Read ua1mA_l s1;
             s2 = s1\<lparr>l_mA_Divider := (l_mA_Divider s1)(0 := join16 h2 l2)\<rparr>;
             h3 = EE_Read ua2mV_h s2; l3 = EE_Read ua2mV_l s2;
             s3 = s2\<lparr>l_mV_Divider := (l_mV_Divider s2)(1 := join16 h3 l3)\<rparr>;
             h4 = EE_Read ua2mA_h s3; l4 = EE_Read ua2mA_l s3;
             s4 = s3\<lparr>l_mA_Divider := (l_mA_Divider s3)(1 := join16 h4 l4)\<rparr>;
             sum = sum0 + h1 + l1 + h2 + l2 + h3 + l3 + h4 + l4;
             data_h = EE_Read chksum s4
         in if sum \<noteq> data_h then
              set_default_dividers
                (Log_if_LOGGING ''Calibration Values: Wrong magic or checksum - using defaults'' [] s4)
            else s4)
      else
        set_default_dividers
          (Log_if_LOGGING ''Calibration Values: Wrong magic or checksum - using defaults'' [] s))"

definition WriteCalibrationData :: "sys \<Rightarrow> sys" where
  "WriteCalibrationData s0 =
     (let s = emit INT_Disable s0;
          sum0 = MAGIC_ID;
          s1 = EE_Write magic MAGIC_ID s;
          d1 = high16 (l_mV_Divider s1 0); s2 = EE_Write ua1mV_h d1 s1;
          d2 = low16 (l_mV_Divider s2 0); s3 = EE_Write ua1mV_l d2 s2;
          d3 = high16 (l_mA_Divider s3 0); s4 = EE_Write ua1mA_h d3 s3;
          d4 = low16 (l_mA_Divider s4 0); s5 = EE_Write ua1mA_l d4 s4;
          d5 = high16 (l_mV_Divider s5 1); s6 = EE_Write ua2mV_h d5 s5;
          d6 = low16 (l_mV_Divider s6 1); s7 = EE_Write ua2mV_l d6 s6;
          d7 = high16 (l_mA_Divider s7 1); s8 = EE_Write ua2mA_h d7 s7;
          d8 = low16 (l_mA_Divider s8 1); s9 = EE_Write ua2mA_l d8 s8;
          sum = sum0 + d1 + d2 + d3 + d4 + d5 + d6 + d7 + d8;
          s10 = EE_Write chksum sum s9
      in Log_if_LOGGING ''Calibration Values have been saved to Flash'' [] (emit INT_Enable s10))"

text \<open>
  A storage image with one byte replaced: the low or the high byte of the word of one
  variable.
\<close>

definition set_low_byte :: "u16 \<Rightarrow> u8 \<Rightarrow> u16" where
  "set_low_byte x b = (x AND 0xFF00) OR ucast b"

definition set_high_byte :: "u16 \<Rightarrow> u8 \<Rightarrow> u16" where
  "set_high_byte x b = (x AND 0x00FF) OR push_bit 8 (ucast b)"

definition low_byte :: "u16 \<Rightarrow> u8" where
  "low_byte x = ucast x"

definition high_byte :: "u16 \<Rightarrow> u8" where
  "high_byte x = ucast (drop_bit 8 x)"

definition corrupt_byte :: "ee_var \<Rightarrow> bool \<Rightarrow> u8 \<Rightarrow> sys \<Rightarrow> sys" where
  "corrupt_byte var high b s =
     s\<lparr>eeprom := (eeprom s)
          (var := (if high then set_high_byte (eeprom s var) b
                   else set_low_byte (eeprom s var) b))\<rparr>"

section \<open>DM_PowerOutput.c: the calibration menu\<close>

datatype KEYCODE =
    KEYCODE_NONE
  | KEYCODE_UP_ASSERT | KEYCODE_UP_REPEAT | KEYCODE_UP_RELEASE
  | KEYCODE_DOWN_ASSERT | KEYCODE_DOWN_REPEAT | KEYCODE_DOWN_RELEASE
  | KEYCODE_RIGHT_ASSERT | KEYCODE_RIGHT_REPEAT | KEYCODE_RIGHT_RELEASE
  | KEYCODE_LEFT_ASSERT | KEYCODE_LEFT_REPEAT | KEYCODE_LEFT_RELEASE
  | KEYCODE_SET_ASSERT | KEYCODE_SET_REPEAT | KEYCODE_SET_RELEASE
  | KEYCODE_MENU_INIT | KEYCODE_MENU_ENTER | KEYCODE_MENU_EXIT | KEYCODE_MENU_UPDATE

text \<open>\<^verbatim>\<open>DisplayTimerCancel\<close> of \<^verbatim>\<open>DisplayMenu.c\<close>\<close>

definition DisplayTimerCancel :: "sys \<Rightarrow> sys" where
  "DisplayTimerCancel s = (if l_hdlLCD_Off s \<noteq> NONE then sTimerCancel (l_hdlLCD_Off s) s else s)"

text \<open>
  \<^verbatim>\<open>MenuCalibrateOutput\<close>: the returned key code and the new state, or \<open>None\<close> when
  one of the two calibration routines has divided by zero.  The menu is registered with
  \<open>arg\<close> \<^verbatim>\<open>PWR_OUT_UA1\<close> and \<^verbatim>\<open>PWR_OUT_UA2\<close>.
\<close>

definition MenuCalibrateOutput :: "KEYCODE \<Rightarrow> int \<Rightarrow> sys \<Rightarrow> (KEYCODE \<times> sys) option" where
  "MenuCalibrateOutput keycode arg s0 =
     (let idx = arg - PWR_OUT_UA1;
          s = DisplayTimerCancel (s0\<lparr>l_PwrOut := arg\<rparr>)
      in if keycode = KEYCODE_MENU_ENTER then Some (keycode, PowerOutput (l_PwrOut s) PWR_ON s)
         else if keycode = KEYCODE_MENU_EXIT
         then Some (keycode, PowerOutput (l_PwrOut s) PWR_OFF s)
         else if keycode = KEYCODE_SET_RELEASE then
           (if g_UA_Calib_mV s idx = 0 then Some (keycode, s)
            else
              (case CalibrateVoltage (l_PwrOut s) (g_UA_Calib_mV s idx) s of
                 None \<Rightarrow> None
               | Some s1 \<Rightarrow>
                   (case CalibrateCurrent (l_PwrOut s1) (g_UA_Calib_mA s1 idx) s1 of
                      None \<Rightarrow> None
                    | Some s2 \<Rightarrow>
                        Some (KEYCODE_NONE,
                              s2\<lparr>l_flgCalibration :=
                                    l_flgCalibration s2 OR push_bit (nat idx) 1\<rparr>))))
         else Some (keycode, s))"

section \<open>The timer tick\<close>

definition run_callback :: "timer_callback \<Rightarrow> TIM_HDL \<Rightarrow> sys \<Rightarrow> sys" where
  "run_callback cb hdl s =
     (case cb of
        CB_MeasureStop \<Rightarrow> MeasureStop hdl s
      | CB_MeasureStopBATT \<Rightarrow> MeasureStopBATT hdl s
      | CB_IntervalPowerControl \<Rightarrow> IntervalPowerControl hdl s
      | CB_TransponderAbsent \<Rightarrow> TransponderAbsent hdl s
      | CB_SwitchRFID_Off \<Rightarrow> SwitchRFID_Off hdl s
      | CB_RFID_DetectTimeout \<Rightarrow> RFID_DetectTimeout hdl s
      | CB_SwitchLCD_Off \<Rightarrow> s)"

text \<open>
  Modelled from the spec: the tick of the timer pool, once per RTC second.  It
  decrements every armed countdown; a countdown that reaches zero is disarmed and its
  callback is invoked synchronously.  Timers that expire in the same tick are served in
  the order of their slots.  (The callback of the display timer lies outside the core
  and leaves the state of the model as it is.)
\<close>

definition timer_tick_slot :: "TIM_HDL \<Rightarrow> sys \<Rightarrow> sys" where
  "timer_tick_slot hdl s =
     (case timer_cb s hdl of
        None \<Rightarrow> s
      | Some cb \<Rightarrow>
          (case timer_remaining s hdl of
             None \<Rightarrow> s
           | Some n \<Rightarrow>
               if n - 1 \<le> 0
               then run_callback cb hdl (s\<lparr>timer_remaining := (timer_remaining s)(hdl := None)\<rparr>)
               else s\<lparr>timer_remaining := (timer_remaining s)(hdl := Some (n - 1))\<rparr>))"

fun timer_tick_slots :: "nat \<Rightarrow> nat \<Rightarrow> sys \<Rightarrow> sys" where
  "timer_tick_slots 0 h s = s"
| "timer_tick_slots (Suc k) h s = timer_tick_slots k (Suc h) (timer_tick_slot (int h) s)"

definition sTimerTick :: "sys \<Rightarrow> sys" where
  "sTimerTick s = timer_tick_slots (timer_count s) 0 s"

fun ticks :: "nat \<Rightarrow> sys \<Rightarrow> sys" where
  "ticks 0 s = s"
| "ticks (Suc k) s = ticks k (sTimerTick s)"

section \<open>Example states\<close>

text \<open>Power-fail is asserted while output UA2 is still switched on.\<close>

definition power_fail_state :: sys where
  "power_fail_state = reset_state\<lparr>power_fail := True, pwr_pin := (\<lambda>i. i = 1)\<rparr>"

text \<open>
  The state without the variables that only \<^verbatim>\<open>RFID_Decode\<close> uses (the error counters,
  the checksums, the frame buffer and its index): two states that agree on it differ in
  nothing that the rest of the firmware reads.
\<close>

definition forget_decoder :: "sys \<Rightarrow> sys" where
  "forget_decoder s =
     s\<lparr>g_FERR_Cnt := 0, g_PERR_Cnt := 0, xorsum := 0, w := (\<lambda>_. 0), crc := 0, l_State := 0\<rparr>"

text \<open>
  A well-formed Short Range frame: fourteen bytes, the five prefix bytes, eight payload
  bytes, and in byte 13 the XOR of bytes 0 to 12.
\<close>

definition SR_frame :: "u8 list \<Rightarrow> bool" where
  "SR_frame f \<longleftrightarrow> length f = 14 \<and> take 5 f = v \<and> f ! 13 = foldl (XOR) 0 (take 13 f)"

text \<open>The number of times the new-ID flag has been raised.\<close>

fun is_NewID :: "event \<Rightarrow> bool" where
  "is_NewID (NewID_Raised tid) = True"
| "is_NewID e = False"

definition new_ID_notifications :: "sys \<Rightarrow> nat" where
  "new_ID_notifications s = length (filter is_NewID (trace s))"

text \<open>
  A Short Range frame as the UART delivers it, and a reader of type SR on output UA1
  with the absence timer (handle 6) created, just enabled.
\<close>

definition example_SR_frame :: "u32 list" where
  "example_SR_frame =
     [0x0E, 0x00, 0x11, 0x00, 0x05, 0x01, 0x02, 0x03, 0xA4, 0x05, 0x06, 0x07, 0x08, 0xB2]"

definition SR_reader_state :: sys where
  "SR_reader_state =
     RFID_Enable (reset_state\<lparr>g_RFID_Type := RFID_TYPE_SR, g_RFID_Power := PWR_OUT_UA1,
        l_flgRFID_Activate := True, l_pRFID_Cfg_Type := RFID_TYPE_SR,
        l_pRFID_Cfg_PwrOut := PWR_OUT_UA1, l_hdlRFID_AbsentDetect := 6,
        timer_cb := (timer_cb reset_state)(6 := Some CB_TransponderAbsent),
        timer_count := 7\<rparr>)"

text \<open>
  The CRC that the Long Range state machine has built after the bytes \<open>bs\<close>, when the
  first of them arrives in state \<open>k\<close> with the CRC \<open>c\<close>: states 0 and 1 start from 0,
  states 0 to 8 take the byte in, state 9 does not.
\<close>

fun LR_crc :: "nat \<Rightarrow> u16 \<Rightarrow> u8 list \<Rightarrow> u16" where
  "LR_crc k c [] = c"
| "LR_crc k c (b # bs) =
     LR_crc (Suc k) (if k \<le> 8 then crc_kermit (if k \<le> 1 then 0 else c) (ucast b) else c) bs"

text \<open>
  A well-formed Long Range frame: eleven bytes, the prefix \<open>0x54\<close>, and in bytes 9 (low)
  and 10 (high) the CRC of the bytes before them.
\<close>

definition LR_frame :: "u8 list \<Rightarrow> bool" where
  "LR_frame f \<longleftrightarrow> length f = 11 \<and> f ! 0 = 0x54
     \<and> push_bit 8 (ucast (f ! 10)) OR ucast (f ! 9) = LR_crc 0 0 (take 10 f)"

text \<open>A frame that is well-formed for the configured reader type.\<close>

definition valid_frame :: "RFID_TYPE \<Rightarrow> u8 list \<Rightarrow> bool" where
  "valid_frame ty f \<longleftrightarrow> ty = RFID_TYPE_SR \<and> SR_frame f \<or> ty = RFID_TYPE_LR \<and> LR_frame f"

text \<open>
  No reader is in use: none is configured for one of the three outputs, and the RFID
  module has neither enabled nor powered one.
\<close>

definition reader_unused :: "sys \<Rightarrow> bool" where
  "reader_unused s \<longleftrightarrow>
     \<not> (0 \<le> g_RFID_Power s \<and> g_RFID_Power s < NUM_PWR_OUT)
   \<and> \<not> l_flgRFID_On s \<and> \<not> l_flgRFID_IsOn s"

text \<open>
  The output \<open>r\<close> supplies the RFID reader: the alarms and the interval timer switch it
  through \<^verbatim>\<open>RFID_Enable\<close> and \<^verbatim>\<open>RFID_Disable\<close>, or it is the output that
  \<^verbatim>\<open>RFID_PowerOn\<close> and \<^verbatim>\<open>RFID_PowerOff\<close> switch for a reader in use.
\<close>

definition RFID_supply :: "PWR_OUT \<Rightarrow> sys \<Rightarrow> bool" where
  "RFID_supply r s \<longleftrightarrow>
     r = g_RFID_Power s \<or> (r = l_pRFID_Cfg_PwrOut s \<and> \<not> reader_unused s)"

text \<open>
  The configuration of the power cycle of output \<open>r\<close> is one that
  \<^verbatim>\<open>VerifyConfiguration\<close> accepts with an interval greater than 0.
\<close>

definition valid_cycle :: "PWR_OUT \<Rightarrow> sys \<Rightarrow> bool" where
  "valid_cycle r s \<longleftrightarrow>
     g_PwrInterval s r \<ge> MIN_VAL_INTERVAL \<and> g_On_Duration s r \<ge> MIN_VAL_ON_DURATION
   \<and> g_PwrInterval s r - g_On_Duration s r \<ge> MIN_VAL_OFF_DURATION"





text \<open>
  One pass of the service loop of \<^verbatim>\<open>main.c\<close>, as far as the core is concerned:
  \<^verbatim>\<open>if (! PowerFailCheck()) RFID_Check();\<close>, where \<^verbatim>\<open>PowerFailCheck\<close> of the
  missing \<^verbatim>\<open>PowerFail.c\<close> is taken to report the power-fail condition.  One second
  of the firmware is the tick of the timer pool followed by a pass of the service loop.
\<close>

definition service_loop :: "sys \<Rightarrow> sys" where
  "service_loop s = (if IsPowerFail s then s else RFID_Check s)"

definition second :: "sys \<Rightarrow> sys" where
  "second s = service_loop (sTimerTick s)"

fun seconds :: "nat \<Rightarrow> sys \<Rightarrow> sys" where
  "seconds 0 s = s"
| "seconds (Suc k) s = seconds k (second s)"

text \<open>
  The part of the state that a power cycle depends on and that neither a second nor an
  alarm changes: the configuration, the power-fail input and the timer handles.
\<close>

definition cycle_setup :: "sys \<Rightarrow>
    (int \<Rightarrow> int) \<times> (int \<Rightarrow> int) \<times> PWR_OUT \<times> PWR_OUT \<times> bool \<times> int
    \<times> (int \<Rightarrow> timer_callback option) \<times> nat \<times> (int \<Rightarrow> TIM_HDL) \<times> (int \<Rightarrow> TIM_HDL)
    \<times> TIM_HDL \<times> TIM_HDL \<times> TIM_HDL \<times> TIM_HDL" where
  "cycle_setup s =
     (g_PwrInterval s, g_On_Duration s, g_RFID_Power s, l_pRFID_Cfg_PwrOut s, power_fail s,
      cfg_ALARM_UA1_ON_TIME_1 s, timer_cb s, timer_count s, l_hdlPwrInterval s,
      hdlFollowUpTime s, l_hdlFollowUpTimeBATT s, l_hdlRFID_AbsentDetect s, l_hdlRFID_Off s,
      l_hdlRFID_DetectTimeout s)"

text \<open>
  The timer \<open>h\<close> is none of the timers that \<^verbatim>\<open>PowerOutput\<close> and the RFID module
  start and cancel.
\<close>

definition foreign_timer :: "TIM_HDL \<Rightarrow> sys \<Rightarrow> bool" where
  "foreign_timer h s \<longleftrightarrow>
     h \<notin> set [hdlFollowUpTime s 0, hdlFollowUpTime s 1, l_hdlFollowUpTimeBATT s,
               l_hdlRFID_AbsentDetect s, l_hdlRFID_Off s, l_hdlRFID_DetectTimeout s]"


text \<open>
  The ADC has delivered raw values, and the configuration file gives a reference
  voltage for UA1 and no reference current (\<^verbatim>\<open>UA1_CALIBRATE_mV = 5000\<close>, no
  \<^verbatim>\<open>UA1_CALIBRATE_mA\<close>): \<^verbatim>\<open>ClearConfiguration\<close> has set all four reference values
  to 0 before the file is read.
\<close>

definition measuring_state :: sys where
  "measuring_state =
     reset_state\<lparr>l_ADC_Value := (\<lambda>_. 1000), g_UA_Calib_mV := (\<lambda>i. if i = 0 then 5000 else 0)\<rparr>"

text \<open>
  The reader is powered when \<^verbatim>\<open>RFID_Check\<close> has marked it so, the UART clock and the
  Rx pin are enabled and the output that supplies the reader is on; it is torn down when
  all four are off.
\<close>

definition reader_powered :: "sys \<Rightarrow> bool" where
  "reader_powered s \<longleftrightarrow>
     l_flgRFID_IsOn s \<and> uart_clock s \<and> uart_rx_pin s \<and> pwr_pin s (l_pRFID_Cfg_PwrOut s)"

definition torn_down :: "sys \<Rightarrow> bool" where
  "torn_down s \<longleftrightarrow>
     \<not> l_flgRFID_IsOn s \<and> \<not> uart_clock s \<and> \<not> uart_rx_pin s
       \<and> \<not> pwr_pin s (l_pRFID_Cfg_PwrOut s)"

text \<open>
  What the firmware does with the reader while it is disabled: the service loop of
  \<^verbatim>\<open>main.c\<close> calls \<^verbatim>\<open>RFID_Check\<close>, and \<^verbatim>\<open>USART1_RX_IRQHandler\<close> calls
  \<^verbatim>\<open>RFID_Decode\<close> with each received word.
\<close>

datatype activity = Call_RFID_Check | Call_RFID_Decode u32

fun perform :: "activity \<Rightarrow> sys \<Rightarrow> sys option" where
  "perform Call_RFID_Check s = Some (RFID_Check s)"
| "perform (Call_RFID_Decode rx) s = RFID_Decode rx s"

fun perform_all :: "activity list \<Rightarrow> sys \<Rightarrow> sys option" where
  "perform_all [] s = Some s"
| "perform_all (a # as) s =
     (case perform a s of None \<Rightarrow> None | Some s' \<Rightarrow> perform_all as s')"

text \<open>
  The reader of \<open>SR_reader_state\<close> after \<^verbatim>\<open>RFID_Check\<close> has powered it on, without
  and with a transponder ID stored.
\<close>

definition reader_on_state :: sys where
  "reader_on_state = RFID_Check SR_reader_state"

definition bird_present_state :: sys where
  "bird_present_state = reader_on_state\<lparr>g_Transponder := ''A403020105001100''\<rparr>"

text \<open>
  The error lines of \<^verbatim>\<open>VerifyConfiguration\<close> about the power cycle of output \<open>i\<close>:
  their first argument is the name of the output.
\<close>

fun is_interval_error :: "int \<Rightarrow> event \<Rightarrow> bool" where
  "is_interval_error i (LogError fmt (AStr n # args)) = (n = enum_name g_enum_PowerOutput i)"
| "is_interval_error i e = False"

definition interval_errors :: "int \<Rightarrow> sys \<Rightarrow> nat" where
  "interval_errors i s = length (filter (is_interval_error i) (trace s))"

text \<open>
  Two configurations as \<^verbatim>\<open>CfgRead\<close> can leave them: a negative interval for UA1
  (a digit string beyond the range of \<^verbatim>\<open>int32_t\<close>), and an interval for UA2 whose
  off phase would last 4 seconds.
\<close>

definition negative_interval_state :: sys where
  "negative_interval_state =
     reset_state\<lparr>g_PwrInterval := (\<lambda>i. if i = 0 then - 5 else 0),
                 g_On_Duration := (\<lambda>i. if i = 0 then 7 else 0)\<rparr>"

definition short_off_state :: sys where
  "short_off_state =
     reset_state\<lparr>g_PwrInterval := (\<lambda>i. if i = 1 then 12 else 0),
                 g_On_Duration := (\<lambda>i. if i = 1 then 8 else 0)\<rparr>"

text \<open>
  The name of the configuration variable for the \<open>k\<close>-th (counted from 0) ON or OFF
  time of an output, and the outputs of the six groups of five alarm ids.
\<close>

definition alarm_name :: "PWR_OUT \<Rightarrow> bool \<Rightarrow> nat \<Rightarrow> string" where
  "alarm_name out st k =
     enum_name g_enum_PowerOutput out @ (if st = PWR_ON then ''_ON_TIME_'' else ''_OFF_TIME_'')
       @ [''12345'' ! k]"

definition rail_groups :: "PWR_OUT list" where
  "rail_groups = [PWR_OUT_UA1, PWR_OUT_UA2, PWR_OUT_BATT, PWR_OUT_UA1, PWR_OUT_UA2, PWR_OUT_BATT]"

text \<open>The comparisons of \<^verbatim>\<open>AlarmPowerControl\<close>, relative to the first alarm id.\<close>

definition offset_pwrOut :: "int \<Rightarrow> PWR_OUT" where
  "offset_pwrOut i =
     (if i \<ge> 25 then PWR_OUT_BATT else if i \<ge> 20 then PWR_OUT_UA2
      else if i \<ge> 15 then PWR_OUT_UA1 else if i \<ge> 10 then PWR_OUT_BATT
      else if i \<ge> 5 then PWR_OUT_UA2 else PWR_OUT_UA1)"

text \<open>The sum that \<^verbatim>\<open>ReadCalibrationData\<close> builds over the magic word and the eight halves.\<close>

definition image_checksum :: "(ee_var \<Rightarrow> u16) \<Rightarrow> u16" where
  "image_checksum e =
     e magic + e ua1mV_h + e ua1mV_l + e ua1mA_h + e ua1mA_l
       + e ua2mV_h + e ua2mV_l + e ua2mA_h + e ua2mA_l"

text \<open>A state with four calibrated dividers.\<close>

definition calibrated_state :: sys where
  "calibrated_state =
     reset_state\<lparr>l_mV_Divider := (\<lambda>i. if i = 0 then 0x12345 else 0x0FEDC),
                 l_mA_Divider := (\<lambda>i. if i = 0 then 0x10000 else 0x23456)\<rparr>"

section \<open>What the collaborators leave unchanged\<close>

text \<open>
  Logging and the timer interface write the trace and the countdowns and nothing else.
\<close>

lemma emit_frame [simp]:
  "cfg_LOGGING (emit e s) = cfg_LOGGING s" "cfg_LIGHT_BARRIER (emit e s) = cfg_LIGHT_BARRIER s"
  "cfg_DISPLAY_UPDATE_WHEN_ABSENT (emit e s) = cfg_DISPLAY_UPDATE_WHEN_ABSENT s" "cfg_ALARM_UA1_ON_TIME_1 (emit e s) = cfg_ALARM_UA1_ON_TIME_1 s"
  "g_RFID_Type (emit e s) = g_RFID_Type s" "g_RFID_Power (emit e s) = g_RFID_Power s"
  "g_RFID_AbsentDetectTimeout (emit e s) = g_RFID_AbsentDetectTimeout s" "g_RFID_PwrOffTimeout (emit e s) = g_RFID_PwrOffTimeout s"
  "g_RFID_DetectTimeout (emit e s) = g_RFID_DetectTimeout s" "g_FERR_Cnt (emit e s) = g_FERR_Cnt s"
  "g_PERR_Cnt (emit e s) = g_PERR_Cnt s" "g_Transponder (emit e s) = g_Transponder s"
  "l_flgRFID_Activate (emit e s) = l_flgRFID_Activate s" "l_pRFID_Cfg_Type (emit e s) = l_pRFID_Cfg_Type s"
  "l_pRFID_Cfg_PwrOut (emit e s) = l_pRFID_Cfg_PwrOut s" "l_flgRFID_On (emit e s) = l_flgRFID_On s"
  "l_flgRFID_IsOn (emit e s) = l_flgRFID_IsOn s" "l_hdlRFID_AbsentDetect (emit e s) = l_hdlRFID_AbsentDetect s"
  "l_hdlRFID_Off (emit e s) = l_hdlRFID_Off s" "l_flgObjectPresent (emit e s) = l_flgObjectPresent s"
  "l_hdlRFID_DetectTimeout (emit e s) = l_hdlRFID_DetectTimeout s" "l_flgNewRun (emit e s) = l_flgNewRun s"
  "l_flgNewID (emit e s) = l_flgNewID s" "l_State (emit e s) = l_State s"
  "xorsum (emit e s) = xorsum s" "w (emit e s) = w s"
  "crc (emit e s) = crc s" "uart_clock (emit e s) = uart_clock s"
  "uart_rx_pin (emit e s) = uart_rx_pin s" "uart_type (emit e s) = uart_type s"
  "em1_mod_rfid (emit e s) = em1_mod_rfid s" "g_PwrInterval (emit e s) = g_PwrInterval s"
  "g_On_Duration (emit e s) = g_On_Duration s" "g_flgIRQ (emit e s) = g_flgIRQ s"
  "l_hdlPwrInterval (emit e s) = l_hdlPwrInterval s" "pwr_pin (emit e s) = pwr_pin s"
  "meas_pin (emit e s) = meas_pin s" "hdlFollowUpTime (emit e s) = hdlFollowUpTime s"
  "FollowUpTime (emit e s) = FollowUpTime s" "l_ScanDuration (emit e s) = l_ScanDuration s"
  "l_ADC_ActiveChanMask (emit e s) = l_ADC_ActiveChanMask s" "l_ADC_Value (emit e s) = l_ADC_Value s"
  "l_prev_value_mV (emit e s) = l_prev_value_mV s" "l_prev_value_mA (emit e s) = l_prev_value_mA s"
  "l_prev_BATT_mV (emit e s) = l_prev_BATT_mV s" "l_prev_BATT_mA (emit e s) = l_prev_BATT_mA s"
  "l_BATT_FollowUpTime (emit e s) = l_BATT_FollowUpTime s" "l_hdlFollowUpTimeBATT (emit e s) = l_hdlFollowUpTimeBATT s"
  "l_flgLogBATT (emit e s) = l_flgLogBATT s" "l_BATT_MeasureInterval (emit e s) = l_BATT_MeasureInterval s"
  "l_flgADC_On (emit e s) = l_flgADC_On s" "l_mV_Divider (emit e s) = l_mV_Divider s"
  "l_mA_Divider (emit e s) = l_mA_Divider s" "g_UA_Calib_mV (emit e s) = g_UA_Calib_mV s"
  "g_UA_Calib_mA (emit e s) = g_UA_Calib_mA s" "l_PwrOut (emit e s) = l_PwrOut s"
  "l_flgCalibration (emit e s) = l_flgCalibration s" "l_hdlLCD_Off (emit e s) = l_hdlLCD_Off s"
  "power_fail (emit e s) = power_fail s" "eeprom (emit e s) = eeprom s"
  "timer_cb (emit e s) = timer_cb s" "timer_remaining (emit e s) = timer_remaining s"
  "timer_count (emit e s) = timer_count s"
  by (simp_all add: emit_def)

lemma trace_emit [simp]: "trace (emit e s) = trace s @ [e]"
  by (simp add: emit_def)

lemma Log_if_LOGGING_frame [simp]:
  "cfg_LOGGING (Log_if_LOGGING f a s) = cfg_LOGGING s" "cfg_LIGHT_BARRIER (Log_if_LOGGING f a s) = cfg_LIGHT_BARRIER s"
  "cfg_DISPLAY_UPDATE_WHEN_ABSENT (Log_if_LOGGING f a s) = cfg_DISPLAY_UPDATE_WHEN_ABSENT s" "cfg_ALARM_UA1_ON_TIME_1 (Log_if_LOGGING f a s) = cfg_ALARM_UA1_ON_TIME_1 s"
  "g_RFID_Type (Log_if_LOGGING f a s) = g_RFID_Type s" "g_RFID_Power (Log_if_LOGGING f a s) = g_RFID_Power s"
  "g_RFID_AbsentDetectTimeout (Log_if_LOGGING f a s) = g_RFID_AbsentDetectTimeout s" "g_RFID_PwrOffTimeout (Log_if_LOGGING f a s) = g_RFID_PwrOffTimeout s"
  "g_RFID_DetectTimeout (Log_if_LOGGING f a s) = g_RFID_DetectTimeout s" "g_FERR_Cnt (Log_if_LOGGING f a s) = g_FERR_Cnt s"
  "g_PERR_Cnt (Log_if_LOGGING f a s) = g_PERR_Cnt s" "g_Transponder (Log_if_LOGGING f a s) = g_Transponder s"
  "l_flgRFID_Activate (Log_if_LOGGING f a s) = l_flgRFID_Activate s" "l_pRFID_Cfg_Type (Log_if_LOGGING f a s) = l_pRFID_Cfg_Type s"
  "l_pRFID_Cfg_PwrOut (Log_if_LOGGING f a s) = l_pRFID_Cfg_PwrOut s" "l_flgRFID_On (Log_if_LOGGING f a s) = l_flgRFID_On s"
  "l_flgRFID_IsOn (Log_if_LOGGING f a s) = l_flgRFID_IsOn s" "l_hdlRFID_AbsentDetect (Log_if_LOGGING f a s) = l_hdlRFID_AbsentDetect s"
  "l_hdlRFID_Off (Log_if_LOGGING f a s) = l_hdlRFID_Off s" "l_flgObjectPresent (Log_if_LOGGING f a s) = l_flgObjectPresent s"
  "l_hdlRFID_DetectTimeout (Log_if_LOGGING f a s) = l_hdlRFID_DetectTimeout s" "l_flgNewRun (Log_if_LOGGING f a s) = l_flgNewRun s"
  "l_flgNewID (Log_if_LOGGING f a s) = l_flgNewID s" "l_State (Log_if_LOGGING f a s) = l_State s"
  "xorsum (Log_if_LOGGING f a s) = xorsum s" "w (Log_if_LOGGING f a s) = w s"
  "crc (Log_if_LOGGING f a s) = crc s" "uart_clock (Log_if_LOGGING f a s) = uart_clock s"
  "uart_rx_pin (Log_if_LOGGING f a s) = uart_rx_pin s" "uart_type (Log_if_LOGGING f a s) = uart_type s"
  "em1_mod_rfid (Log_if_LOGGING f a s) = em1_mod_rfid s" "g_PwrInterval (Log_if_LOGGING f a s) = g_PwrInterval s"
  "g_On_Duration (Log_if_LOGGING f a s) = g_On_Duration s" "g_flgIRQ (Log_if_LOGGING f a s) = g_flgIRQ s"
  "l_hdlPwrInterval (Log_if_LOGGING f a s) = l_hdlPwrInterval s" "pwr_pin (Log_if_LOGGING f a s) = pwr_pin s"
  "meas_pin (Log_if_LOGGING f a s) = meas_pin s" "hdlFollowUpTime (Log_if_LOGGING f a s) = hdlFollowUpTime s"
  "FollowUpTime (Log_if_LOGGING f a s) = FollowUpTime s" "l_ScanDuration (Log_if_LOGGING f a s) = l_ScanDuration s"
  "l_ADC_ActiveChanMask (Log_if_LOGGING f a s) = l_ADC_ActiveChanMask s" "l_ADC_Value (Log_if_LOGGING f a s) = l_ADC_Value s"
  "l_prev_value_mV (Log_if_LOGGING f a s) = l_prev_value_mV s" "l_prev_value_mA (Log_if_LOGGING f a s) = l_prev_value_mA s"
  "l_prev_BATT_mV (Log_if_LOGGING f a s) = l_prev_BATT_mV s" "l_prev_BATT_mA (Log_if_LOGGING f a s) = l_prev_BATT_mA s"
  "l_BATT_FollowUpTime (Log_if_LOGGING f a s) = l_BATT_FollowUpTime s" "l_hdlFollowUpTimeBATT (Log_if_LOGGING f a s) = l_hdlFollowUpTimeBATT s"
  "l_flgLogBATT (Log_if_LOGGING f a s) = l_flgLogBATT s" "l_BATT_MeasureInterval (Log_if_LOGGING f a s) = l_BATT_MeasureInterval s"
  "l_flgADC_On (Log_if_LOGGING f a s) = l_flgADC_On s" "l_mV_Divider (Log_if_LOGGING f a s) = l_mV_Divider s"
  "l_mA_Divider (Log_if_LOGGING f a s) = l_mA_Divider s" "g_UA_Calib_mV (Log_if_LOGGING f a s) = g_UA_Calib_mV s"
  "g_UA_Calib_mA (Log_if_LOGGING f a s) = g_UA_Calib_mA s" "l_PwrOut (Log_if_LOGGING f a s) = l_PwrOut s"
  "l_flgCalibration (Log_if_LOGGING f a s) = l_flgCalibration s" "l_hdlLCD_Off (Log_if_LOGGING f a s) = l_hdlLCD_Off s"
  "power_fail (Log_if_LOGGING f a s) = power_fail s" "eeprom (Log_if_LOGGING f a s) = eeprom s"
  "timer_cb (Log_if_LOGGING f a s) = timer_cb s" "timer_remaining (Log_if_LOGGING f a s) = timer_remaining s"
  "timer_count (Log_if_LOGGING f a s) = timer_count s"
  by (simp_all add: Log_if_LOGGING_def)

lemma trace_Log_if_LOGGING [simp]:
  "trace (Log_if_LOGGING f a s) = (if cfg_LOGGING s then trace s @ [Log f a] else trace s)"
  by (simp add: Log_if_LOGGING_def)

lemma sTimerStart_frame [simp]:
  "cfg_LOGGING (sTimerStart h n s) = cfg_LOGGING s" "cfg_LIGHT_BARRIER (sTimerStart h n s) = cfg_LIGHT_BARRIER s"
  "cfg_DISPLAY_UPDATE_WHEN_ABSENT (sTimerStart h n s) = cfg_DISPLAY_UPDATE_WHEN_ABSENT s" "cfg_ALARM_UA1_ON_TIME_1 (sTimerStart h n s) = cfg_ALARM_UA1_ON_TIME_1 s"
  "g_RFID_Type (sTimerStart h n s) = g_RFID_Type s" "g_RFID_Power (sTimerStart h n s) = g_RFID_Power s"
  "g_RFID_AbsentDetectTimeout (sTimerStart h n s) = g_RFID_AbsentDetectTimeout s" "g_RFID_PwrOffTimeout (sTimerStart h n s) = g_RFID_PwrOffTimeout s"
  "g_RFID_DetectTimeout (sTimerStart h n s) = g_RFID_DetectTimeout s" "g_FERR_Cnt (sTimerStart h n s) = g_FERR_Cnt s"
  "g_PERR_Cnt (sTimerStart h n s) = g_PERR_Cnt s" "g_Transponder (sTimerStart h n s) = g_Transponder s"
  "l_flgRFID_Activate (sTimerStart h n s) = l_flgRFID_Activate s" "l_pRFID_Cfg_Type (sTimerStart h n s) = l_pRFID_Cfg_Type s"
  "l_pRFID_Cfg_PwrOut (sTimerStart h n s) = l_pRFID_Cfg_PwrOut s" "l_flgRFID_On (sTimerStart h n s) = l_flgRFID_On s"
  "l_flgRFID_IsOn (sTimerStart h n s) = l_flgRFID_IsOn s" "l_hdlRFID_AbsentDetect (sTimerStart h n s) = l_hdlRFID_AbsentDetect s"
  "l_hdlRFID_Off (sTimerStart h n s) = l_hdlRFID_Off s" "l_flgObjectPresent (sTimerStart h n s) = l_flgObjectPresent s"
  "l_hdlRFID_DetectTimeout (sTimerStart h n s) = l_hdlRFID_DetectTimeout s" "l_flgNewRun (sTimerStart h n s) = l_flgNewRun s"
  "l_flgNewID (sTimerStart h n s) = l_flgNewID s" "l_State (sTimerStart h n s) = l_State s"
  "xorsum (sTimerStart h n s) = xorsum s" "w (sTimerStart h n s) = w s"
  "crc (sTimerStart h n s) = crc s" "uart_clock (sTimerStart h n s) = uart_clock s"
  "uart_rx_pin (sTimerStart h n s) = uart_rx_pin s" "uart_type (sTimerStart h n s) = uart_type s"
  "em1_mod_rfid (sTimerStart h n s) = em1_mod_rfid s" "g_PwrInterval (sTimerStart h n s) = g_PwrInterval s"
  "g_On_Duration (sTimerStart h n s) = g_On_Duration s" "g_flgIRQ (sTimerStart h n s) = g_flgIRQ s"
  "l_hdlPwrInterval (sTimerStart h n s) = l_hdlPwrInterval s" "pwr_pin (sTimerStart h n s) = pwr_pin s"
  "meas_pin (sTimerStart h n s) = meas_pin s" "hdlFollowUpTime (sTimerStart h n s) = hdlFollowUpTime s"
  "FollowUpTime (sTimerStart h n s) = FollowUpTime s" "l_ScanDuration (sTimerStart h n s) = l_ScanDuration s"
  "l_ADC_ActiveChanMask (sTimerStart h n s) = l_ADC_ActiveChanMask s" "l_ADC_Value (sTimerStart h n s) = l_ADC_Value s"
  "l_prev_value_mV (sTimerStart h n s) = l_prev_value_mV s" "l_prev_value_mA (sTimerStart h n s) = l_prev_value_mA s"
  "l_prev_BATT_mV (sTimerStart h n s) = l_prev_BATT_mV s" "l_prev_BATT_mA (sTimerStart h n s) = l_prev_BATT_mA s"
  "l_BATT_FollowUpTime (sTimerStart h n s) = l_BATT_FollowUpTime s" "l_hdlFollowUpTimeBATT (sTimerStart h n s) = l_hdlFollowUpTimeBATT s"
  "l_flgLogBATT (sTimerStart h n s) = l_flgLogBATT s" "l_BATT_MeasureInterval (sTimerStart h n s) = l_BATT_MeasureInterval s"
  "l_flgADC_On (sTimerStart h n s) = l_flgADC_On s" "l_mV_Divider (sTimerStart h n s) = l_mV_Divider s"
  "l_mA_Divider (sTimerStart h n s) = l_mA_Divider s" "g_UA_Calib_mV (sTimerStart h n s) = g_UA_Calib_mV s"
  "g_UA_Calib_mA (sTimerStart h n s) = g_UA_Calib_mA s" "l_PwrOut (sTimerStart h n s) = l_PwrOut s"
  "l_flgCalibration (sTimerStart h n s) = l_flgCalibration s" "l_hdlLCD_Off (sTimerStart h n s) = l_hdlLCD_Off s"
  "power_fail (sTimerStart h n s) = power_fail s" "eeprom (sTimerStart h n s) = eeprom s"
  "timer_cb (sTimerStart h n s) = timer_cb s" "timer_count (sTimerStart h n s) = timer_count s"
  by (simp_all add: sTimerStart_def Let_def)

lemma trace_sTimerStart [simp]: "trace (sTimerStart h n s) = trace s @ [TimerStart h n]"
  by (simp add: sTimerStart_def Let_def)

lemma timer_remaining_sTimerStart [simp]:
  "timer_remaining (sTimerStart h n s) =
     (if timer_cb s h = None then timer_remaining s else (timer_remaining s)(h := Some n))"
  by (simp add: sTimerStart_def Let_def)

lemma sTimerCancel_frame [simp]:
  "cfg_LOGGING (sTimerCancel h s) = cfg_LOGGING s" "cfg_LIGHT_BARRIER (sTimerCancel h s) = cfg_LIGHT_BARRIER s"
  "cfg_DISPLAY_UPDATE_WHEN_ABSENT (sTimerCancel h s) = cfg_DISPLAY_UPDATE_WHEN_ABSENT s" "cfg_ALARM_UA1_ON_TIME_1 (sTimerCancel h s) = cfg_ALARM_UA1_ON_TIME_1 s"
  "g_RFID_Type (sTimerCancel h s) = g_RFID_Type s" "g_RFID_Power (sTimerCancel h s) = g_RFID_Power s"
  "g_RFID_AbsentDetectTimeout (sTimerCancel h s) = g_RFID_AbsentDetectTimeout s" "g_RFID_PwrOffTimeout (sTimerCancel h s) = g_RFID_PwrOffTimeout s"
  "g_RFID_DetectTimeout (sTimerCancel h s) = g_RFID_DetectTimeout s" "g_FERR_Cnt (sTimerCancel h s) = g_FERR_Cnt s"
  "g_PERR_Cnt (sTimerCancel h s) = g_PERR_Cnt s" "g_Transponder (sTimerCancel h s) = g_Transponder s"
  "l_flgRFID_Activate (sTimerCancel h s) = l_flgRFID_Activate s" "l_pRFID_Cfg_Type (sTimerCancel h s) = l_pRFID_Cfg_Type s"
  "l_pRFID_Cfg_PwrOut (sTimerCancel h s) = l_pRFID_Cfg_PwrOut s" "l_flgRFID_On (sTimerCancel h s) = l_flgRFID_On s"
  "l_flgRFID_IsOn (sTimerCancel h s) = l_flgRFID_IsOn s" "l_hdlRFID_AbsentDetect (sTimerCancel h s) = l_hdlRFID_AbsentDetect s"
  "l_hdlRFID_Off (sTimerCancel h s) = l_hdlRFID_Off s" "l_flgObjectPresent (sTimerCancel h s) = l_flgObjectPresent s"
  "l_hdlRFID_DetectTimeout (sTimerCancel h s) = l_hdlRFID_DetectTimeout s" "l_flgNewRun (sTimerCancel h s) = l_flgNewRun s"
  "l_flgNewID (sTimerCancel h s) = l_flgNewID s" "l_State (sTimerCancel h s) = l_State s"
  "xorsum (sTimerCancel h s) = xorsum s" "w (sTimerCancel h s) = w s"
  "crc (sTimerCancel h s) = crc s" "uart_clock (sTimerCancel h s) = uart_clock s"
  "uart_rx_pin (sTimerCancel h s) = uart_rx_pin s" "uart_type (sTimerCancel h s) = uart_type s"
  "em1_mod_rfid (sTimerCancel h s) = em1_mod_rfid s" "g_PwrInterval (sTimerCancel h s) = g_PwrInterval s"
  "g_On_Duration (sTimerCancel h s) = g_On_Duration s" "g_flgIRQ (sTimerCancel h s) = g_flgIRQ s"
  "l_hdlPwrInterval (sTimerCancel h s) = l_hdlPwrInterval s" "pwr_pin (sTimerCancel h s) = pwr_pin s"
  "meas_pin (sTimerCancel h s) = meas_pin s" "hdlFollowUpTime (sTimerCancel h s) = hdlFollowUpTime s"
  "FollowUpTime (sTimerCancel h s) = FollowUpTime s" "l_ScanDuration (sTimerCancel h s) = l_ScanDuration s"
  "l_ADC_ActiveChanMask (sTimerCancel h s) = l_ADC_ActiveChanMask s" "l_ADC_Value (sTimerCancel h s) = l_ADC_Value s"
  "l_prev_value_mV (sTimerCancel h s) = l_prev_value_mV s" "l_prev_value_mA (sTimerCancel h s) = l_prev_value_mA s"
  "l_prev_BATT_mV (sTimerCancel h s) = l_prev_BATT_mV s" "l_prev_BATT_mA (sTimerCancel h s) = l_prev_BATT_mA s"
  "l_BATT_FollowUpTime (sTimerCancel h s) = l_BATT_FollowUpTime s" "l_hdlFollowUpTimeBATT (sTimerCancel h s) = l_hdlFollowUpTimeBATT s"
  "l_flgLogBATT (sTimerCancel h s) = l_flgLogBATT s" "l_BATT_MeasureInterval (sTimerCancel h s) = l_BATT_MeasureInterval s"
  "l_flgADC_On (sTimerCancel h s) = l_flgADC_On s" "l_mV_Divider (sTimerCancel h s) = l_mV_Divider s"
  "l_mA_Divider (sTimerCancel h s) = l_mA_Divider s" "g_UA_Calib_mV (sTimerCancel h s) = g_UA_Calib_mV s"
  "g_UA_Calib_mA (sTimerCancel h s) = g_UA_Calib_mA s" "l_PwrOut (sTimerCancel h s) = l_PwrOut s"
  "l_flgCalibration (sTimerCancel h s) = l_flgCalibration s" "l_hdlLCD_Off (sTimerCancel h s) = l_hdlLCD_Off s"
  "power_fail (sTimerCancel h s) = power_fail s" "eeprom (sTimerCancel h s) = eeprom s"
  "timer_cb (sTimerCancel h s) = timer_cb s" "timer_count (sTimerCancel h s) = timer_count s"
  by (simp_all add: sTimerCancel_def Let_def)

lemma trace_sTimerCancel [simp]: "trace (sTimerCancel h s) = trace s @ [TimerCancel h]"
  by (simp add: sTimerCancel_def Let_def)

lemma timer_remaining_sTimerCancel [simp]:
  "timer_remaining (sTimerCancel h s) =
     (if timer_cb s h = None then timer_remaining s else (timer_remaining s)(h := None))"
  by (simp add: sTimerCancel_def Let_def)

section \<open>Switching a power output\<close>

lemma PowerOutput_frame [simp]:
  "cfg_LOGGING (PowerOutput r e s) = cfg_LOGGING s" "cfg_LIGHT_BARRIER (PowerOutput r e s) = cfg_LIGHT_BARRIER s"
  "cfg_DISPLAY_UPDATE_WHEN_ABSENT (PowerOutput r e s) = cfg_DISPLAY_UPDATE_WHEN_ABSENT s" "cfg_ALARM_UA1_ON_TIME_1 (PowerOutput r e s) = cfg_ALARM_UA1_ON_TIME_1 s"
  "g_RFID_Type (PowerOutput r e s) = g_RFID_Type s" "g_RFID_Power (PowerOutput r e s) = g_RFID_Power s"
  "g_RFID_AbsentDetectTimeout (PowerOutput r e s) = g_RFID_AbsentDetectTimeout s" "g_RFID_PwrOffTimeout (PowerOutput r e s) = g_RFID_PwrOffTimeout s"
  "g_RFID_DetectTimeout (PowerOutput r e s) = g_RFID_DetectTimeout s" "g_FERR_Cnt (PowerOutput r e s) = g_FERR_Cnt s"
  "g_PERR_Cnt (PowerOutput r e s) = g_PERR_Cnt s" "g_Transponder (PowerOutput r e s) = g_Transponder s"
  "l_flgRFID_Activate (PowerOutput r e s) = l_flgRFID_Activate s" "l_pRFID_Cfg_Type (PowerOutput r e s) = l_pRFID_Cfg_Type s"
  "l_pRFID_Cfg_PwrOut (PowerOutput r e s) = l_pRFID_Cfg_PwrOut s" "l_flgRFID_On (PowerOutput r e s) = l_flgRFID_On s"
  "l_flgRFID_IsOn (PowerOutput r e s) = l_flgRFID_IsOn s" "l_hdlRFID_AbsentDetect (PowerOutput r e s) = l_hdlRFID_AbsentDetect s"
  "l_hdlRFID_Off (PowerOutput r e s) = l_hdlRFID_Off s" "l_flgObjectPresent (PowerOutput r e s) = l_flgObjectPresent s"
  "l_hdlRFID_DetectTimeout (PowerOutput r e s) = l_hdlRFID_DetectTimeout s" "l_flgNewRun (PowerOutput r e s) = l_flgNewRun s"
  "l_flgNewID (PowerOutput r e s) = l_flgNewID s" "l_State (PowerOutput r e s) = l_State s"
  "xorsum (PowerOutput r e s) = xorsum s" "w (PowerOutput r e s) = w s"
  "crc (PowerOutput r e s) = crc s" "uart_clock (PowerOutput r e s) = uart_clock s"
  "uart_rx_pin (PowerOutput r e s) = uart_rx_pin s" "uart_type (PowerOutput r e s) = uart_type s"
  "em1_mod_rfid (PowerOutput r e s) = em1_mod_rfid s" "g_PwrInterval (PowerOutput r e s) = g_PwrInterval s"
  "g_On_Duration (PowerOutput r e s) = g_On_Duration s" "l_hdlPwrInterval (PowerOutput r e s) = l_hdlPwrInterval s"
  "hdlFollowUpTime (PowerOutput r e s) = hdlFollowUpTime s" "FollowUpTime (PowerOutput r e s) = FollowUpTime s"
  "l_ScanDuration (PowerOutput r e s) = l_ScanDuration s" "l_ADC_Value (PowerOutput r e s) = l_ADC_Value s"
  "l_BATT_FollowUpTime (PowerOutput r e s) = l_BATT_FollowUpTime s" "l_hdlFollowUpTimeBATT (PowerOutput r e s) = l_hdlFollowUpTimeBATT s"
  "l_mV_Divider (PowerOutput r e s) = l_mV_Divider s" "l_mA_Divider (PowerOutput r e s) = l_mA_Divider s"
  "g_UA_Calib_mV (PowerOutput r e s) = g_UA_Calib_mV s" "g_UA_Calib_mA (PowerOutput r e s) = g_UA_Calib_mA s"
  "l_PwrOut (PowerOutput r e s) = l_PwrOut s" "l_flgCalibration (PowerOutput r e s) = l_flgCalibration s"
  "l_hdlLCD_Off (PowerOutput r e s) = l_hdlLCD_Off s" "power_fail (PowerOutput r e s) = power_fail s"
  "eeprom (PowerOutput r e s) = eeprom s" "timer_cb (PowerOutput r e s) = timer_cb s"
  "timer_count (PowerOutput r e s) = timer_count s"
  by (simp_all add: PowerOutput_def Let_def)

lemma pwr_pin_PowerOutput:
  "pwr_pin (PowerOutput r e s) =
     (if (e \<and> IsPowerFail s) \<or> r < 0 \<or> r \<ge> NUM_PWR_OUT then pwr_pin s
      else (pwr_pin s)(r := e))"
  by (simp add: PowerOutput_def Let_def fun_upd_idem)

lemma PowerOutput_same:
  "0 \<le> r \<Longrightarrow> r < NUM_PWR_OUT \<Longrightarrow> pwr_pin s r = e \<Longrightarrow> PowerOutput r e s = s"
  by (simp add: PowerOutput_def)

lemma PowerOutput_NONE: "PowerOutput PWR_OUT_NONE e s = s"
  by (simp add: PowerOutput_def)


section \<open>Frame lemmas of the decoder\<close>

lemma count_comm_errors_frame [simp]:
  "cfg_LOGGING (count_comm_errors rx s) = cfg_LOGGING s" "cfg_LIGHT_BARRIER (count_comm_errors rx s) = cfg_LIGHT_BARRIER s"
  "cfg_DISPLAY_UPDATE_WHEN_ABSENT (count_comm_errors rx s) = cfg_DISPLAY_UPDATE_WHEN_ABSENT s" "cfg_ALARM_UA1_ON_TIME_1 (count_comm_errors rx s) = cfg_ALARM_UA1_ON_TIME_1 s"
  "g_RFID_Type (count_comm_errors rx s) = g_RFID_Type s" "g_RFID_Power (count_comm_errors rx s) = g_RFID_Power s"
  "g_RFID_AbsentDetectTimeout (count_comm_errors rx s) = g_RFID_AbsentDetectTimeout s" "g_RFID_PwrOffTimeout (count_comm_errors rx s) = g_RFID_PwrOffTimeout s"
  "g_RFID_DetectTimeout (count_comm_errors rx s) = g_RFID_DetectTimeout s" "g_Transponder (count_comm_errors rx s) = g_Transponder s"
  "l_flgRFID_Activate (count_comm_errors rx s) = l_flgRFID_Activate s" "l_pRFID_Cfg_Type (count_comm_errors rx s) = l_pRFID_Cfg_Type s"
  "l_pRFID_Cfg_PwrOut (count_comm_errors rx s) = l_pRFID_Cfg_PwrOut s" "l_flgRFID_On (count_comm_errors rx s) = l_flgRFID_On s"
  "l_flgRFID_IsOn (count_comm_errors rx s) = l_flgRFID_IsOn s" "l_hdlRFID_AbsentDetect (count_comm_errors rx s) = l_hdlRFID_AbsentDetect s"
  "l_hdlRFID_Off (count_comm_errors rx s) = l_hdlRFID_Off s" "l_flgObjectPresent (count_comm_errors rx s) = l_flgObjectPresent s"
  "l_hdlRFID_DetectTimeout (count_comm_errors rx s) = l_hdlRFID_DetectTimeout s" "l_flgNewRun (count_comm_errors rx s) = l_flgNewRun s"
  "l_flgNewID (count_comm_errors rx s) = l_flgNewID s" "l_State (count_comm_errors rx s) = l_State s"
  "xorsum (count_comm_errors rx s) = xorsum s" "w (count_comm_errors rx s) = w s"
  "crc (count_comm_errors rx s) = crc s" "uart_clock (count_comm_errors rx s) = uart_clock s"
  "uart_rx_pin (count_comm_errors rx s) = uart_rx_pin s" "uart_type (count_comm_errors rx s) = uart_type s"
  "em1_mod_rfid (count_comm_errors rx s) = em1_mod_rfid s" "g_PwrInterval (count_comm_errors rx s) = g_PwrInterval s"
  "g_On_Duration (count_comm_errors rx s) = g_On_Duration s" "g_flgIRQ (count_comm_errors rx s) = g_flgIRQ s"
  "l_hdlPwrInterval (count_comm_errors rx s) = l_hdlPwrInterval s" "pwr_pin (count_comm_errors rx s) = pwr_pin s"
  "meas_pin (count_comm_errors rx s) = meas_pin s" "hdlFollowUpTime (count_comm_errors rx s) = hdlFollowUpTime s"
  "FollowUpTime (count_comm_errors rx s) = FollowUpTime s" "l_ScanDuration (count_comm_errors rx s) = l_ScanDuration s"
  "l_ADC_ActiveChanMask (count_comm_errors rx s) = l_ADC_ActiveChanMask s" "l_ADC_Value (count_comm_errors rx s) = l_ADC_Value s"
  "l_prev_value_mV (count_comm_errors rx s) = l_prev_value_mV s" "l_prev_value_mA (count_comm_errors rx s) = l_prev_value_mA s"
  "l_prev_BATT_mV (count_comm_errors rx s) = l_prev_BATT_mV s" "l_prev_BATT_mA (count_comm_errors rx s) = l_prev_BATT_mA s"
  "l_BATT_FollowUpTime (count_comm_errors rx s) = l_BATT_FollowUpTime s" "l_hdlFollowUpTimeBATT (count_comm_errors rx s) = l_hdlFollowUpTimeBATT s"
  "l_flgLogBATT (count_comm_errors rx s) = l_flgLogBATT s" "l_BATT_MeasureInterval (count_comm_errors rx s) = l_BATT_MeasureInterval s"
  "l_flgADC_On (count_comm_errors rx s) = l_flgADC_On s" "l_mV_Divider (count_comm_errors rx s) = l_mV_Divider s"
  "l_mA_Divider (count_comm_errors rx s) = l_mA_Divider s" "g_UA_Calib_mV (count_comm_errors rx s) = g_UA_Calib_mV s"
  "g_UA_Calib_mA (count_comm_errors rx s) = g_UA_Calib_mA s" "l_PwrOut (count_comm_errors rx s) = l_PwrOut s"
  "l_flgCalibration (count_comm_errors rx s) = l_flgCalibration s" "l_hdlLCD_Off (count_comm_errors rx s) = l_hdlLCD_Off s"
  "power_fail (count_comm_errors rx s) = power_fail s" "eeprom (count_comm_errors rx s) = eeprom s"
  "timer_cb (count_comm_errors rx s) = timer_cb s" "timer_remaining (count_comm_errors rx s) = timer_remaining s"
  "timer_count (count_comm_errors rx s) = timer_count s" "trace (count_comm_errors rx s) = trace s"
  by (simp_all add: count_comm_errors_def Let_def)
lemma received_ID_frame [simp]:
  "cfg_LOGGING (received_ID s) = cfg_LOGGING s" "cfg_LIGHT_BARRIER (received_ID s) = cfg_LIGHT_BARRIER s"
  "cfg_DISPLAY_UPDATE_WHEN_ABSENT (received_ID s) = cfg_DISPLAY_UPDATE_WHEN_ABSENT s" "cfg_ALARM_UA1_ON_TIME_1 (received_ID s) = cfg_ALARM_UA1_ON_TIME_1 s"
  "g_RFID_Type (received_ID s) = g_RFID_Type s" "g_RFID_Power (received_ID s) = g_RFID_Power s"
  "g_RFID_AbsentDetectTimeout (received_ID s) = g_RFID_AbsentDetectTimeout s" "g_RFID_PwrOffTimeout (received_ID s) = g_RFID_PwrOffTimeout s"
  "g_RFID_DetectTimeout (received_ID s) = g_RFID_DetectTimeout s" "g_FERR_Cnt (received_ID s) = g_FERR_Cnt s"
  "g_PERR_Cnt (received_ID s) = g_PERR_Cnt s" "l_flgRFID_Activate (received_ID s) = l_flgRFID_Activate s"
  "l_pRFID_Cfg_Type (received_ID s) = l_pRFID_Cfg_Type s" "l_pRFID_Cfg_PwrOut (received_ID s) = l_pRFID_Cfg_PwrOut s"
  "l_flgRFID_On (received_ID s) = l_flgRFID_On s" "l_flgRFID_IsOn (received_ID s) = l_flgRFID_IsOn s"
  "l_hdlRFID_AbsentDetect (received_ID s) = l_hdlRFID_AbsentDetect s" "l_hdlRFID_Off (received_ID s) = l_hdlRFID_Off s"
  "l_flgObjectPresent (received_ID s) = l_flgObjectPresent s" "l_hdlRFID_DetectTimeout (received_ID s) = l_hdlRFID_DetectTimeout s"
  "xorsum (received_ID s) = xorsum s" "w (received_ID s) = w s"
  "crc (received_ID s) = crc s" "uart_clock (received_ID s) = uart_clock s"
  "uart_rx_pin (received_ID s) = uart_rx_pin s" "uart_type (received_ID s) = uart_type s"
  "em1_mod_rfid (received_ID s) = em1_mod_rfid s" "g_PwrInterval (received_ID s) = g_PwrInterval s"
  "g_On_Duration (received_ID s) = g_On_Duration s" "g_flgIRQ (received_ID s) = g_flgIRQ s"
  "l_hdlPwrInterval (received_ID s) = l_hdlPwrInterval s" "pwr_pin (received_ID s) = pwr_pin s"
  "meas_pin (received_ID s) = meas_pin s" "hdlFollowUpTime (received_ID s) = hdlFollowUpTime s"
  "FollowUpTime (received_ID s) = FollowUpTime s" "l_ScanDuration (received_ID s) = l_ScanDuration s"
  "l_ADC_ActiveChanMask (received_ID s) = l_ADC_ActiveChanMask s" "l_ADC_Value (received_ID s) = l_ADC_Value s"
  "l_prev_value_mV (received_ID s) = l_prev_value_mV s" "l_prev_value_mA (received_ID s) = l_prev_value_mA s"
  "l_prev_BATT_mV (received_ID s) = l_prev_BATT_mV s" "l_prev_BATT_mA (received_ID s) = l_prev_BATT_mA s"
  "l_BATT_FollowUpTime (received_ID s) = l_BATT_FollowUpTime s" "l_hdlFollowUpTimeBATT (received_ID s) = l_hdlFollowUpTimeBATT s"
  "l_flgLogBATT (received_ID s) = l_flgLogBATT s" "l_BATT_MeasureInterval (received_ID s) = l_BATT_MeasureInterval s"
  "l_flgADC_On (received_ID s) = l_flgADC_On s" "l_mV_Divider (received_ID s) = l_mV_Divider s"
  "l_mA_Divider (received_ID s) = l_mA_Divider s" "g_UA_Calib_mV (received_ID s) = g_UA_Calib_mV s"
  "g_UA_Calib_mA (received_ID s) = g_UA_Calib_mA s" "l_PwrOut (received_ID s) = l_PwrOut s"
  "l_flgCalibration (received_ID s) = l_flgCalibration s" "l_hdlLCD_Off (received_ID s) = l_hdlLCD_Off s"
  "power_fail (received_ID s) = power_fail s" "eeprom (received_ID s) = eeprom s"
  "timer_cb (received_ID s) = timer_cb s" "timer_count (received_ID s) = timer_count s"
  by (simp_all add: received_ID_def Let_def)

lemma l_State_received_ID [simp]: "l_State (received_ID s) = 0"
  by (simp add: received_ID_def Let_def)


section \<open>Frame lemmas of the RFID power management\<close>

lemma RFID_Enable_frame [simp]:
  "cfg_LOGGING (RFID_Enable s) = cfg_LOGGING s" "cfg_LIGHT_BARRIER (RFID_Enable s) = cfg_LIGHT_BARRIER s"
  "cfg_DISPLAY_UPDATE_WHEN_ABSENT (RFID_Enable s) = cfg_DISPLAY_UPDATE_WHEN_ABSENT s" "cfg_ALARM_UA1_ON_TIME_1 (RFID_Enable s) = cfg_ALARM_UA1_ON_TIME_1 s"
  "g_RFID_Type (RFID_Enable s) = g_RFID_Type s" "g_RFID_Power (RFID_Enable s) = g_RFID_Power s"
  "g_RFID_AbsentDetectTimeout (RFID_Enable s) = g_RFID_AbsentDetectTimeout s" "g_RFID_PwrOffTimeout (RFID_Enable s) = g_RFID_PwrOffTimeout s"
  "g_RFID_DetectTimeout (RFID_Enable s) = g_RFID_DetectTimeout s" "g_FERR_Cnt (RFID_Enable s) = g_FERR_Cnt s"
  "g_PERR_Cnt (RFID_Enable s) = g_PERR_Cnt s" "g_Transponder (RFID_Enable s) = g_Transponder s"
  "l_flgRFID_Activate (RFID_Enable s) = l_flgRFID_Activate s" "l_pRFID_Cfg_Type (RFID_Enable s) = l_pRFID_Cfg_Type s"
  "l_pRFID_Cfg_PwrOut (RFID_Enable s) = l_pRFID_Cfg_PwrOut s" "l_flgRFID_IsOn (RFID_Enable s) = l_flgRFID_IsOn s"
  "l_hdlRFID_AbsentDetect (RFID_Enable s) = l_hdlRFID_AbsentDetect s" "l_hdlRFID_Off (RFID_Enable s) = l_hdlRFID_Off s"
  "l_hdlRFID_DetectTimeout (RFID_Enable s) = l_hdlRFID_DetectTimeout s" "l_flgNewID (RFID_Enable s) = l_flgNewID s"
  "l_State (RFID_Enable s) = l_State s" "xorsum (RFID_Enable s) = xorsum s"
  "w (RFID_Enable s) = w s" "crc (RFID_Enable s) = crc s"
  "uart_clock (RFID_Enable s) = uart_clock s" "uart_rx_pin (RFID_Enable s) = uart_rx_pin s"
  "uart_type (RFID_Enable s) = uart_type s" "em1_mod_rfid (RFID_Enable s) = em1_mod_rfid s"
  "g_PwrInterval (RFID_Enable s) = g_PwrInterval s" "g_On_Duration (RFID_Enable s) = g_On_Duration s"
  "g_flgIRQ (RFID_Enable s) = g_flgIRQ s" "l_hdlPwrInterval (RFID_Enable s) = l_hdlPwrInterval s"
  "pwr_pin (RFID_Enable s) = pwr_pin s" "meas_pin (RFID_Enable s) = meas_pin s"
  "hdlFollowUpTime (RFID_Enable s) = hdlFollowUpTime s" "FollowUpTime (RFID_Enable s) = FollowUpTime s"
  "l_ScanDuration (RFID_Enable s) = l_ScanDuration s" "l_ADC_ActiveChanMask (RFID_Enable s) = l_ADC_ActiveChanMask s"
  "l_ADC_Value (RFID_Enable s) = l_ADC_Value s" "l_prev_value_mV (RFID_Enable s) = l_prev_value_mV s"
  "l_prev_value_mA (RFID_Enable s) = l_prev_value_mA s" "l_prev_BATT_mV (RFID_Enable s) = l_prev_BATT_mV s"
  "l_prev_BATT_mA (RFID_Enable s) = l_prev_BATT_mA s" "l_BATT_FollowUpTime (RFID_Enable s) = l_BATT_FollowUpTime s"
  "l_hdlFollowUpTimeBATT (RFID_Enable s) = l_hdlFollowUpTimeBATT s" "l_flgLogBATT (RFID_Enable s) = l_flgLogBATT s"
  "l_BATT_MeasureInterval (RFID_Enable s) = l_BATT_MeasureInterval s" "l_flgADC_On (RFID_Enable s) = l_flgADC_On s"
  "l_mV_Divider (RFID_Enable s) = l_mV_Divider s" "l_mA_Divider (RFID_Enable s) = l_mA_Divider s"
  "g_UA_Calib_mV (RFID_Enable s) = g_UA_Calib_mV s" "g_UA_Calib_mA (RFID_Enable s) = g_UA_Calib_mA s"
  "l_PwrOut (RFID_Enable s) = l_PwrOut s" "l_flgCalibration (RFID_Enable s) = l_flgCalibration s"
  "l_hdlLCD_Off (RFID_Enable s) = l_hdlLCD_Off s" "power_fail (RFID_Enable s) = power_fail s"
  "eeprom (RFID_Enable s) = eeprom s" "timer_cb (RFID_Enable s) = timer_cb s"
  "timer_count (RFID_Enable s) = timer_count s"
  by (simp_all add: RFID_Enable_def Let_def)
section \<open>What the routines of the RFID module and the timer callbacks leave unchanged\<close>

lemma decode_SR_frame [simp]:
  "cfg_LOGGING (fst (decode_SR b s)) = cfg_LOGGING s" "cfg_LIGHT_BARRIER (fst (decode_SR b s)) = cfg_LIGHT_BARRIER s"
  "cfg_DISPLAY_UPDATE_WHEN_ABSENT (fst (decode_SR b s)) = cfg_DISPLAY_UPDATE_WHEN_ABSENT s" "cfg_ALARM_UA1_ON_TIME_1 (fst (decode_SR b s)) = cfg_ALARM_UA1_ON_TIME_1 s"
  "g_RFID_Type (fst (decode_SR b s)) = g_RFID_Type s" "g_RFID_Power (fst (decode_SR b s)) = g_RFID_Power s"
  "g_RFID_AbsentDetectTimeout (fst (decode_SR b s)) = g_RFID_AbsentDetectTimeout s" "g_RFID_PwrOffTimeout (fst (decode_SR b s)) = g_RFID_PwrOffTimeout s"
  "g_RFID_DetectTimeout (fst (decode_SR b s)) = g_RFID_DetectTimeout s" "g_FERR_Cnt (fst (decode_SR b s)) = g_FERR_Cnt s"
  "g_PERR_Cnt (fst (decode_SR b s)) = g_PERR_Cnt s" "g_Transponder (fst (decode_SR b s)) = g_Transponder s"
  "l_flgRFID_Activate (fst (decode_SR b s)) = l_flgRFID_Activate s" "l_pRFID_Cfg_Type (fst (decode_SR b s)) = l_pRFID_Cfg_Type s"
  "l_pRFID_Cfg_PwrOut (fst (decode_SR b s)) = l_pRFID_Cfg_PwrOut s" "l_flgRFID_On (fst (decode_SR b s)) = l_flgRFID_On s"
  "l_flgRFID_IsOn (fst (decode_SR b s)) = l_flgRFID_IsOn s" "l_hdlRFID_AbsentDetect (fst (decode_SR b s)) = l_hdlRFID_AbsentDetect s"
  "l_hdlRFID_Off (fst (decode_SR b s)) = l_hdlRFID_Off s" "l_flgObjectPresent (fst (decode_SR b s)) = l_flgObjectPresent s"
  "l_hdlRFID_DetectTimeout (fst (decode_SR b s)) = l_hdlRFID_DetectTimeout s" "l_flgNewRun (fst (decode_SR b s)) = l_flgNewRun s"
  "l_flgNewID (fst (decode_SR b s)) = l_flgNewID s" "w (fst (decode_SR b s)) = w s"
  "crc (fst (decode_SR b s)) = crc s" "uart_clock (fst (decode_SR b s)) = uart_clock s"
  "uart_rx_pin (fst (decode_SR b s)) = uart_rx_pin s" "uart_type (fst (decode_SR b s)) = uart_type s"
  "em1_mod_rfid (fst (decode_SR b s)) = em1_mod_rfid s" "g_PwrInterval (fst (decode_SR b s)) = g_PwrInterval s"
  "g_On_Duration (fst (decode_SR b s)) = g_On_Duration s" "g_flgIRQ (fst (decode_SR b s)) = g_flgIRQ s"
  "l_hdlPwrInterval (fst (decode_SR b s)) = l_hdlPwrInterval s" "pwr_pin (fst (decode_SR b s)) = pwr_pin s"
  "meas_pin (fst (decode_SR b s)) = meas_pin s" "hdlFollowUpTime (fst (decode_SR b s)) = hdlFollowUpTime s"
  "FollowUpTime (fst (decode_SR b s)) = FollowUpTime s" "l_ScanDuration (fst (decode_SR b s)) = l_ScanDuration s"
  "l_ADC_ActiveChanMask (fst (decode_SR b s)) = l_ADC_ActiveChanMask s" "l_ADC_Value (fst (decode_SR b s)) = l_ADC_Value s"
  "l_prev_value_mV (fst (decode_SR b s)) = l_prev_value_mV s" "l_prev_value_mA (fst (decode_SR b s)) = l_prev_value_mA s"
  "l_prev_BATT_mV (fst (decode_SR b s)) = l_prev_BATT_mV s" "l_prev_BATT_mA (fst (decode_SR b s)) = l_prev_BATT_mA s"
  "l_BATT_FollowUpTime (fst (decode_SR b s)) = l_BATT_FollowUpTime s" "l_hdlFollowUpTimeBATT (fst (decode_SR b s)) = l_hdlFollowUpTimeBATT s"
  "l_flgLogBATT (fst (decode_SR b s)) = l_flgLogBATT s" "l_BATT_MeasureInterval (fst (decode_SR b s)) = l_BATT_MeasureInterval s"
  "l_flgADC_On (fst (decode_SR b s)) = l_flgADC_On s" "l_mV_Divider (fst (decode_SR b s)) = l_mV_Divider s"
  "l_mA_Divider (fst (decode_SR b s)) = l_mA_Divider s" "g_UA_Calib_mV (fst (decode_SR b s)) = g_UA_Calib_mV s"
  "g_UA_Calib_mA (fst (decode_SR b s)) = g_UA_Calib_mA s" "l_PwrOut (fst (decode_SR b s)) = l_PwrOut s"
  "l_flgCalibration (fst (decode_SR b s)) = l_flgCalibration s" "l_hdlLCD_Off (fst (decode_SR b s)) = l_hdlLCD_Off s"
  "power_fail (fst (decode_SR b s)) = power_fail s" "eeprom (fst (decode_SR b s)) = eeprom s"
  "timer_cb (fst (decode_SR b s)) = timer_cb s" "timer_remaining (fst (decode_SR b s)) = timer_remaining s"
  "timer_count (fst (decode_SR b s)) = timer_count s"
  by (simp_all add: decode_SR_def Let_def)

lemma decode_LR_frame [simp]:
  "cfg_LOGGING (fst (decode_LR b s)) = cfg_LOGGING s" "cfg_LIGHT_BARRIER (fst (decode_LR b s)) = cfg_LIGHT_BARRIER s"
  "cfg_DISPLAY_UPDATE_WHEN_ABSENT (fst (decode_LR b s)) = cfg_DISPLAY_UPDATE_WHEN_ABSENT s" "cfg_ALARM_UA1_ON_TIME_1 (fst (decode_LR b s)) = cfg_ALARM_UA1_ON_TIME_1 s"
  "g_RFID_Type (fst (decode_LR b s)) = g_RFID_Type s" "g_RFID_Power (fst (decode_LR b s)) = g_RFID_Power s"
  "g_RFID_AbsentDetectTimeout (fst (decode_LR b s)) = g_RFID_AbsentDetectTimeout s" "g_RFID_PwrOffTimeout (fst (decode_LR b s)) = g_RFID_PwrOffTimeout s"
  "g_RFID_DetectTimeout (fst (decode_LR b s)) = g_RFID_DetectTimeout s" "g_FERR_Cnt (fst (decode_LR b s)) = g_FERR_Cnt s"
  "g_PERR_Cnt (fst (decode_LR b s)) = g_PERR_Cnt s" "g_Transponder (fst (decode_LR b s)) = g_Transponder s"
  "l_flgRFID_Activate (fst (decode_LR b s)) = l_flgRFID_Activate s" "l_pRFID_Cfg_Type (fst (decode_LR b s)) = l_pRFID_Cfg_Type s"
  "l_pRFID_Cfg_PwrOut (fst (decode_LR b s)) = l_pRFID_Cfg_PwrOut s" "l_flgRFID_On (fst (decode_LR b s)) = l_flgRFID_On s"
  "l_flgRFID_IsOn (fst (decode_LR b s)) = l_flgRFID_IsOn s" "l_hdlRFID_AbsentDetect (fst (decode_LR b s)) = l_hdlRFID_AbsentDetect s"
  "l_hdlRFID_Off (fst (decode_LR b s)) = l_hdlRFID_Off s" "l_flgObjectPresent (fst (decode_LR b s)) = l_flgObjectPresent s"
  "l_hdlRFID_DetectTimeout (fst (decode_LR b s)) = l_hdlRFID_DetectTimeout s" "l_flgNewRun (fst (decode_LR b s)) = l_flgNewRun s"
  "l_flgNewID (fst (decode_LR b s)) = l_flgNewID s" "xorsum (fst (decode_LR b s)) = xorsum s"
  "w (fst (decode_LR b s)) = w s" "uart_clock (fst (decode_LR b s)) = uart_clock s"
  "uart_rx_pin (fst (decode_LR b s)) = uart_rx_pin s" "uart_type (fst (decode_LR b s)) = uart_type s"
  "em1_mod_rfid (fst (decode_LR b s)) = em1_mod_rfid s" "g_PwrInterval (fst (decode_LR b s)) = g_PwrInterval s"
  "g_On_Duration (fst (decode_LR b s)) = g_On_Duration s" "g_flgIRQ (fst (decode_LR b s)) = g_flgIRQ s"
  "l_hdlPwrInterval (fst (decode_LR b s)) = l_hdlPwrInterval s" "pwr_pin (fst (decode_LR b s)) = pwr_pin s"
  "meas_pin (fst (decode_LR b s)) = meas_pin s" "hdlFollowUpTime (fst (decode_LR b s)) = hdlFollowUpTime s"
  "FollowUpTime (fst (decode_LR b s)) = FollowUpTime s" "l_ScanDuration (fst (decode_LR b s)) = l_ScanDuration s"
  "l_ADC_ActiveChanMask (fst (decode_LR b s)) = l_ADC_ActiveChanMask s" "l_ADC_Value (fst (decode_LR b s)) = l_ADC_Value s"
  "l_prev_value_mV (fst (decode_LR b s)) = l_prev_value_mV s" "l_prev_value_mA (fst (decode_LR b s)) = l_prev_value_mA s"
  "l_prev_BATT_mV (fst (decode_LR b s)) = l_prev_BATT_mV s" "l_prev_BATT_mA (fst (decode_LR b s)) = l_prev_BATT_mA s"
  "l_BATT_FollowUpTime (fst (decode_LR b s)) = l_BATT_FollowUpTime s" "l_hdlFollowUpTimeBATT (fst (decode_LR b s)) = l_hdlFollowUpTimeBATT s"
  "l_flgLogBATT (fst (decode_LR b s)) = l_flgLogBATT s" "l_BATT_MeasureInterval (fst (decode_LR b s)) = l_BATT_MeasureInterval s"
  "l_flgADC_On (fst (decode_LR b s)) = l_flgADC_On s" "l_mV_Divider (fst (decode_LR b s)) = l_mV_Divider s"
  "l_mA_Divider (fst (decode_LR b s)) = l_mA_Divider s" "g_UA_Calib_mV (fst (decode_LR b s)) = g_UA_Calib_mV s"
  "g_UA_Calib_mA (fst (decode_LR b s)) = g_UA_Calib_mA s" "l_PwrOut (fst (decode_LR b s)) = l_PwrOut s"
  "l_flgCalibration (fst (decode_LR b s)) = l_flgCalibration s" "l_hdlLCD_Off (fst (decode_LR b s)) = l_hdlLCD_Off s"
  "power_fail (fst (decode_LR b s)) = power_fail s" "eeprom (fst (decode_LR b s)) = eeprom s"
  "timer_cb (fst (decode_LR b s)) = timer_cb s" "timer_remaining (fst (decode_LR b s)) = timer_remaining s"
  "timer_count (fst (decode_LR b s)) = timer_count s"
  by (simp_all add: decode_LR_def Let_def)

lemma RFID_PowerOff_frame [simp]:
  "cfg_LOGGING (RFID_PowerOff s) = cfg_LOGGING s" "cfg_LIGHT_BARRIER (RFID_PowerOff s) = cfg_LIGHT_BARRIER s"
  "cfg_DISPLAY_UPDATE_WHEN_ABSENT (RFID_PowerOff s) = cfg_DISPLAY_UPDATE_WHEN_ABSENT s" "cfg_ALARM_UA1_ON_TIME_1 (RFID_PowerOff s) = cfg_ALARM_UA1_ON_TIME_1 s"
  "g_RFID_Type (RFID_PowerOff s) = g_RFID_Type s" "g_RFID_Power (RFID_PowerOff s) = g_RFID_Power s"
  "g_RFID_AbsentDetectTimeout (RFID_PowerOff s) = g_RFID_AbsentDetectTimeout s" "g_RFID_PwrOffTimeout (RFID_PowerOff s) = g_RFID_PwrOffTimeout s"
  "g_RFID_DetectTimeout (RFID_PowerOff s) = g_RFID_DetectTimeout s" "g_FERR_Cnt (RFID_PowerOff s) = g_FERR_Cnt s"
  "g_PERR_Cnt (RFID_PowerOff s) = g_PERR_Cnt s" "g_Transponder (RFID_PowerOff s) = g_Transponder s"
  "l_flgRFID_Activate (RFID_PowerOff s) = l_flgRFID_Activate s" "l_pRFID_Cfg_Type (RFID_PowerOff s) = l_pRFID_Cfg_Type s"
  "l_pRFID_Cfg_PwrOut (RFID_PowerOff s) = l_pRFID_Cfg_PwrOut s" "l_flgRFID_On (RFID_PowerOff s) = l_flgRFID_On s"
  "l_flgRFID_IsOn (RFID_PowerOff s) = l_flgRFID_IsOn s" "l_hdlRFID_AbsentDetect (RFID_PowerOff s) = l_hdlRFID_AbsentDetect s"
  "l_hdlRFID_Off (RFID_PowerOff s) = l_hdlRFID_Off s" "l_flgObjectPresent (RFID_PowerOff s) = l_flgObjectPresent s"
  "l_hdlRFID_DetectTimeout (RFID_PowerOff s) = l_hdlRFID_DetectTimeout s" "l_flgNewRun (RFID_PowerOff s) = l_flgNewRun s"
  "l_flgNewID (RFID_PowerOff s) = l_flgNewID s" "xorsum (RFID_PowerOff s) = xorsum s"
  "w (RFID_PowerOff s) = w s" "crc (RFID_PowerOff s) = crc s"
  "uart_type (RFID_PowerOff s) = uart_type s" "g_PwrInterval (RFID_PowerOff s) = g_PwrInterval s"
  "g_On_Duration (RFID_PowerOff s) = g_On_Duration s" "l_hdlPwrInterval (RFID_PowerOff s) = l_hdlPwrInterval s"
  "hdlFollowUpTime (RFID_PowerOff s) = hdlFollowUpTime s" "FollowUpTime (RFID_PowerOff s) = FollowUpTime s"
  "l_ScanDuration (RFID_PowerOff s) = l_ScanDuration s" "l_ADC_Value (RFID_PowerOff s) = l_ADC_Value s"
  "l_BATT_FollowUpTime (RFID_PowerOff s) = l_BATT_FollowUpTime s" "l_hdlFollowUpTimeBATT (RFID_PowerOff s) = l_hdlFollowUpTimeBATT s"
  "l_mV_Divider (RFID_PowerOff s) = l_mV_Divider s" "l_mA_Divider (RFID_PowerOff s) = l_mA_Divider s"
  "g_UA_Calib_mV (RFID_PowerOff s) = g_UA_Calib_mV s" "g_UA_Calib_mA (RFID_PowerOff s) = g_UA_Calib_mA s"
  "l_PwrOut (RFID_PowerOff s) = l_PwrOut s" "l_flgCalibration (RFID_PowerOff s) = l_flgCalibration s"
  "l_hdlLCD_Off (RFID_PowerOff s) = l_hdlLCD_Off s" "power_fail (RFID_PowerOff s) = power_fail s"
  "eeprom (RFID_PowerOff s) = eeprom s" "timer_cb (RFID_PowerOff s) = timer_cb s"
  "timer_count (RFID_PowerOff s) = timer_count s"
  by (simp_all add: RFID_PowerOff_def Let_def)

lemma RFID_PowerOn_frame [simp]:
  "cfg_LOGGING (RFID_PowerOn s) = cfg_LOGGING s" "cfg_LIGHT_BARRIER (RFID_PowerOn s) = cfg_LIGHT_BARRIER s"
  "cfg_DISPLAY_UPDATE_WHEN_ABSENT (RFID_PowerOn s) = cfg_DISPLAY_UPDATE_WHEN_ABSENT s" "cfg_ALARM_UA1_ON_TIME_1 (RFID_PowerOn s) = cfg_ALARM_UA1_ON_TIME_1 s"
  "g_RFID_Type (RFID_PowerOn s) = g_RFID_Type s" "g_RFID_Power (RFID_PowerOn s) = g_RFID_Power s"
  "g_RFID_AbsentDetectTimeout (RFID_PowerOn s) = g_RFID_AbsentDetectTimeout s" "g_RFID_PwrOffTimeout (RFID_PowerOn s) = g_RFID_PwrOffTimeout s"
  "g_RFID_DetectTimeout (RFID_PowerOn s) = g_RFID_DetectTimeout s" "g_FERR_Cnt (RFID_PowerOn s) = g_FERR_Cnt s"
  "g_PERR_Cnt (RFID_PowerOn s) = g_PERR_Cnt s" "g_Transponder (RFID_PowerOn s) = g_Transponder s"
  "l_flgRFID_Activate (RFID_PowerOn s) = l_flgRFID_Activate s" "l_pRFID_Cfg_Type (RFID_PowerOn s) = l_pRFID_Cfg_Type s"
  "l_pRFID_Cfg_PwrOut (RFID_PowerOn s) = l_pRFID_Cfg_PwrOut s" "l_flgRFID_On (RFID_PowerOn s) = l_flgRFID_On s"
  "l_flgRFID_IsOn (RFID_PowerOn s) = l_flgRFID_IsOn s" "l_hdlRFID_AbsentDetect (RFID_PowerOn s) = l_hdlRFID_AbsentDetect s"
  "l_hdlRFID_Off (RFID_PowerOn s) = l_hdlRFID_Off s" "l_flgObjectPresent (RFID_PowerOn s) = l_flgObjectPresent s"
  "l_hdlRFID_DetectTimeout (RFID_PowerOn s) = l_hdlRFID_DetectTimeout s" "l_flgNewRun (RFID_PowerOn s) = l_flgNewRun s"
  "l_flgNewID (RFID_PowerOn s) = l_flgNewID s" "xorsum (RFID_PowerOn s) = xorsum s"
  "w (RFID_PowerOn s) = w s" "crc (RFID_PowerOn s) = crc s"
  "g_PwrInterval (RFID_PowerOn s) = g_PwrInterval s" "g_On_Duration (RFID_PowerOn s) = g_On_Duration s"
  "l_hdlPwrInterval (RFID_PowerOn s) = l_hdlPwrInterval s" "hdlFollowUpTime (RFID_PowerOn s) = hdlFollowUpTime s"
  "FollowUpTime (RFID_PowerOn s) = FollowUpTime s" "l_ScanDuration (RFID_PowerOn s) = l_ScanDuration s"
  "l_ADC_Value (RFID_PowerOn s) = l_ADC_Value s" "l_BATT_FollowUpTime (RFID_PowerOn s) = l_BATT_FollowUpTime s"
  "l_hdlFollowUpTimeBATT (RFID_PowerOn s) = l_hdlFollowUpTimeBATT s" "l_mV_Divider (RFID_PowerOn s) = l_mV_Divider s"
  "l_mA_Divider (RFID_PowerOn s) = l_mA_Divider s" "g_UA_Calib_mV (RFID_PowerOn s) = g_UA_Calib_mV s"
  "g_UA_Calib_mA (RFID_PowerOn s) = g_UA_Calib_mA s" "l_PwrOut (RFID_PowerOn s) = l_PwrOut s"
  "l_flgCalibration (RFID_PowerOn s) = l_flgCalibration s" "l_hdlLCD_Off (RFID_PowerOn s) = l_hdlLCD_Off s"
  "power_fail (RFID_PowerOn s) = power_fail s" "eeprom (RFID_PowerOn s) = eeprom s"
  "timer_cb (RFID_PowerOn s) = timer_cb s" "timer_count (RFID_PowerOn s) = timer_count s"
  by (simp_all add: RFID_PowerOn_def uartSetup_def Let_def)

lemma RFID_Disable_frame [simp]:
  "cfg_LOGGING (RFID_Disable s) = cfg_LOGGING s" "cfg_LIGHT_BARRIER (RFID_Disable s) = cfg_LIGHT_BARRIER s"
  "cfg_DISPLAY_UPDATE_WHEN_ABSENT (RFID_Disable s) = cfg_DISPLAY_UPDATE_WHEN_ABSENT s" "cfg_ALARM_UA1_ON_TIME_1 (RFID_Disable s) = cfg_ALARM_UA1_ON_TIME_1 s"
  "g_RFID_Type (RFID_Disable s) = g_RFID_Type s" "g_RFID_Power (RFID_Disable s) = g_RFID_Power s"
  "g_RFID_AbsentDetectTimeout (RFID_Disable s) = g_RFID_AbsentDetectTimeout s" "g_RFID_PwrOffTimeout (RFID_Disable s) = g_RFID_PwrOffTimeout s"
  "g_RFID_DetectTimeout (RFID_Disable s) = g_RFID_DetectTimeout s" "g_FERR_Cnt (RFID_Disable s) = g_FERR_Cnt s"
  "g_PERR_Cnt (RFID_Disable s) = g_PERR_Cnt s" "g_Transponder (RFID_Disable s) = g_Transponder s"
  "l_flgRFID_Activate (RFID_Disable s) = l_flgRFID_Activate s" "l_pRFID_Cfg_Type (RFID_Disable s) = l_pRFID_Cfg_Type s"
  "l_pRFID_Cfg_PwrOut (RFID_Disable s) = l_pRFID_Cfg_PwrOut s" "l_hdlRFID_AbsentDetect (RFID_Disable s) = l_hdlRFID_AbsentDetect s"
  "l_hdlRFID_Off (RFID_Disable s) = l_hdlRFID_Off s" "l_hdlRFID_DetectTimeout (RFID_Disable s) = l_hdlRFID_DetectTimeout s"
  "l_flgNewRun (RFID_Disable s) = l_flgNewRun s" "l_flgNewID (RFID_Disable s) = l_flgNewID s"
  "xorsum (RFID_Disable s) = xorsum s" "w (RFID_Disable s) = w s"
  "crc (RFID_Disable s) = crc s" "uart_type (RFID_Disable s) = uart_type s"
  "g_PwrInterval (RFID_Disable s) = g_PwrInterval s" "g_On_Duration (RFID_Disable s) = g_On_Duration s"
  "l_hdlPwrInterval (RFID_Disable s) = l_hdlPwrInterval s" "hdlFollowUpTime (RFID_Disable s) = hdlFollowUpTime s"
  "FollowUpTime (RFID_Disable s) = FollowUpTime s" "l_ScanDuration (RFID_Disable s) = l_ScanDuration s"
  "l_ADC_Value (RFID_Disable s) = l_ADC_Value s" "l_BATT_FollowUpTime (RFID_Disable s) = l_BATT_FollowUpTime s"
  "l_hdlFollowUpTimeBATT (RFID_Disable s) = l_hdlFollowUpTimeBATT s" "l_mV_Divider (RFID_Disable s) = l_mV_Divider s"
  "l_mA_Divider (RFID_Disable s) = l_mA_Divider s" "g_UA_Calib_mV (RFID_Disable s) = g_UA_Calib_mV s"
  "g_UA_Calib_mA (RFID_Disable s) = g_UA_Calib_mA s" "l_PwrOut (RFID_Disable s) = l_PwrOut s"
  "l_flgCalibration (RFID_Disable s) = l_flgCalibration s" "l_hdlLCD_Off (RFID_Disable s) = l_hdlLCD_Off s"
  "power_fail (RFID_Disable s) = power_fail s" "eeprom (RFID_Disable s) = eeprom s"
  "timer_cb (RFID_Disable s) = timer_cb s" "timer_count (RFID_Disable s) = timer_count s"
  by (simp_all add: RFID_Disable_def Let_def)

lemma RFID_Check_frame [simp]:
  "cfg_LOGGING (RFID_Check s) = cfg_LOGGING s" "cfg_LIGHT_BARRIER (RFID_Check s) = cfg_LIGHT_BARRIER s"
  "cfg_DISPLAY_UPDATE_WHEN_ABSENT (RFID_Check s) = cfg_DISPLAY_UPDATE_WHEN_ABSENT s" "cfg_ALARM_UA1_ON_TIME_1 (RFID_Check s) = cfg_ALARM_UA1_ON_TIME_1 s"
  "g_RFID_Type (RFID_Check s) = g_RFID_Type s" "g_RFID_Power (RFID_Check s) = g_RFID_Power s"
  "g_RFID_AbsentDetectTimeout (RFID_Check s) = g_RFID_AbsentDetectTimeout s" "g_RFID_PwrOffTimeout (RFID_Check s) = g_RFID_PwrOffTimeout s"
  "g_RFID_DetectTimeout (RFID_Check s) = g_RFID_DetectTimeout s" "g_FERR_Cnt (RFID_Check s) = g_FERR_Cnt s"
  "g_PERR_Cnt (RFID_Check s) = g_PERR_Cnt s" "g_Transponder (RFID_Check s) = g_Transponder s"
  "l_flgRFID_Activate (RFID_Check s) = l_flgRFID_Activate s" "l_pRFID_Cfg_Type (RFID_Check s) = l_pRFID_Cfg_Type s"
  "l_pRFID_Cfg_PwrOut (RFID_Check s) = l_pRFID_Cfg_PwrOut s" "l_flgRFID_On (RFID_Check s) = l_flgRFID_On s"
  "l_hdlRFID_AbsentDetect (RFID_Check s) = l_hdlRFID_AbsentDetect s" "l_hdlRFID_Off (RFID_Check s) = l_hdlRFID_Off s"
  "l_flgObjectPresent (RFID_Check s) = l_flgObjectPresent s" "l_hdlRFID_DetectTimeout (RFID_Check s) = l_hdlRFID_DetectTimeout s"
  "l_flgNewRun (RFID_Check s) = l_flgNewRun s" "xorsum (RFID_Check s) = xorsum s"
  "w (RFID_Check s) = w s" "crc (RFID_Check s) = crc s"
  "g_PwrInterval (RFID_Check s) = g_PwrInterval s" "g_On_Duration (RFID_Check s) = g_On_Duration s"
  "l_hdlPwrInterval (RFID_Check s) = l_hdlPwrInterval s" "hdlFollowUpTime (RFID_Check s) = hdlFollowUpTime s"
  "FollowUpTime (RFID_Check s) = FollowUpTime s" "l_ScanDuration (RFID_Check s) = l_ScanDuration s"
  "l_ADC_Value (RFID_Check s) = l_ADC_Value s" "l_BATT_FollowUpTime (RFID_Check s) = l_BATT_FollowUpTime s"
  "l_hdlFollowUpTimeBATT (RFID_Check s) = l_hdlFollowUpTimeBATT s" "l_mV_Divider (RFID_Check s) = l_mV_Divider s"
  "l_mA_Divider (RFID_Check s) = l_mA_Divider s" "g_UA_Calib_mV (RFID_Check s) = g_UA_Calib_mV s"
  "g_UA_Calib_mA (RFID_Check s) = g_UA_Calib_mA s" "l_PwrOut (RFID_Check s) = l_PwrOut s"
  "l_flgCalibration (RFID_Check s) = l_flgCalibration s" "l_hdlLCD_Off (RFID_Check s) = l_hdlLCD_Off s"
  "power_fail (RFID_Check s) = power_fail s" "eeprom (RFID_Check s) = eeprom s"
  "timer_cb (RFID_Check s) = timer_cb s" "timer_count (RFID_Check s) = timer_count s"
  by (simp_all add: RFID_Check_def ControlUpdateID_def Let_def)

lemma TransponderAbsent_frame [simp]:
  "cfg_LOGGING (TransponderAbsent h s) = cfg_LOGGING s" "cfg_LIGHT_BARRIER (TransponderAbsent h s) = cfg_LIGHT_BARRIER s"
  "cfg_DISPLAY_UPDATE_WHEN_ABSENT (TransponderAbsent h s) = cfg_DISPLAY_UPDATE_WHEN_ABSENT s" "cfg_ALARM_UA1_ON_TIME_1 (TransponderAbsent h s) = cfg_ALARM_UA1_ON_TIME_1 s"
  "g_RFID_Type (TransponderAbsent h s) = g_RFID_Type s" "g_RFID_Power (TransponderAbsent h s) = g_RFID_Power s"
  "g_RFID_AbsentDetectTimeout (TransponderAbsent h s) = g_RFID_AbsentDetectTimeout s" "g_RFID_PwrOffTimeout (TransponderAbsent h s) = g_RFID_PwrOffTimeout s"
  "g_RFID_DetectTimeout (TransponderAbsent h s) = g_RFID_DetectTimeout s" "g_FERR_Cnt (TransponderAbsent h s) = g_FERR_Cnt s"
  "g_PERR_Cnt (TransponderAbsent h s) = g_PERR_Cnt s" "l_flgRFID_Activate (TransponderAbsent h s) = l_flgRFID_Activate s"
  "l_pRFID_Cfg_Type (TransponderAbsent h s) = l_pRFID_Cfg_Type s" "l_pRFID_Cfg_PwrOut (TransponderAbsent h s) = l_pRFID_Cfg_PwrOut s"
  "l_flgRFID_On (TransponderAbsent h s) = l_flgRFID_On s" "l_flgRFID_IsOn (TransponderAbsent h s) = l_flgRFID_IsOn s"
  "l_hdlRFID_AbsentDetect (TransponderAbsent h s) = l_hdlRFID_AbsentDetect s" "l_hdlRFID_Off (TransponderAbsent h s) = l_hdlRFID_Off s"
  "l_flgObjectPresent (TransponderAbsent h s) = l_flgObjectPresent s" "l_hdlRFID_DetectTimeout (TransponderAbsent h s) = l_hdlRFID_DetectTimeout s"
  "l_flgNewRun (TransponderAbsent h s) = l_flgNewRun s" "l_flgNewID (TransponderAbsent h s) = l_flgNewID s"
  "l_State (TransponderAbsent h s) = l_State s" "xorsum (TransponderAbsent h s) = xorsum s"
  "w (TransponderAbsent h s) = w s" "crc (TransponderAbsent h s) = crc s"
  "uart_clock (TransponderAbsent h s) = uart_clock s" "uart_rx_pin (TransponderAbsent h s) = uart_rx_pin s"
  "uart_type (TransponderAbsent h s) = uart_type s" "em1_mod_rfid (TransponderAbsent h s) = em1_mod_rfid s"
  "g_PwrInterval (TransponderAbsent h s) = g_PwrInterval s" "g_On_Duration (TransponderAbsent h s) = g_On_Duration s"
  "g_flgIRQ (TransponderAbsent h s) = g_flgIRQ s" "l_hdlPwrInterval (TransponderAbsent h s) = l_hdlPwrInterval s"
  "pwr_pin (TransponderAbsent h s) = pwr_pin s" "meas_pin (TransponderAbsent h s) = meas_pin s"
  "hdlFollowUpTime (TransponderAbsent h s) = hdlFollowUpTime s" "FollowUpTime (TransponderAbsent h s) = FollowUpTime s"
  "l_ScanDuration (TransponderAbsent h s) = l_ScanDuration s" "l_ADC_ActiveChanMask (TransponderAbsent h s) = l_ADC_ActiveChanMask s"
  "l_ADC_Value (TransponderAbsent h s) = l_ADC_Value s" "l_prev_value_mV (TransponderAbsent h s) = l_prev_value_mV s"
  "l_prev_value_mA (TransponderAbsent h s) = l_prev_value_mA s" "l_prev_BATT_mV (TransponderAbsent h s) = l_prev_BATT_mV s"
  "l_prev_BATT_mA (TransponderAbsent h s) = l_prev_BATT_mA s" "l_BATT_FollowUpTime (TransponderAbsent h s) = l_BATT_FollowUpTime s"
  "l_hdlFollowUpTimeBATT (TransponderAbsent h s) = l_hdlFollowUpTimeBATT s" "l_flgLogBATT (TransponderAbsent h s) = l_flgLogBATT s"
  "l_BATT_MeasureInterval (TransponderAbsent h s) = l_BATT_MeasureInterval s" "l_flgADC_On (TransponderAbsent h s) = l_flgADC_On s"
  "l_mV_Divider (TransponderAbsent h s) = l_mV_Divider s" "l_mA_Divider (TransponderAbsent h s) = l_mA_Divider s"
  "g_UA_Calib_mV (TransponderAbsent h s) = g_UA_Calib_mV s" "g_UA_Calib_mA (TransponderAbsent h s) = g_UA_Calib_mA s"
  "l_PwrOut (TransponderAbsent h s) = l_PwrOut s" "l_flgCalibration (TransponderAbsent h s) = l_flgCalibration s"
  "l_hdlLCD_Off (TransponderAbsent h s) = l_hdlLCD_Off s" "power_fail (TransponderAbsent h s) = power_fail s"
  "eeprom (TransponderAbsent h s) = eeprom s" "timer_cb (TransponderAbsent h s) = timer_cb s"
  "timer_remaining (TransponderAbsent h s) = timer_remaining s" "timer_count (TransponderAbsent h s) = timer_count s"
  by (simp_all add: TransponderAbsent_def Let_def)

lemma MeasureStop_frame [simp]:
  "cfg_LOGGING (MeasureStop h s) = cfg_LOGGING s" "cfg_LIGHT_BARRIER (MeasureStop h s) = cfg_LIGHT_BARRIER s"
  "cfg_DISPLAY_UPDATE_WHEN_ABSENT (MeasureStop h s) = cfg_DISPLAY_UPDATE_WHEN_ABSENT s" "cfg_ALARM_UA1_ON_TIME_1 (MeasureStop h s) = cfg_ALARM_UA1_ON_TIME_1 s"
  "g_RFID_Type (MeasureStop h s) = g_RFID_Type s" "g_RFID_Power (MeasureStop h s) = g_RFID_Power s"
  "g_RFID_AbsentDetectTimeout (MeasureStop h s) = g_RFID_AbsentDetectTimeout s" "g_RFID_PwrOffTimeout (MeasureStop h s) = g_RFID_PwrOffTimeout s"
  "g_RFID_DetectTimeout (MeasureStop h s) = g_RFID_DetectTimeout s" "g_FERR_Cnt (MeasureStop h s) = g_FERR_Cnt s"
  "g_PERR_Cnt (MeasureStop h s) = g_PERR_Cnt s" "g_Transponder (MeasureStop h s) = g_Transponder s"
  "l_flgRFID_Activate (MeasureStop h s) = l_flgRFID_Activate s" "l_pRFID_Cfg_Type (MeasureStop h s) = l_pRFID_Cfg_Type s"
  "l_pRFID_Cfg_PwrOut (MeasureStop h s) = l_pRFID_Cfg_PwrOut s" "l_flgRFID_On (MeasureStop h s) = l_flgRFID_On s"
  "l_flgRFID_IsOn (MeasureStop h s) = l_flgRFID_IsOn s" "l_hdlRFID_AbsentDetect (MeasureStop h s) = l_hdlRFID_AbsentDetect s"
  "l_hdlRFID_Off (MeasureStop h s) = l_hdlRFID_Off s" "l_flgObjectPresent (MeasureStop h s) = l_flgObjectPresent s"
  "l_hdlRFID_DetectTimeout (MeasureStop h s) = l_hdlRFID_DetectTimeout s" "l_flgNewRun (MeasureStop h s) = l_flgNewRun s"
  "l_flgNewID (MeasureStop h s) = l_flgNewID s" "l_State (MeasureStop h s) = l_State s"
  "xorsum (MeasureStop h s) = xorsum s" "w (MeasureStop h s) = w s"
  "crc (MeasureStop h s) = crc s" "uart_clock (MeasureStop h s) = uart_clock s"
  "uart_rx_pin (MeasureStop h s) = uart_rx_pin s" "uart_type (MeasureStop h s) = uart_type s"
  "em1_mod_rfid (MeasureStop h s) = em1_mod_rfid s" "g_PwrInterval (MeasureStop h s) = g_PwrInterval s"
  "g_On_Duration (MeasureStop h s) = g_On_Duration s" "l_hdlPwrInterval (MeasureStop h s) = l_hdlPwrInterval s"
  "pwr_pin (MeasureStop h s) = pwr_pin s" "hdlFollowUpTime (MeasureStop h s) = hdlFollowUpTime s"
  "FollowUpTime (MeasureStop h s) = FollowUpTime s" "l_ScanDuration (MeasureStop h s) = l_ScanDuration s"
  "l_ADC_Value (MeasureStop h s) = l_ADC_Value s" "l_prev_value_mV (MeasureStop h s) = l_prev_value_mV s"
  "l_prev_value_mA (MeasureStop h s) = l_prev_value_mA s" "l_prev_BATT_mV (MeasureStop h s) = l_prev_BATT_mV s"
  "l_prev_BATT_mA (MeasureStop h s) = l_prev_BATT_mA s" "l_BATT_FollowUpTime (MeasureStop h s) = l_BATT_FollowUpTime s"
  "l_hdlFollowUpTimeBATT (MeasureStop h s) = l_hdlFollowUpTimeBATT s" "l_flgLogBATT (MeasureStop h s) = l_flgLogBATT s"
  "l_BATT_MeasureInterval (MeasureStop h s) = l_BATT_MeasureInterval s" "l_mV_Divider (MeasureStop h s) = l_mV_Divider s"
  "l_mA_Divider (MeasureStop h s) = l_mA_Divider s" "g_UA_Calib_mV (MeasureStop h s) = g_UA_Calib_mV s"
  "g_UA_Calib_mA (MeasureStop h s) = g_UA_Calib_mA s" "l_PwrOut (MeasureStop h s) = l_PwrOut s"
  "l_flgCalibration (MeasureStop h s) = l_flgCalibration s" "l_hdlLCD_Off (MeasureStop h s) = l_hdlLCD_Off s"
  "power_fail (MeasureStop h s) = power_fail s" "eeprom (MeasureStop h s) = eeprom s"
  "timer_cb (MeasureStop h s) = timer_cb s" "timer_remaining (MeasureStop h s) = timer_remaining s"
  "timer_count (MeasureStop h s) = timer_count s" "trace (MeasureStop h s) = trace s"
  by (simp_all add: MeasureStop_def Let_def)

lemma MeasureStopBATT_frame [simp]:
  "cfg_LOGGING (MeasureStopBATT h s) = cfg_LOGGING s" "cfg_LIGHT_BARRIER (MeasureStopBATT h s) = cfg_LIGHT_BARRIER s"
  "cfg_DISPLAY_UPDATE_WHEN_ABSENT (MeasureStopBATT h s) = cfg_DISPLAY_UPDATE_WHEN_ABSENT s" "cfg_ALARM_UA1_ON_TIME_1 (MeasureStopBATT h s) = cfg_ALARM_UA1_ON_TIME_1 s"
  "g_RFID_Type (MeasureStopBATT h s) = g_RFID_Type s" "g_RFID_Power (MeasureStopBATT h s) = g_RFID_Power s"
  "g_RFID_AbsentDetectTimeout (MeasureStopBATT h s) = g_RFID_AbsentDetectTimeout s" "g_RFID_PwrOffTimeout (MeasureStopBATT h s) = g_RFID_PwrOffTimeout s"
  "g_RFID_DetectTimeout (MeasureStopBATT h s) = g_RFID_DetectTimeout s" "g_FERR_Cnt (MeasureStopBATT h s) = g_FERR_Cnt s"
  "g_PERR_Cnt (MeasureStopBATT h s) = g_PERR_Cnt s" "g_Transponder (MeasureStopBATT h s) = g_Transponder s"
  "l_flgRFID_Activate (MeasureStopBATT h s) = l_flgRFID_Activate s" "l_pRFID_Cfg_Type (MeasureStopBATT h s) = l_pRFID_Cfg_Type s"
  "l_pRFID_Cfg_PwrOut (MeasureStopBATT h s) = l_pRFID_Cfg_PwrOut s" "l_flgRFID_On (MeasureStopBATT h s) = l_flgRFID_On s"
  "l_flgRFID_IsOn (MeasureStopBATT h s) = l_flgRFID_IsOn s" "l_hdlRFID_AbsentDetect (MeasureStopBATT h s) = l_hdlRFID_AbsentDetect s"
  "l_hdlRFID_Off (MeasureStopBATT h s) = l_hdlRFID_Off s" "l_flgObjectPresent (MeasureStopBATT h s) = l_flgObjectPresent s"
  "l_hdlRFID_DetectTimeout (MeasureStopBATT h s) = l_hdlRFID_DetectTimeout s" "l_flgNewRun (MeasureStopBATT h s) = l_flgNewRun s"
  "l_flgNewID (MeasureStopBATT h s) = l_flgNewID s" "l_State (MeasureStopBATT h s) = l_State s"
  "xorsum (MeasureStopBATT h s) = xorsum s" "w (MeasureStopBATT h s) = w s"
  "crc (MeasureStopBATT h s) = crc s" "uart_clock (MeasureStopBATT h s) = uart_clock s"
  "uart_rx_pin (MeasureStopBATT h s) = uart_rx_pin s" "uart_type (MeasureStopBATT h s) = uart_type s"
  "em1_mod_rfid (MeasureStopBATT h s) = em1_mod_rfid s" "g_PwrInterval (MeasureStopBATT h s) = g_PwrInterval s"
  "g_On_Duration (MeasureStopBATT h s) = g_On_Duration s" "g_flgIRQ (MeasureStopBATT h s) = g_flgIRQ s"
  "l_hdlPwrInterval (MeasureStopBATT h s) = l_hdlPwrInterval s" "pwr_pin (MeasureStopBATT h s) = pwr_pin s"
  "meas_pin (MeasureStopBATT h s) = meas_pin s" "hdlFollowUpTime (MeasureStopBATT h s) = hdlFollowUpTime s"
  "FollowUpTime (MeasureStopBATT h s) = FollowUpTime s" "l_ScanDuration (MeasureStopBATT h s) = l_ScanDuration s"
  "l_ADC_ActiveChanMask (MeasureStopBATT h s) = l_ADC_ActiveChanMask s" "l_ADC_Value (MeasureStopBATT h s) = l_ADC_Value s"
  "l_prev_value_mV (MeasureStopBATT h s) = l_prev_value_mV s" "l_prev_value_mA (MeasureStopBATT h s) = l_prev_value_mA s"
  "l_prev_BATT_mV (MeasureStopBATT h s) = l_prev_BATT_mV s" "l_prev_BATT_mA (MeasureStopBATT h s) = l_prev_BATT_mA s"
  "l_BATT_FollowUpTime (MeasureStopBATT h s) = l_BATT_FollowUpTime s" "l_hdlFollowUpTimeBATT (MeasureStopBATT h s) = l_hdlFollowUpTimeBATT s"
  "l_BATT_MeasureInterval (MeasureStopBATT h s) = l_BATT_MeasureInterval s" "l_flgADC_On (MeasureStopBATT h s) = l_flgADC_On s"
  "l_mV_Divider (MeasureStopBATT h s) = l_mV_Divider s" "l_mA_Divider (MeasureStopBATT h s) = l_mA_Divider s"
  "g_UA_Calib_mV (MeasureStopBATT h s) = g_UA_Calib_mV s" "g_UA_Calib_mA (MeasureStopBATT h s) = g_UA_Calib_mA s"
  "l_PwrOut (MeasureStopBATT h s) = l_PwrOut s" "l_flgCalibration (MeasureStopBATT h s) = l_flgCalibration s"
  "l_hdlLCD_Off (MeasureStopBATT h s) = l_hdlLCD_Off s" "power_fail (MeasureStopBATT h s) = power_fail s"
  "eeprom (MeasureStopBATT h s) = eeprom s" "timer_cb (MeasureStopBATT h s) = timer_cb s"
  "timer_remaining (MeasureStopBATT h s) = timer_remaining s" "timer_count (MeasureStopBATT h s) = timer_count s"
  by (simp_all add: MeasureStopBATT_def)

lemma SwitchRFID_Off_frame [simp]:
  "cfg_LOGGING (SwitchRFID_Off h s) = cfg_LOGGING s" "cfg_LIGHT_BARRIER (SwitchRFID_Off h s) = cfg_LIGHT_BARRIER s"
  "cfg_DISPLAY_UPDATE_WHEN_ABSENT (SwitchRFID_Off h s) = cfg_DISPLAY_UPDATE_WHEN_ABSENT s" "cfg_ALARM_UA1_ON_TIME_1 (SwitchRFID_Off h s) = cfg_ALARM_UA1_ON_TIME_1 s"
  "g_RFID_Type (SwitchRFID_Off h s) = g_RFID_Type s" "g_RFID_Power (SwitchRFID_Off h s) = g_RFID_Power s"
  "g_RFID_AbsentDetectTimeout (SwitchRFID_Off h s) = g_RFID_AbsentDetectTimeout s" "g_RFID_PwrOffTimeout (SwitchRFID_Off h s) = g_RFID_PwrOffTimeout s"
  "g_RFID_DetectTimeout (SwitchRFID_Off h s) = g_RFID_DetectTimeout s" "g_FERR_Cnt (SwitchRFID_Off h s) = g_FERR_Cnt s"
  "g_PERR_Cnt (SwitchRFID_Off h s) = g_PERR_Cnt s" "g_Transponder (SwitchRFID_Off h s) = g_Transponder s"
  "l_flgRFID_Activate (SwitchRFID_Off h s) = l_flgRFID_Activate s" "l_pRFID_Cfg_Type (SwitchRFID_Off h s) = l_pRFID_Cfg_Type s"
  "l_pRFID_Cfg_PwrOut (SwitchRFID_Off h s) = l_pRFID_Cfg_PwrOut s" "l_flgRFID_IsOn (SwitchRFID_Off h s) = l_flgRFID_IsOn s"
  "l_hdlRFID_AbsentDetect (SwitchRFID_Off h s) = l_hdlRFID_AbsentDetect s" "l_hdlRFID_Off (SwitchRFID_Off h s) = l_hdlRFID_Off s"
  "l_flgObjectPresent (SwitchRFID_Off h s) = l_flgObjectPresent s" "l_hdlRFID_DetectTimeout (SwitchRFID_Off h s) = l_hdlRFID_DetectTimeout s"
  "l_flgNewRun (SwitchRFID_Off h s) = l_flgNewRun s" "l_flgNewID (SwitchRFID_Off h s) = l_flgNewID s"
  "l_State (SwitchRFID_Off h s) = l_State s" "xorsum (SwitchRFID_Off h s) = xorsum s"
  "w (SwitchRFID_Off h s) = w s" "crc (SwitchRFID_Off h s) = crc s"
  "uart_clock (SwitchRFID_Off h s) = uart_clock s" "uart_rx_pin (SwitchRFID_Off h s) = uart_rx_pin s"
  "uart_type (SwitchRFID_Off h s) = uart_type s" "em1_mod_rfid (SwitchRFID_Off h s) = em1_mod_rfid s"
  "g_PwrInterval (SwitchRFID_Off h s) = g_PwrInterval s" "g_On_Duration (SwitchRFID_Off h s) = g_On_Duration s"
  "l_hdlPwrInterval (SwitchRFID_Off h s) = l_hdlPwrInterval s" "pwr_pin (SwitchRFID_Off h s) = pwr_pin s"
  "meas_pin (SwitchRFID_Off h s) = meas_pin s" "hdlFollowUpTime (SwitchRFID_Off h s) = hdlFollowUpTime s"
  "FollowUpTime (SwitchRFID_Off h s) = FollowUpTime s" "l_ScanDuration (SwitchRFID_Off h s) = l_ScanDuration s"
  "l_ADC_ActiveChanMask (SwitchRFID_Off h s) = l_ADC_ActiveChanMask s" "l_ADC_Value (SwitchRFID_Off h s) = l_ADC_Value s"
  "l_prev_value_mV (SwitchRFID_Off h s) = l_prev_value_mV s" "l_prev_value_mA (SwitchRFID_Off h s) = l_prev_value_mA s"
  "l_prev_BATT_mV (SwitchRFID_Off h s) = l_prev_BATT_mV s" "l_prev_BATT_mA (SwitchRFID_Off h s) = l_prev_BATT_mA s"
  "l_BATT_FollowUpTime (SwitchRFID_Off h s) = l_BATT_FollowUpTime s" "l_hdlFollowUpTimeBATT (SwitchRFID_Off h s) = l_hdlFollowUpTimeBATT s"
  "l_flgLogBATT (SwitchRFID_Off h s) = l_flgLogBATT s" "l_BATT_MeasureInterval (SwitchRFID_Off h s) = l_BATT_MeasureInterval s"
  "l_flgADC_On (SwitchRFID_Off h s) = l_flgADC_On s" "l_mV_Divider (SwitchRFID_Off h s) = l_mV_Divider s"
  "l_mA_Divider (SwitchRFID_Off h s) = l_mA_Divider s" "g_UA_Calib_mV (SwitchRFID_Off h s) = g_UA_Calib_mV s"
  "g_UA_Calib_mA (SwitchRFID_Off h s) = g_UA_Calib_mA s" "l_PwrOut (SwitchRFID_Off h s) = l_PwrOut s"
  "l_flgCalibration (SwitchRFID_Off h s) = l_flgCalibration s" "l_hdlLCD_Off (SwitchRFID_Off h s) = l_hdlLCD_Off s"
  "power_fail (SwitchRFID_Off h s) = power_fail s" "eeprom (SwitchRFID_Off h s) = eeprom s"
  "timer_cb (SwitchRFID_Off h s) = timer_cb s" "timer_remaining (SwitchRFID_Off h s) = timer_remaining s"
  "timer_count (SwitchRFID_Off h s) = timer_count s" "trace (SwitchRFID_Off h s) = trace s"
  by (simp_all add: SwitchRFID_Off_def)

lemma RFID_DetectTimeout_frame [simp]:
  "cfg_LOGGING (RFID_DetectTimeout h s) = cfg_LOGGING s" "cfg_LIGHT_BARRIER (RFID_DetectTimeout h s) = cfg_LIGHT_BARRIER s"
  "cfg_DISPLAY_UPDATE_WHEN_ABSENT (RFID_DetectTimeout h s) = cfg_DISPLAY_UPDATE_WHEN_ABSENT s" "cfg_ALARM_UA1_ON_TIME_1 (RFID_DetectTimeout h s) = cfg_ALARM_UA1_ON_TIME_1 s"
  "g_RFID_Type (RFID_DetectTimeout h s) = g_RFID_Type s" "g_RFID_Power (RFID_DetectTimeout h s) = g_RFID_Power s"
  "g_RFID_AbsentDetectTimeout (RFID_DetectTimeout h s) = g_RFID_AbsentDetectTimeout s" "g_RFID_PwrOffTimeout (RFID_DetectTimeout h s) = g_RFID_PwrOffTimeout s"
  "g_RFID_DetectTimeout (RFID_DetectTimeout h s) = g_RFID_DetectTimeout s" "g_FERR_Cnt (RFID_DetectTimeout h s) = g_FERR_Cnt s"
  "g_PERR_Cnt (RFID_DetectTimeout h s) = g_PERR_Cnt s" "l_flgRFID_Activate (RFID_DetectTimeout h s) = l_flgRFID_Activate s"
  "l_pRFID_Cfg_Type (RFID_DetectTimeout h s) = l_pRFID_Cfg_Type s" "l_pRFID_Cfg_PwrOut (RFID_DetectTimeout h s) = l_pRFID_Cfg_PwrOut s"
  "l_flgRFID_On (RFID_DetectTimeout h s) = l_flgRFID_On s" "l_flgRFID_IsOn (RFID_DetectTimeout h s) = l_flgRFID_IsOn s"
  "l_hdlRFID_AbsentDetect (RFID_DetectTimeout h s) = l_hdlRFID_AbsentDetect s" "l_hdlRFID_Off (RFID_DetectTimeout h s) = l_hdlRFID_Off s"
  "l_flgObjectPresent (RFID_DetectTimeout h s) = l_flgObjectPresent s" "l_hdlRFID_DetectTimeout (RFID_DetectTimeout h s) = l_hdlRFID_DetectTimeout s"
  "l_flgNewRun (RFID_DetectTimeout h s) = l_flgNewRun s" "l_State (RFID_DetectTimeout h s) = l_State s"
  "xorsum (RFID_DetectTimeout h s) = xorsum s" "w (RFID_DetectTimeout h s) = w s"
  "crc (RFID_DetectTimeout h s) = crc s" "uart_clock (RFID_DetectTimeout h s) = uart_clock s"
  "uart_rx_pin (RFID_DetectTimeout h s) = uart_rx_pin s" "uart_type (RFID_DetectTimeout h s) = uart_type s"
  "em1_mod_rfid (RFID_DetectTimeout h s) = em1_mod_rfid s" "g_PwrInterval (RFID_DetectTimeout h s) = g_PwrInterval s"
  "g_On_Duration (RFID_DetectTimeout h s) = g_On_Duration s" "g_flgIRQ (RFID_DetectTimeout h s) = g_flgIRQ s"
  "l_hdlPwrInterval (RFID_DetectTimeout h s) = l_hdlPwrInterval s" "pwr_pin (RFID_DetectTimeout h s) = pwr_pin s"
  "meas_pin (RFID_DetectTimeout h s) = meas_pin s" "hdlFollowUpTime (RFID_DetectTimeout h s) = hdlFollowUpTime s"
  "FollowUpTime (RFID_DetectTimeout h s) = FollowUpTime s" "l_ScanDuration (RFID_DetectTimeout h s) = l_ScanDuration s"
  "l_ADC_ActiveChanMask (RFID_DetectTimeout h s) = l_ADC_ActiveChanMask s" "l_ADC_Value (RFID_DetectTimeout h s) = l_ADC_Value s"
  "l_prev_value_mV (RFID_DetectTimeout h s) = l_prev_value_mV s" "l_prev_value_mA (RFID_DetectTimeout h s) = l_prev_value_mA s"
  "l_prev_BATT_mV (RFID_DetectTimeout h s) = l_prev_BATT_mV s" "l_prev_BATT_mA (RFID_DetectTimeout h s) = l_prev_BATT_mA s"
  "l_BATT_FollowUpTime (RFID_DetectTimeout h s) = l_BATT_FollowUpTime s" "l_hdlFollowUpTimeBATT (RFID_DetectTimeout h s) = l_hdlFollowUpTimeBATT s"
  "l_flgLogBATT (RFID_DetectTimeout h s) = l_flgLogBATT s" "l_BATT_MeasureInterval (RFID_DetectTimeout h s) = l_BATT_MeasureInterval s"
  "l_flgADC_On (RFID_DetectTimeout h s) = l_flgADC_On s" "l_mV_Divider (RFID_DetectTimeout h s) = l_mV_Divider s"
  "l_mA_Divider (RFID_DetectTimeout h s) = l_mA_Divider s" "g_UA_Calib_mV (RFID_DetectTimeout h s) = g_UA_Calib_mV s"
  "g_UA_Calib_mA (RFID_DetectTimeout h s) = g_UA_Calib_mA s" "l_PwrOut (RFID_DetectTimeout h s) = l_PwrOut s"
  "l_flgCalibration (RFID_DetectTimeout h s) = l_flgCalibration s" "l_hdlLCD_Off (RFID_DetectTimeout h s) = l_hdlLCD_Off s"
  "power_fail (RFID_DetectTimeout h s) = power_fail s" "eeprom (RFID_DetectTimeout h s) = eeprom s"
  "timer_cb (RFID_DetectTimeout h s) = timer_cb s" "timer_remaining (RFID_DetectTimeout h s) = timer_remaining s"
  "timer_count (RFID_DetectTimeout h s) = timer_count s"
  by (simp_all add: RFID_DetectTimeout_def)

lemma switch_output_frame [simp]:
  "cfg_LOGGING (switch_output p e s) = cfg_LOGGING s" "cfg_LIGHT_BARRIER (switch_output p e s) = cfg_LIGHT_BARRIER s"
  "cfg_DISPLAY_UPDATE_WHEN_ABSENT (switch_output p e s) = cfg_DISPLAY_UPDATE_WHEN_ABSENT s" "cfg_ALARM_UA1_ON_TIME_1 (switch_output p e s) = cfg_ALARM_UA1_ON_TIME_1 s"
  "g_RFID_Type (switch_output p e s) = g_RFID_Type s" "g_RFID_Power (switch_output p e s) = g_RFID_Power s"
  "g_RFID_AbsentDetectTimeout (switch_output p e s) = g_RFID_AbsentDetectTimeout s" "g_RFID_PwrOffTimeout (switch_output p e s) = g_RFID_PwrOffTimeout s"
  "g_RFID_DetectTimeout (switch_output p e s) = g_RFID_DetectTimeout s" "g_FERR_Cnt (switch_output p e s) = g_FERR_Cnt s"
  "g_PERR_Cnt (switch_output p e s) = g_PERR_Cnt s" "g_Transponder (switch_output p e s) = g_Transponder s"
  "l_flgRFID_Activate (switch_output p e s) = l_flgRFID_Activate s" "l_pRFID_Cfg_Type (switch_output p e s) = l_pRFID_Cfg_Type s"
  "l_pRFID_Cfg_PwrOut (switch_output p e s) = l_pRFID_Cfg_PwrOut s" "l_hdlRFID_AbsentDetect (switch_output p e s) = l_hdlRFID_AbsentDetect s"
  "l_hdlRFID_Off (switch_output p e s) = l_hdlRFID_Off s" "l_hdlRFID_DetectTimeout (switch_output p e s) = l_hdlRFID_DetectTimeout s"
  "l_flgNewID (switch_output p e s) = l_flgNewID s" "xorsum (switch_output p e s) = xorsum s"
  "w (switch_output p e s) = w s" "crc (switch_output p e s) = crc s"
  "uart_type (switch_output p e s) = uart_type s" "g_PwrInterval (switch_output p e s) = g_PwrInterval s"
  "g_On_Duration (switch_output p e s) = g_On_Duration s" "l_hdlPwrInterval (switch_output p e s) = l_hdlPwrInterval s"
  "hdlFollowUpTime (switch_output p e s) = hdlFollowUpTime s" "FollowUpTime (switch_output p e s) = FollowUpTime s"
  "l_ScanDuration (switch_output p e s) = l_ScanDuration s" "l_ADC_Value (switch_output p e s) = l_ADC_Value s"
  "l_BATT_FollowUpTime (switch_output p e s) = l_BATT_FollowUpTime s" "l_hdlFollowUpTimeBATT (switch_output p e s) = l_hdlFollowUpTimeBATT s"
  "l_mV_Divider (switch_output p e s) = l_mV_Divider s" "l_mA_Divider (switch_output p e s) = l_mA_Divider s"
  "g_UA_Calib_mV (switch_output p e s) = g_UA_Calib_mV s" "g_UA_Calib_mA (switch_output p e s) = g_UA_Calib_mA s"
  "l_PwrOut (switch_output p e s) = l_PwrOut s" "l_flgCalibration (switch_output p e s) = l_flgCalibration s"
  "l_hdlLCD_Off (switch_output p e s) = l_hdlLCD_Off s" "power_fail (switch_output p e s) = power_fail s"
  "eeprom (switch_output p e s) = eeprom s" "timer_cb (switch_output p e s) = timer_cb s"
  "timer_count (switch_output p e s) = timer_count s"
  by (simp_all add: switch_output_def Let_def)

lemma IntervalPowerControl_frame [simp]:
  "cfg_LOGGING (IntervalPowerControl h s) = cfg_LOGGING s" "cfg_LIGHT_BARRIER (IntervalPowerControl h s) = cfg_LIGHT_BARRIER s"
  "cfg_DISPLAY_UPDATE_WHEN_ABSENT (IntervalPowerControl h s) = cfg_DISPLAY_UPDATE_WHEN_ABSENT s" "cfg_ALARM_UA1_ON_TIME_1 (IntervalPowerControl h s) = cfg_ALARM_UA1_ON_TIME_1 s"
  "g_RFID_Type (IntervalPowerControl h s) = g_RFID_Type s" "g_RFID_Power (IntervalPowerControl h s) = g_RFID_Power s"
  "g_RFID_AbsentDetectTimeout (IntervalPowerControl h s) = g_RFID_AbsentDetectTimeout s" "g_RFID_PwrOffTimeout (IntervalPowerControl h s) = g_RFID_PwrOffTimeout s"
  "g_RFID_DetectTimeout (IntervalPowerControl h s) = g_RFID_DetectTimeout s" "g_FERR_Cnt (IntervalPowerControl h s) = g_FERR_Cnt s"
  "g_PERR_Cnt (IntervalPowerControl h s) = g_PERR_Cnt s" "g_Transponder (IntervalPowerControl h s) = g_Transponder s"
  "l_flgRFID_Activate (IntervalPowerControl h s) = l_flgRFID_Activate s" "l_pRFID_Cfg_Type (IntervalPowerControl h s) = l_pRFID_Cfg_Type s"
  "l_pRFID_Cfg_PwrOut (IntervalPowerControl h s) = l_pRFID_Cfg_PwrOut s" "l_hdlRFID_AbsentDetect (IntervalPowerControl h s) = l_hdlRFID_AbsentDetect s"
  "l_hdlRFID_Off (IntervalPowerControl h s) = l_hdlRFID_Off s" "l_hdlRFID_DetectTimeout (IntervalPowerControl h s) = l_hdlRFID_DetectTimeout s"
  "l_flgNewID (IntervalPowerControl h s) = l_flgNewID s" "xorsum (IntervalPowerControl h s) = xorsum s"
  "w (IntervalPowerControl h s) = w s" "crc (IntervalPowerControl h s) = crc s"
  "uart_type (IntervalPowerControl h s) = uart_type s" "g_PwrInterval (IntervalPowerControl h s) = g_PwrInterval s"
  "g_On_Duration (IntervalPowerControl h s) = g_On_Duration s" "l_hdlPwrInterval (IntervalPowerControl h s) = l_hdlPwrInterval s"
  "hdlFollowUpTime (IntervalPowerControl h s) = hdlFollowUpTime s" "FollowUpTime (IntervalPowerControl h s) = FollowUpTime s"
  "l_ScanDuration (IntervalPowerControl h s) = l_ScanDuration s" "l_ADC_Value (IntervalPowerControl h s) = l_ADC_Value s"
  "l_BATT_FollowUpTime (IntervalPowerControl h s) = l_BATT_FollowUpTime s" "l_hdlFollowUpTimeBATT (IntervalPowerControl h s) = l_hdlFollowUpTimeBATT s"
  "l_mV_Divider (IntervalPowerControl h s) = l_mV_Divider s" "l_mA_Divider (IntervalPowerControl h s) = l_mA_Divider s"
  "g_UA_Calib_mV (IntervalPowerControl h s) = g_UA_Calib_mV s" "g_UA_Calib_mA (IntervalPowerControl h s) = g_UA_Calib_mA s"
  "l_PwrOut (IntervalPowerControl h s) = l_PwrOut s" "l_flgCalibration (IntervalPowerControl h s) = l_flgCalibration s"
  "l_hdlLCD_Off (IntervalPowerControl h s) = l_hdlLCD_Off s" "power_fail (IntervalPowerControl h s) = power_fail s"
  "eeprom (IntervalPowerControl h s) = eeprom s" "timer_cb (IntervalPowerControl h s) = timer_cb s"
  "timer_count (IntervalPowerControl h s) = timer_count s"
  by (simp_all add: IntervalPowerControl_def Let_def)

lemma AlarmPowerControl_frame [simp]:
  "cfg_LOGGING (AlarmPowerControl a s) = cfg_LOGGING s" "cfg_LIGHT_BARRIER (AlarmPowerControl a s) = cfg_LIGHT_BARRIER s"
  "cfg_DISPLAY_UPDATE_WHEN_ABSENT (AlarmPowerControl a s) = cfg_DISPLAY_UPDATE_WHEN_ABSENT s" "cfg_ALARM_UA1_ON_TIME_1 (AlarmPowerControl a s) = cfg_ALARM_UA1_ON_TIME_1 s"
  "g_RFID_Type (AlarmPowerControl a s) = g_RFID_Type s" "g_RFID_Power (AlarmPowerControl a s) = g_RFID_Power s"
  "g_RFID_AbsentDetectTimeout (AlarmPowerControl a s) = g_RFID_AbsentDetectTimeout s" "g_RFID_PwrOffTimeout (AlarmPowerControl a s) = g_RFID_PwrOffTimeout s"
  "g_RFID_DetectTimeout (AlarmPowerControl a s) = g_RFID_DetectTimeout s" "g_FERR_Cnt (AlarmPowerControl a s) = g_FERR_Cnt s"
  "g_PERR_Cnt (AlarmPowerControl a s) = g_PERR_Cnt s" "g_Transponder (AlarmPowerControl a s) = g_Transponder s"
  "l_flgRFID_Activate (AlarmPowerControl a s) = l_flgRFID_Activate s" "l_pRFID_Cfg_Type (AlarmPowerControl a s) = l_pRFID_Cfg_Type s"
  "l_pRFID_Cfg_PwrOut (AlarmPowerControl a s) = l_pRFID_Cfg_PwrOut s" "l_hdlRFID_AbsentDetect (AlarmPowerControl a s) = l_hdlRFID_AbsentDetect s"
  "l_hdlRFID_Off (AlarmPowerControl a s) = l_hdlRFID_Off s" "l_hdlRFID_DetectTimeout (AlarmPowerControl a s) = l_hdlRFID_DetectTimeout s"
  "l_flgNewID (AlarmPowerControl a s) = l_flgNewID s" "xorsum (AlarmPowerControl a s) = xorsum s"
  "w (AlarmPowerControl a s) = w s" "crc (AlarmPowerControl a s) = crc s"
  "uart_type (AlarmPowerControl a s) = uart_type s" "g_PwrInterval (AlarmPowerControl a s) = g_PwrInterval s"
  "g_On_Duration (AlarmPowerControl a s) = g_On_Duration s" "l_hdlPwrInterval (AlarmPowerControl a s) = l_hdlPwrInterval s"
  "hdlFollowUpTime (AlarmPowerControl a s) = hdlFollowUpTime s" "FollowUpTime (AlarmPowerControl a s) = FollowUpTime s"
  "l_ScanDuration (AlarmPowerControl a s) = l_ScanDuration s" "l_ADC_Value (AlarmPowerControl a s) = l_ADC_Value s"
  "l_BATT_FollowUpTime (AlarmPowerControl a s) = l_BATT_FollowUpTime s" "l_hdlFollowUpTimeBATT (AlarmPowerControl a s) = l_hdlFollowUpTimeBATT s"
  "l_mV_Divider (AlarmPowerControl a s) = l_mV_Divider s" "l_mA_Divider (AlarmPowerControl a s) = l_mA_Divider s"
  "g_UA_Calib_mV (AlarmPowerControl a s) = g_UA_Calib_mV s" "g_UA_Calib_mA (AlarmPowerControl a s) = g_UA_Calib_mA s"
  "l_PwrOut (AlarmPowerControl a s) = l_PwrOut s" "l_flgCalibration (AlarmPowerControl a s) = l_flgCalibration s"
  "l_hdlLCD_Off (AlarmPowerControl a s) = l_hdlLCD_Off s" "power_fail (AlarmPowerControl a s) = power_fail s"
  "eeprom (AlarmPowerControl a s) = eeprom s" "timer_cb (AlarmPowerControl a s) = timer_cb s"
  "timer_count (AlarmPowerControl a s) = timer_count s"
  by (simp_all add: AlarmPowerControl_def Let_def)

lemma run_callback_frame [simp]:
  "cfg_LOGGING (run_callback cb h s) = cfg_LOGGING s" "cfg_LIGHT_BARRIER (run_callback cb h s) = cfg_LIGHT_BARRIER s"
  "cfg_DISPLAY_UPDATE_WHEN_ABSENT (run_callback cb h s) = cfg_DISPLAY_UPDATE_WHEN_ABSENT s" "cfg_ALARM_UA1_ON_TIME_1 (run_callback cb h s) = cfg_ALARM_UA1_ON_TIME_1 s"
  "g_RFID_Type (run_callback cb h s) = g_RFID_Type s" "g_RFID_Power (run_callback cb h s) = g_RFID_Power s"
  "g_RFID_AbsentDetectTimeout (run_callback cb h s) = g_RFID_AbsentDetectTimeout s" "g_RFID_PwrOffTimeout (run_callback cb h s) = g_RFID_PwrOffTimeout s"
  "g_RFID_DetectTimeout (run_callback cb h s) = g_RFID_DetectTimeout s" "g_FERR_Cnt (run_callback cb h s) = g_FERR_Cnt s"
  "g_PERR_Cnt (run_callback cb h s) = g_PERR_Cnt s" "l_flgRFID_Activate (run_callback cb h s) = l_flgRFID_Activate s"
  "l_pRFID_Cfg_Type (run_callback cb h s) = l_pRFID_Cfg_Type s" "l_pRFID_Cfg_PwrOut (run_callback cb h s) = l_pRFID_Cfg_PwrOut s"
  "l_hdlRFID_AbsentDetect (run_callback cb h s) = l_hdlRFID_AbsentDetect s" "l_hdlRFID_Off (run_callback cb h s) = l_hdlRFID_Off s"
  "l_hdlRFID_DetectTimeout (run_callback cb h s) = l_hdlRFID_DetectTimeout s" "xorsum (run_callback cb h s) = xorsum s"
  "w (run_callback cb h s) = w s" "crc (run_callback cb h s) = crc s"
  "uart_type (run_callback cb h s) = uart_type s" "g_PwrInterval (run_callback cb h s) = g_PwrInterval s"
  "g_On_Duration (run_callback cb h s) = g_On_Duration s" "l_hdlPwrInterval (run_callback cb h s) = l_hdlPwrInterval s"
  "hdlFollowUpTime (run_callback cb h s) = hdlFollowUpTime s" "FollowUpTime (run_callback cb h s) = FollowUpTime s"
  "l_ScanDuration (run_callback cb h s) = l_ScanDuration s" "l_ADC_Value (run_callback cb h s) = l_ADC_Value s"
  "l_BATT_FollowUpTime (run_callback cb h s) = l_BATT_FollowUpTime s" "l_hdlFollowUpTimeBATT (run_callback cb h s) = l_hdlFollowUpTimeBATT s"
  "l_mV_Divider (run_callback cb h s) = l_mV_Divider s" "l_mA_Divider (run_callback cb h s) = l_mA_Divider s"
  "g_UA_Calib_mV (run_callback cb h s) = g_UA_Calib_mV s" "g_UA_Calib_mA (run_callback cb h s) = g_UA_Calib_mA s"
  "l_PwrOut (run_callback cb h s) = l_PwrOut s" "l_flgCalibration (run_callback cb h s) = l_flgCalibration s"
  "l_hdlLCD_Off (run_callback cb h s) = l_hdlLCD_Off s" "power_fail (run_callback cb h s) = power_fail s"
  "eeprom (run_callback cb h s) = eeprom s" "timer_cb (run_callback cb h s) = timer_cb s"
  "timer_count (run_callback cb h s) = timer_count s"
  by (simp_all add: run_callback_def split: timer_callback.splits)

lemma timer_tick_slot_frame [simp]:
  "cfg_LOGGING (timer_tick_slot h s) = cfg_LOGGING s" "cfg_LIGHT_BARRIER (timer_tick_slot h s) = cfg_LIGHT_BARRIER s"
  "cfg_DISPLAY_UPDATE_WHEN_ABSENT (timer_tick_slot h s) = cfg_DISPLAY_UPDATE_WHEN_ABSENT s" "cfg_ALARM_UA1_ON_TIME_1 (timer_tick_slot h s) = cfg_ALARM_UA1_ON_TIME_1 s"
  "g_RFID_Type (timer_tick_slot h s) = g_RFID_Type s" "g_RFID_Power (timer_tick_slot h s) = g_RFID_Power s"
  "g_RFID_AbsentDetectTimeout (timer_tick_slot h s) = g_RFID_AbsentDetectTimeout s" "g_RFID_PwrOffTimeout (timer_tick_slot h s) = g_RFID_PwrOffTimeout s"
  "g_RFID_DetectTimeout (timer_tick_slot h s) = g_RFID_DetectTimeout s" "g_FERR_Cnt (timer_tick_slot h s) = g_FERR_Cnt s"
  "g_PERR_Cnt (timer_tick_slot h s) = g_PERR_Cnt s" "l_flgRFID_Activate (timer_tick_slot h s) = l_flgRFID_Activate s"
  "l_pRFID_Cfg_Type (timer_tick_slot h s) = l_pRFID_Cfg_Type s" "l_pRFID_Cfg_PwrOut (timer_tick_slot h s) = l_pRFID_Cfg_PwrOut s"
  "l_hdlRFID_AbsentDetect (timer_tick_slot h s) = l_hdlRFID_AbsentDetect s" "l_hdlRFID_Off (timer_tick_slot h s) = l_hdlRFID_Off s"
  "l_hdlRFID_DetectTimeout (timer_tick_slot h s) = l_hdlRFID_DetectTimeout s" "xorsum (timer_tick_slot h s) = xorsum s"
  "w (timer_tick_slot h s) = w s" "crc (timer_tick_slot h s) = crc s"
  "uart_type (timer_tick_slot h s) = uart_type s" "g_PwrInterval (timer_tick_slot h s) = g_PwrInterval s"
  "g_On_Duration (timer_tick_slot h s) = g_On_Duration s" "l_hdlPwrInterval (timer_tick_slot h s) = l_hdlPwrInterval s"
  "hdlFollowUpTime (timer_tick_slot h s) = hdlFollowUpTime s" "FollowUpTime (timer_tick_slot h s) = FollowUpTime s"
  "l_ScanDuration (timer_tick_slot h s) = l_ScanDuration s" "l_ADC_Value (timer_tick_slot h s) = l_ADC_Value s"
  "l_BATT_FollowUpTime (timer_tick_slot h s) = l_BATT_FollowUpTime s" "l_hdlFollowUpTimeBATT (timer_tick_slot h s) = l_hdlFollowUpTimeBATT s"
  "l_mV_Divider (timer_tick_slot h s) = l_mV_Divider s" "l_mA_Divider (timer_tick_slot h s) = l_mA_Divider s"
  "g_UA_Calib_mV (timer_tick_slot h s) = g_UA_Calib_mV s" "g_UA_Calib_mA (timer_tick_slot h s) = g_UA_Calib_mA s"
  "l_PwrOut (timer_tick_slot h s) = l_PwrOut s" "l_flgCalibration (timer_tick_slot h s) = l_flgCalibration s"
  "l_hdlLCD_Off (timer_tick_slot h s) = l_hdlLCD_Off s" "power_fail (timer_tick_slot h s) = power_fail s"
  "eeprom (timer_tick_slot h s) = eeprom s" "timer_cb (timer_tick_slot h s) = timer_cb s"
  "timer_count (timer_tick_slot h s) = timer_count s"
  by (simp_all add: timer_tick_slot_def split: option.splits)

lemma timer_tick_slots_frame_conj:
  "cfg_LOGGING (timer_tick_slots n h s) = cfg_LOGGING s
   \<and> cfg_LIGHT_BARRIER (timer_tick_slots n h s) = cfg_LIGHT_BARRIER s
   \<and> cfg_DISPLAY_UPDATE_WHEN_ABSENT (timer_tick_slots n h s) = cfg_DISPLAY_UPDATE_WHEN_ABSENT s
   \<and> cfg_ALARM_UA1_ON_TIME_1 (timer_tick_slots n h s) = cfg_ALARM_UA1_ON_TIME_1 s
   \<and> g_RFID_Type (timer_tick_slots n h s) = g_RFID_Type s
   \<and> g_RFID_Power (timer_tick_slots n h s) = g_RFID_Power s
   \<and> g_RFID_AbsentDetectTimeout (timer_tick_slots n h s) = g_RFID_AbsentDetectTimeout s
   \<and> g_RFID_PwrOffTimeout (timer_tick_slots n h s) = g_RFID_PwrOffTimeout s
   \<and> g_RFID_DetectTimeout (timer_tick_slots n h s) = g_RFID_DetectTimeout s
   \<and> g_FERR_Cnt (timer_tick_slots n h s) = g_FERR_Cnt s
   \<and> g_PERR_Cnt (timer_tick_slots n h s) = g_PERR_Cnt s
   \<and> l_flgRFID_Activate (timer_tick_slots n h s) = l_flgRFID_Activate s
   \<and> l_pRFID_Cfg_Type (timer_tick_slots n h s) = l_pRFID_Cfg_Type s
   \<and> l_pRFID_Cfg_PwrOut (timer_tick_slots n h s) = l_pRFID_Cfg_PwrOut s
   \<and> l_hdlRFID_AbsentDetect (timer_tick_slots n h s) = l_hdlRFID_AbsentDetect s
   \<and> l_hdlRFID_Off (timer_tick_slots n h s) = l_hdlRFID_Off s
   \<and> l_hdlRFID_DetectTimeout (timer_tick_slots n h s) = l_hdlRFID_DetectTimeout s
   \<and> xorsum (timer_tick_slots n h s) = xorsum s
   \<and> w (timer_tick_slots n h s) = w s
   \<and> crc (timer_tick_slots n h s) = crc s
   \<and> uart_type (timer_tick_slots n h s) = uart_type s
   \<and> g_PwrInterval (timer_tick_slots n h s) = g_PwrInterval s
   \<and> g_On_Duration (timer_tick_slots n h s) = g_On_Duration s
   \<and> l_hdlPwrInterval (timer_tick_slots n h s) = l_hdlPwrInterval s
   \<and> hdlFollowUpTime (timer_tick_slots n h s) = hdlFollowUpTime s
   \<and> FollowUpTime (timer_tick_slots n h s) = FollowUpTime s
   \<and> l_ScanDuration (timer_tick_slots n h s) = l_ScanDuration s
   \<and> l_ADC_Value (timer_tick_slots n h s) = l_ADC_Value s
   \<and> l_BATT_FollowUpTime (timer_tick_slots n h s) = l_BATT_FollowUpTime s
   \<and> l_hdlFollowUpTimeBATT (timer_tick_slots n h s) = l_hdlFollowUpTimeBATT s
   \<and> l_mV_Divider (timer_tick_slots n h s) = l_mV_Divider s
   \<and> l_mA_Divider (timer_tick_slots n h s) = l_mA_Divider s
   \<and> g_UA_Calib_mV (timer_tick_slots n h s) = g_UA_Calib_mV s
   \<and> g_UA_Calib_mA (timer_tick_slots n h s) = g_UA_Calib_mA s
   \<and> l_PwrOut (timer_tick_slots n h s) = l_PwrOut s
   \<and> l_flgCalibration (timer_tick_slots n h s) = l_flgCalibration s
   \<and> l_hdlLCD_Off (timer_tick_slots n h s) = l_hdlLCD_Off s
   \<and> power_fail (timer_tick_slots n h s) = power_fail s
   \<and> eeprom (timer_tick_slots n h s) = eeprom s
   \<and> timer_cb (timer_tick_slots n h s) = timer_cb s
   \<and> timer_count (timer_tick_slots n h s) = timer_count s"
  by (induction n arbitrary: h s) simp_all

lemma timer_tick_slots_frame [simp]:
  "cfg_LOGGING (timer_tick_slots n h s) = cfg_LOGGING s" "cfg_LIGHT_BARRIER (timer_tick_slots n h s) = cfg_LIGHT_BARRIER s"
  "cfg_DISPLAY_UPDATE_WHEN_ABSENT (timer_tick_slots n h s) = cfg_DISPLAY_UPDATE_WHEN_ABSENT s" "cfg_ALARM_UA1_ON_TIME_1 (timer_tick_slots n h s) = cfg_ALARM_UA1_ON_TIME_1 s"
  "g_RFID_Type (timer_tick_slots n h s) = g_RFID_Type s" "g_RFID_Power (timer_tick_slots n h s) = g_RFID_Power s"
  "g_RFID_AbsentDetectTimeout (timer_tick_slots n h s) = g_RFID_AbsentDetectTimeout s" "g_RFID_PwrOffTimeout (timer_tick_slots n h s) = g_RFID_PwrOffTimeout s"
  "g_RFID_DetectTimeout (timer_tick_slots n h s) = g_RFID_DetectTimeout s" "g_FERR_Cnt (timer_tick_slots n h s) = g_FERR_Cnt s"
  "g_PERR_Cnt (timer_tick_slots n h s) = g_PERR_Cnt s" "l_flgRFID_Activate (timer_tick_slots n h s) = l_flgRFID_Activate s"
  "l_pRFID_Cfg_Type (timer_tick_slots n h s) = l_pRFID_Cfg_Type s" "l_pRFID_Cfg_PwrOut (timer_tick_slots n h s) = l_pRFID_Cfg_PwrOut s"
  "l_hdlRFID_AbsentDetect (timer_tick_slots n h s) = l_hdlRFID_AbsentDetect s" "l_hdlRFID_Off (timer_tick_slots n h s) = l_hdlRFID_Off s"
  "l_hdlRFID_DetectTimeout (timer_tick_slots n h s) = l_hdlRFID_DetectTimeout s" "xorsum (timer_tick_slots n h s) = xorsum s"
  "w (timer_tick_slots n h s) = w s" "crc (timer_tick_slots n h s) = crc s"
  "uart_type (timer_tick_slots n h s) = uart_type s" "g_PwrInterval (timer_tick_slots n h s) = g_PwrInterval s"
  "g_On_Duration (timer_tick_slots n h s) = g_On_Duration s" "l_hdlPwrInterval (timer_tick_slots n h s) = l_hdlPwrInterval s"
  "hdlFollowUpTime (timer_tick_slots n h s) = hdlFollowUpTime s" "FollowUpTime (timer_tick_slots n h s) = FollowUpTime s"
  "l_ScanDuration (timer_tick_slots n h s) = l_ScanDuration s" "l_ADC_Value (timer_tick_slots n h s) = l_ADC_Value s"
  "l_BATT_FollowUpTime (timer_tick_slots n h s) = l_BATT_FollowUpTime s" "l_hdlFollowUpTimeBATT (timer_tick_slots n h s) = l_hdlFollowUpTimeBATT s"
  "l_mV_Divider (timer_tick_slots n h s) = l_mV_Divider s" "l_mA_Divider (timer_tick_slots n h s) = l_mA_Divider s"
  "g_UA_Calib_mV (timer_tick_slots n h s) = g_UA_Calib_mV s" "g_UA_Calib_mA (timer_tick_slots n h s) = g_UA_Calib_mA s"
  "l_PwrOut (timer_tick_slots n h s) = l_PwrOut s" "l_flgCalibration (timer_tick_slots n h s) = l_flgCalibration s"
  "l_hdlLCD_Off (timer_tick_slots n h s) = l_hdlLCD_Off s" "power_fail (timer_tick_slots n h s) = power_fail s"
  "eeprom (timer_tick_slots n h s) = eeprom s" "timer_cb (timer_tick_slots n h s) = timer_cb s"
  "timer_count (timer_tick_slots n h s) = timer_count s"
  using timer_tick_slots_frame_conj [of n h s] by simp_all

lemma sTimerTick_frame [simp]:
  "cfg_LOGGING (sTimerTick s) = cfg_LOGGING s" "cfg_LIGHT_BARRIER (sTimerTick s) = cfg_LIGHT_BARRIER s"
  "cfg_DISPLAY_UPDATE_WHEN_ABSENT (sTimerTick s) = cfg_DISPLAY_UPDATE_WHEN_ABSENT s" "cfg_ALARM_UA1_ON_TIME_1 (sTimerTick s) = cfg_ALARM_UA1_ON_TIME_1 s"
  "g_RFID_Type (sTimerTick s) = g_RFID_Type s" "g_RFID_Power (sTimerTick s) = g_RFID_Power s"
  "g_RFID_AbsentDetectTimeout (sTimerTick s) = g_RFID_AbsentDetectTimeout s" "g_RFID_PwrOffTimeout (sTimerTick s) = g_RFID_PwrOffTimeout s"
  "g_RFID_DetectTimeout (sTimerTick s) = g_RFID_DetectTimeout s" "g_FERR_Cnt (sTimerTick s) = g_FERR_Cnt s"
  "g_PERR_Cnt (sTimerTick s) = g_PERR_Cnt s" "l_flgRFID_Activate (sTimerTick s) = l_flgRFID_Activate s"
  "l_pRFID_Cfg_Type (sTimerTick s) = l_pRFID_Cfg_Type s" "l_pRFID_Cfg_PwrOut (sTimerTick s) = l_pRFID_Cfg_PwrOut s"
  "l_hdlRFID_AbsentDetect (sTimerTick s) = l_hdlRFID_AbsentDetect s" "l_hdlRFID_Off (sTimerTick s) = l_hdlRFID_Off s"
  "l_hdlRFID_DetectTimeout (sTimerTick s) = l_hdlRFID_DetectTimeout s" "xorsum (sTimerTick s) = xorsum s"
  "w (sTimerTick s) = w s" "crc (sTimerTick s) = crc s"
  "uart_type (sTimerTick s) = uart_type s" "g_PwrInterval (sTimerTick s) = g_PwrInterval s"
  "g_On_Duration (sTimerTick s) = g_On_Duration s" "l_hdlPwrInterval (sTimerTick s) = l_hdlPwrInterval s"
  "hdlFollowUpTime (sTimerTick s) = hdlFollowUpTime s" "FollowUpTime (sTimerTick s) = FollowUpTime s"
  "l_ScanDuration (sTimerTick s) = l_ScanDuration s" "l_ADC_Value (sTimerTick s) = l_ADC_Value s"
  "l_BATT_FollowUpTime (sTimerTick s) = l_BATT_FollowUpTime s" "l_hdlFollowUpTimeBATT (sTimerTick s) = l_hdlFollowUpTimeBATT s"
  "l_mV_Divider (sTimerTick s) = l_mV_Divider s" "l_mA_Divider (sTimerTick s) = l_mA_Divider s"
  "g_UA_Calib_mV (sTimerTick s) = g_UA_Calib_mV s" "g_UA_Calib_mA (sTimerTick s) = g_UA_Calib_mA s"
  "l_PwrOut (sTimerTick s) = l_PwrOut s" "l_flgCalibration (sTimerTick s) = l_flgCalibration s"
  "l_hdlLCD_Off (sTimerTick s) = l_hdlLCD_Off s" "power_fail (sTimerTick s) = power_fail s"
  "eeprom (sTimerTick s) = eeprom s" "timer_cb (sTimerTick s) = timer_cb s"
  "timer_count (sTimerTick s) = timer_count s"
  by (simp_all add: sTimerTick_def)

lemma ticks_frame_conj:
  "cfg_LOGGING (ticks n s) = cfg_LOGGING s
   \<and> cfg_LIGHT_BARRIER (ticks n s) = cfg_LIGHT_BARRIER s
   \<and> cfg_DISPLAY_UPDATE_WHEN_ABSENT (ticks n s) = cfg_DISPLAY_UPDATE_WHEN_ABSENT s
   \<and> cfg_ALARM_UA1_ON_TIME_1 (ticks n s) = cfg_ALARM_UA1_ON_TIME_1 s
   \<and> g_RFID_Type (ticks n s) = g_RFID_Type s
   \<and> g_RFID_Power (ticks n s) = g_RFID_Power s
   \<and> g_RFID_AbsentDetectTimeout (ticks n s) = g_RFID_AbsentDetectTimeout s
   \<and> g_RFID_PwrOffTimeout (ticks n s) = g_RFID_PwrOffTimeout s
   \<and> g_RFID_DetectTimeout (ticks n s) = g_RFID_DetectTimeout s
   \<and> g_FERR_Cnt (ticks n s) = g_FERR_Cnt s
   \<and> g_PERR_Cnt (ticks n s) = g_PERR_Cnt s
   \<and> l_flgRFID_Activate (ticks n s) = l_flgRFID_Activate s
   \<and> l_pRFID_Cfg_Type (ticks n s) = l_pRFID_Cfg_Type s
   \<and> l_pRFID_Cfg_PwrOut (ticks n s) = l_pRFID_Cfg_PwrOut s
   \<and> l_hdlRFID_AbsentDetect (ticks n s) = l_hdlRFID_AbsentDetect s
   \<and> l_hdlRFID_Off (ticks n s) = l_hdlRFID_Off s
   \<and> l_hdlRFID_DetectTimeout (ticks n s) = l_hdlRFID_DetectTimeout s
   \<and> xorsum (ticks n s) = xorsum s
   \<and> w (ticks n s) = w s
   \<and> crc (ticks n s) = crc s
   \<and> uart_type (ticks n s) = uart_type s
   \<and> g_PwrInterval (ticks n s) = g_PwrInterval s
   \<and> g_On_Duration (ticks n s) = g_On_Duration s
   \<and> l_hdlPwrInterval (ticks n s) = l_hdlPwrInterval s
   \<and> hdlFollowUpTime (ticks n s) = hdlFollowUpTime s
   \<and> FollowUpTime (ticks n s) = FollowUpTime s
   \<and> l_ScanDuration (ticks n s) = l_ScanDuration s
   \<and> l_ADC_Value (ticks n s) = l_ADC_Value s
   \<and> l_BATT_FollowUpTime (ticks n s) = l_BATT_FollowUpTime s
   \<and> l_hdlFollowUpTimeBATT (ticks n s) = l_hdlFollowUpTimeBATT s
   \<and> l_mV_Divider (ticks n s) = l_mV_Divider s
   \<and> l_mA_Divider (ticks n s) = l_mA_Divider s
   \<and> g_UA_Calib_mV (ticks n s) = g_UA_Calib_mV s
   \<and> g_UA_Calib_mA (ticks n s) = g_UA_Calib_mA s
   \<and> l_PwrOut (ticks n s) = l_PwrOut s
   \<and> l_flgCalibration (ticks n s) = l_flgCalibration s
   \<and> l_hdlLCD_Off (ticks n s) = l_hdlLCD_Off s
   \<and> power_fail (ticks n s) = power_fail s
   \<and> eeprom (ticks n s) = eeprom s
   \<and> timer_cb (ticks n s) = timer_cb s
   \<and> timer_count (ticks n s) = timer_count s"
  by (induction n arbitrary: s) simp_all

lemma ticks_frame [simp]:
  "cfg_LOGGING (ticks n s) = cfg_LOGGING s" "cfg_LIGHT_BARRIER (ticks n s) = cfg_LIGHT_BARRIER s"
  "cfg_DISPLAY_UPDATE_WHEN_ABSENT (ticks n s) = cfg_DISPLAY_UPDATE_WHEN_ABSENT s" "cfg_ALARM_UA1_ON_TIME_1 (ticks n s) = cfg_ALARM_UA1_ON_TIME_1 s"
  "g_RFID_Type (ticks n s) = g_RFID_Type s" "g_RFID_Power (ticks n s) = g_RFID_Power s"
  "g_RFID_AbsentDetectTimeout (ticks n s) = g_RFID_AbsentDetectTimeout s" "g_RFID_PwrOffTimeout (ticks n s) = g_RFID_PwrOffTimeout s"
  "g_RFID_DetectTimeout (ticks n s) = g_RFID_DetectTimeout s" "g_FERR_Cnt (ticks n s) = g_FERR_Cnt s"
  "g_PERR_Cnt (ticks n s) = g_PERR_Cnt s" "l_flgRFID_Activate (ticks n s) = l_flgRFID_Activate s"
  "l_pRFID_Cfg_Type (ticks n s) = l_pRFID_Cfg_Type s" "l_pRFID_Cfg_PwrOut (ticks n s) = l_pRFID_Cfg_PwrOut s"
  "l_hdlRFID_AbsentDetect (ticks n s) = l_hdlRFID_AbsentDetect s" "l_hdlRFID_Off (ticks n s) = l_hdlRFID_Off s"
  "l_hdlRFID_DetectTimeout (ticks n s) = l_hdlRFID_DetectTimeout s" "xorsum (ticks n s) = xorsum s"
  "w (ticks n s) = w s" "crc (ticks n s) = crc s"
  "uart_type (ticks n s) = uart_type s" "g_PwrInterval (ticks n s) = g_PwrInterval s"
  "g_On_Duration (ticks n s) = g_On_Duration s" "l_hdlPwrInterval (ticks n s) = l_hdlPwrInterval s"
  "hdlFollowUpTime (ticks n s) = hdlFollowUpTime s" "FollowUpTime (ticks n s) = FollowUpTime s"
  "l_ScanDuration (ticks n s) = l_ScanDuration s" "l_ADC_Value (ticks n s) = l_ADC_Value s"
  "l_BATT_FollowUpTime (ticks n s) = l_BATT_FollowUpTime s" "l_hdlFollowUpTimeBATT (ticks n s) = l_hdlFollowUpTimeBATT s"
  "l_mV_Divider (ticks n s) = l_mV_Divider s" "l_mA_Divider (ticks n s) = l_mA_Divider s"
  "g_UA_Calib_mV (ticks n s) = g_UA_Calib_mV s" "g_UA_Calib_mA (ticks n s) = g_UA_Calib_mA s"
  "l_PwrOut (ticks n s) = l_PwrOut s" "l_flgCalibration (ticks n s) = l_flgCalibration s"
  "l_hdlLCD_Off (ticks n s) = l_hdlLCD_Off s" "power_fail (ticks n s) = power_fail s"
  "eeprom (ticks n s) = eeprom s" "timer_cb (ticks n s) = timer_cb s"
  "timer_count (ticks n s) = timer_count s"
  using ticks_frame_conj [of n s] by simp_all

section \<open>The power-fail guard\<close>

text \<open>
  Claim C2.  While the power-fail condition is asserted, \<^verbatim>\<open>PowerOutput(r, PWR_ON)\<close>
  returns the state it was given, for every value of \<open>r\<close>: the output bit, the trace
  (log lines, display updates, timer calls), the measurement variables and the countdowns
  are all unchanged.  \<^verbatim>\<open>PowerOutput(r, PWR_OFF)\<close> on a power output (UA1, UA2, BATT
  or none) still leaves the output switched off, a second call changes nothing any more,
  and switching off an output that was on ends with the display update.
\<close>

theorem PowerOutput_power_fail:
  "IsPowerFail s \<Longrightarrow>
     PowerOutput r PWR_ON s = s
   \<and> ((r = PWR_OUT_NONE \<or> 0 \<le> r \<and> r < NUM_PWR_OUT) \<longrightarrow>
        \<not> IsPowerOutputOn r (PowerOutput r PWR_OFF s)
      \<and> PowerOutput r PWR_OFF (PowerOutput r PWR_OFF s) = PowerOutput r PWR_OFF s)
   \<and> (0 \<le> r \<and> r < NUM_PWR_OUT \<and> IsPowerOutputOn r s \<longrightarrow>
        last (trace (PowerOutput r PWR_OFF s)) = DisplayUpdate UPD_POWERSTATUS)"
proof (intro conjI impI)
  assume "IsPowerFail s"
  then show "PowerOutput r PWR_ON s = s"
    by (simp add: PowerOutput_def)
next
  assume r: "r = PWR_OUT_NONE \<or> 0 \<le> r \<and> r < NUM_PWR_OUT"
  show "\<not> IsPowerOutputOn r (PowerOutput r PWR_OFF s)"
    using r by (auto simp: IsPowerOutputOn_def pwr_pin_PowerOutput)
  show "PowerOutput r PWR_OFF (PowerOutput r PWR_OFF s) = PowerOutput r PWR_OFF s"
  proof (cases "r = PWR_OUT_NONE")
    case True
    then show ?thesis by (simp add: PowerOutput_NONE)
  next
    case False
    with r have "0 \<le> r" "r < NUM_PWR_OUT" by auto
    then show ?thesis
      by (intro PowerOutput_same) (simp_all add: pwr_pin_PowerOutput)
  qed
next
  assume "0 \<le> r \<and> r < NUM_PWR_OUT \<and> IsPowerOutputOn r s"
  then show "last (trace (PowerOutput r PWR_OFF s)) = DisplayUpdate UPD_POWERSTATUS"
    by (simp add: PowerOutput_def Let_def IsPowerOutputOn_def split: if_splits)
qed

theorem PowerOutput_power_fail_witness:
  "IsPowerFail power_fail_state
   \<and> IsPowerOutputOn 1 power_fail_state
   \<and> PowerOutput 1 PWR_ON power_fail_state = power_fail_state
   \<and> \<not> IsPowerOutputOn 1 (PowerOutput 1 PWR_OFF power_fail_state)
   \<and> PowerOutput 1 PWR_OFF (PowerOutput 1 PWR_OFF power_fail_state)
       = PowerOutput 1 PWR_OFF power_fail_state
   \<and> last (trace (PowerOutput 1 PWR_OFF power_fail_state)) = DisplayUpdate UPD_POWERSTATUS"
proof -
  have pf: "IsPowerFail power_fail_state"
    by (simp add: power_fail_state_def IsPowerFail_def)
  have on: "IsPowerOutputOn 1 power_fail_state"
    by (simp add: power_fail_state_def IsPowerOutputOn_def)
  note th = PowerOutput_power_fail [OF pf, of 1]
  have a: "PowerOutput 1 PWR_ON power_fail_state = power_fail_state"
    using th by (rule conjunct1)
  have b: "\<not> IsPowerOutputOn 1 (PowerOutput 1 PWR_OFF power_fail_state)
      \<and> PowerOutput 1 PWR_OFF (PowerOutput 1 PWR_OFF power_fail_state)
          = PowerOutput 1 PWR_OFF power_fail_state"
    using th [THEN conjunct2, THEN conjunct1] by (rule mp) simp
  have c: "last (trace (PowerOutput 1 PWR_OFF power_fail_state)) = DisplayUpdate UPD_POWERSTATUS"
    using th [THEN conjunct2, THEN conjunct2] by (rule mp) (simp add: on)
  from pf on a b c show ?thesis by blast
qed

section \<open>Configuration check\<close>

lemma enum_name_PowerOutput_inj:
  "0 \<le> i \<Longrightarrow> i < 3 \<Longrightarrow> 0 \<le> j \<Longrightarrow> j < 3 \<Longrightarrow>
    enum_name g_enum_PowerOutput i = enum_name g_enum_PowerOutput j \<longleftrightarrow> i = j"
proof -
  assume "0 \<le> i" "i < 3" "0 \<le> j" "j < 3"
  then have "i \<in> {0, 1, 2}" "j \<in> {0, 1, 2}" by auto
  then show ?thesis
    by (auto simp: enum_name_def g_enum_PowerOutput_def)
qed

lemma verify_interval_cfg:
  "g_PwrInterval (verify_interval j s) i =
     (if i = j \<and> \<not> (g_PwrInterval s j \<le> 0 \<or>
            g_PwrInterval s j \<ge> 10 \<and> g_On_Duration s j \<ge> 5
              \<and> g_PwrInterval s j - g_On_Duration s j \<ge> 5)
      then - 1 else g_PwrInterval s i)"
  "g_On_Duration (verify_interval j s) i =
     (if i = j \<and> \<not> (g_PwrInterval s j \<le> 0 \<or>
            g_PwrInterval s j \<ge> 10 \<and> g_On_Duration s j \<ge> 5
              \<and> g_PwrInterval s j - g_On_Duration s j \<ge> 5)
      then - 1 else g_On_Duration s i)"
  by (auto simp: verify_interval_def Let_def)

lemma verify_interval_errors:
  "0 \<le> i \<Longrightarrow> i < 3 \<Longrightarrow> 0 \<le> j \<Longrightarrow> j < 3 \<Longrightarrow>
   interval_errors i (verify_interval j s) =
     interval_errors i s +
     (if i = j \<and> \<not> (g_PwrInterval s j \<le> 0 \<or>
            g_PwrInterval s j \<ge> 10 \<and> g_On_Duration s j \<ge> 5
              \<and> g_PwrInterval s j - g_On_Duration s j \<ge> 5)
      then 1 else 0)"
  by (auto simp: verify_interval_def Let_def interval_errors_def enum_name_PowerOutput_inj)

lemma verify_scan_duration_cfg [simp]:
  "g_PwrInterval (verify_scan_duration s) = g_PwrInterval s"
  "g_On_Duration (verify_scan_duration s) = g_On_Duration s"
  "interval_errors i (verify_scan_duration s) = interval_errors i s"
  by (simp_all add: verify_scan_duration_def interval_errors_def)

text \<open>
  Claim C7, as amended.  For each of the three power outputs, \<^verbatim>\<open>VerifyConfiguration\<close>
  leaves interval and on-duration as they are and logs no error about the output if and
  only if the interval is not positive (the output is inactive) or the interval is at
  least 10 s, the on-duration at least 5 s and their difference at least 5 s; otherwise
  it logs exactly one error about the output and sets both values to -1.  The routine is
  a total function: it returns for every state.
\<close>

theorem VerifyConfiguration_interval:
  "0 \<le> i \<and> i < NUM_PWR_OUT \<Longrightarrow>
   (if g_PwrInterval s i \<le> 0 \<or>
       g_PwrInterval s i \<ge> MIN_VAL_INTERVAL \<and> g_On_Duration s i \<ge> MIN_VAL_ON_DURATION
         \<and> g_PwrInterval s i - g_On_Duration s i \<ge> MIN_VAL_OFF_DURATION
    then g_PwrInterval (VerifyConfiguration s) i = g_PwrInterval s i
       \<and> g_On_Duration (VerifyConfiguration s) i = g_On_Duration s i
       \<and> interval_errors i (VerifyConfiguration s) = interval_errors i s
    else g_PwrInterval (VerifyConfiguration s) i = - 1
       \<and> g_On_Duration (VerifyConfiguration s) i = - 1
       \<and> interval_errors i (VerifyConfiguration s) = interval_errors i s + 1)"
proof -
  assume "0 \<le> i \<and> i < NUM_PWR_OUT"
  then have "i = 0 \<or> i = 1 \<or> i = 2" by auto
  then show ?thesis
    by (elim disjE) (simp_all add: VerifyConfiguration_def verify_interval_cfg verify_interval_errors)
qed

theorem VerifyConfiguration_interval_witness:
  "g_PwrInterval short_off_state 1 = 12 \<and> g_On_Duration short_off_state 1 = 8
   \<and> g_PwrInterval (VerifyConfiguration short_off_state) 1 = - 1
   \<and> g_On_Duration (VerifyConfiguration short_off_state) 1 = - 1
   \<and> interval_errors 1 (VerifyConfiguration short_off_state) = 1"
proof -
  have a: "g_PwrInterval short_off_state 1 = 12" "g_On_Duration short_off_state 1 = 8"
    by (simp_all add: short_off_state_def)
  have b: "interval_errors 1 short_off_state = 0"
    by (simp add: short_off_state_def reset_state_def interval_errors_def)
  have "(0::int) \<le> 1 \<and> (1::int) < NUM_PWR_OUT" by simp
  from VerifyConfiguration_interval [OF this, of short_off_state] a b show ?thesis
    by simp
qed

text \<open>
  The claim as stated (accepted if and only if the interval is 0 or the three minima
  hold; every other output logged and forced to -1) fails for a negative interval: the
  state is returned as it is, with no log line.
\<close>

theorem VerifyConfiguration_negative_interval:
  "\<not> (g_PwrInterval negative_interval_state 0 = 0 \<or>
        g_PwrInterval negative_interval_state 0 \<ge> MIN_VAL_INTERVAL
          \<and> g_On_Duration negative_interval_state 0 \<ge> MIN_VAL_ON_DURATION
          \<and> g_PwrInterval negative_interval_state 0 - g_On_Duration negative_interval_state 0
                \<ge> MIN_VAL_OFF_DURATION)
   \<and> VerifyConfiguration negative_interval_state = negative_interval_state"
proof -
  have a: "g_PwrInterval negative_interval_state 0 = - 5"
          "g_PwrInterval negative_interval_state 1 = 0"
          "g_PwrInterval negative_interval_state 2 = 0"
    by (simp_all add: negative_interval_state_def)
  have b: "l_ScanDuration negative_interval_state = 1000"
    by (simp add: negative_interval_state_def reset_state_def)
  have "VerifyConfiguration negative_interval_state = negative_interval_state"
    by (simp add: VerifyConfiguration_def verify_interval_def verify_scan_duration_def a b)
  with a show ?thesis by simp
qed

section \<open>Attribution of the power alarms\<close>

lemma alarm_offset:
  "alarm_pwrState (FIRST_POWER_ALARM s + i) s = (i < 15)"
  "alarm_pwrOut (FIRST_POWER_ALARM s + i) s = offset_pwrOut i"
  by (auto simp: alarm_pwrState_def alarm_pwrOut_def FIRST_POWER_ALARM_def offset_pwrOut_def
        ALARM_UA1_OFF_TIME_1_def ALARM_UA2_OFF_TIME_1_def ALARM_BATT_OFF_TIME_1_def
        ALARM_UA2_ON_TIME_1_def ALARM_BATT_ON_TIME_1_def)

lemma alarm_names_by_offset:
  "list_all (\<lambda>i. offset_pwrOut i = rail_groups ! nat (i div 5)
      \<and> l_CfgVarList ! nat i = alarm_name (offset_pwrOut i) (i < 15) (nat (i mod 5))) [0..29]"
  by code_simp

lemma offset_pwrOut_range: "0 \<le> offset_pwrOut i" "offset_pwrOut i < 3"
  by (simp_all add: offset_pwrOut_def)

lemma switch_output_pin:
  "pwrOut \<noteq> g_RFID_Power s \<Longrightarrow>
     pwr_pin (switch_output pwrOut pwrState s) = pwr_pin (PowerOutput pwrOut pwrState s)"
  by (simp add: switch_output_def)

lemma AlarmPowerControl_pin:
  "alarm_pwrOut a s \<noteq> g_RFID_Power s \<Longrightarrow>
   pwr_pin (AlarmPowerControl a s) = pwr_pin (PowerOutput (alarm_pwrOut a s) (alarm_pwrState a s) s)"
  by (simp add: AlarmPowerControl_def Let_def switch_output_pin pwr_pin_PowerOutput IsPowerFail_def)

text \<open>
  Claim C8.  For each of the thirty power alarm ids, counted from the first one,
  \<^verbatim>\<open>AlarmPowerControl\<close> takes the direction OFF if and only if the id is at or beyond
  the first UA1 OFF id, and takes the output of the group of five ids that contains the
  id (UA1, UA2, BATT, UA1, UA2, BATT).  This is the output and the direction named by
  the configuration variable that \<^verbatim>\<open>CfgData.c\<close> stores under this id.  For an
  output that does not supply the RFID reader, and without power-fail, the output is
  then switched to that direction.
\<close>

theorem AlarmPowerControl_attribution:
  "0 \<le> i \<and> i < 30 \<Longrightarrow>
     (alarm_pwrState (FIRST_POWER_ALARM s + i) s = PWR_OFF
        \<longleftrightarrow> FIRST_POWER_ALARM s + i \<ge> ALARM_UA1_OFF_TIME_1 s)
   \<and> alarm_pwrOut (FIRST_POWER_ALARM s + i) s = rail_groups ! nat (i div 5)
   \<and> l_CfgVarList ! nat i =
       alarm_name (alarm_pwrOut (FIRST_POWER_ALARM s + i) s)
         (alarm_pwrState (FIRST_POWER_ALARM s + i) s) (nat (i mod 5))
   \<and> (if alarm_pwrOut (FIRST_POWER_ALARM s + i) s = g_RFID_Power s \<or> IsPowerFail s
       then True
       else IsPowerOutputOn (alarm_pwrOut (FIRST_POWER_ALARM s + i) s)
              (AlarmPowerControl (FIRST_POWER_ALARM s + i) s)
            = alarm_pwrState (FIRST_POWER_ALARM s + i) s)"
proof -
  assume i: "0 \<le> i \<and> i < 30"
  then have "i \<in> set [0..29]" by simp
  with alarm_names_by_offset [unfolded list_all_iff] have *:
    "offset_pwrOut i = rail_groups ! nat (i div 5)
      \<and> l_CfgVarList ! nat i = alarm_name (offset_pwrOut i) (i < 15) (nat (i mod 5))"
    by blast
  have out: "alarm_pwrOut (FIRST_POWER_ALARM s + i) s = rail_groups ! nat (i div 5)"
    using * by (simp only: alarm_offset)
  have name: "l_CfgVarList ! nat i =
       alarm_name (alarm_pwrOut (FIRST_POWER_ALARM s + i) s)
         (alarm_pwrState (FIRST_POWER_ALARM s + i) s) (nat (i mod 5))"
    using * by (simp only: alarm_offset)
  have st: "alarm_pwrState (FIRST_POWER_ALARM s + i) s = PWR_OFF
        \<longleftrightarrow> FIRST_POWER_ALARM s + i \<ge> ALARM_UA1_OFF_TIME_1 s"
    by (simp add: alarm_pwrState_def)
  have eff: "alarm_pwrOut (FIRST_POWER_ALARM s + i) s \<noteq> g_RFID_Power s \<Longrightarrow> \<not> IsPowerFail s \<Longrightarrow>
       IsPowerOutputOn (alarm_pwrOut (FIRST_POWER_ALARM s + i) s)
              (AlarmPowerControl (FIRST_POWER_ALARM s + i) s)
            = alarm_pwrState (FIRST_POWER_ALARM s + i) s"
    using offset_pwrOut_range [of i]
    by (simp add: AlarmPowerControl_pin IsPowerOutputOn_def pwr_pin_PowerOutput alarm_offset)
  from out name st eff show ?thesis by (simp only: if_True if_False split: if_split) blast
qed

theorem AlarmPowerControl_attribution_witness:
  "alarm_pwrState (FIRST_POWER_ALARM reset_state + 22) reset_state = PWR_OFF
   \<and> alarm_pwrOut (FIRST_POWER_ALARM reset_state + 22) reset_state = PWR_OUT_UA2
   \<and> l_CfgVarList ! 22 = ''UA2_OFF_TIME_3''
   \<and> l_CfgVarList ! 22 = alarm_name PWR_OUT_UA2 PWR_OFF 2"
proof -
  have "(0::int) \<le> 22 \<and> (22::int) < 30" by simp
  from AlarmPowerControl_attribution [OF this, of reset_state]
  have a: "alarm_pwrOut (FIRST_POWER_ALARM reset_state + 22) reset_state = rail_groups ! nat (22 div 5)"
    and b: "l_CfgVarList ! nat 22 =
       alarm_name (alarm_pwrOut (FIRST_POWER_ALARM reset_state + 22) reset_state)
         (alarm_pwrState (FIRST_POWER_ALARM reset_state + 22) reset_state) (nat (22 mod 5))"
    by blast+
  have c: "alarm_pwrState (FIRST_POWER_ALARM reset_state + 22) reset_state = PWR_OFF"
    by (simp add: alarm_offset)
  have d: "l_CfgVarList ! 22 = ''UA2_OFF_TIME_3''"
    by (simp add: l_CfgVarList_def)
  have e: "rail_groups ! nat (22 div 5) = PWR_OUT_UA2"
    by (simp add: rail_groups_def)
  from a b c d e show ?thesis by simp
qed

section \<open>Calibration data in the EEPROM\<close>

lemma mask_numerals:
  "(0xFFFF :: u32) = mask 16" "(0xFF00 :: u16) = push_bit 8 (mask 8)" "(0x00FF :: u16) = mask 8"
  by (simp_all add: mask_eq_exp_minus_1 push_bit_eq_mult)

lemma join16_split: "join16 (high16 x) (low16 x) = x"
proof -
  have "push_bit 16 (ucast (high16 x) :: u32) AND ucast (low16 x) = 0"
    by (rule bit_eqI) (auto simp: bit_simps high16_def low16_def mask_numerals)
  then have "join16 (high16 x) (low16 x) = push_bit 16 (ucast (high16 x) :: u32) OR ucast (low16 x)"
    unfolding join16_def by (rule disjunctive_add_eq_or)
  also have "\<dots> = x"
    by (rule bit_eqI) (auto simp: bit_simps high16_def low16_def mask_numerals)
  finally show ?thesis .
qed

lemma low_byte_set_low_byte: "low_byte (set_low_byte x b) = b"
  by (rule bit_eqI) (auto simp: bit_simps low_byte_def set_low_byte_def mask_numerals)

lemma high_byte_set_high_byte: "high_byte (set_high_byte x b) = b"
  by (rule bit_eqI) (auto simp: bit_simps high_byte_def set_high_byte_def mask_numerals)

lemma set_low_byte_neq: "b \<noteq> low_byte x \<Longrightarrow> set_low_byte x b \<noteq> x"
  using low_byte_set_low_byte [of x b] by auto

lemma set_high_byte_neq: "b \<noteq> high_byte x \<Longrightarrow> set_high_byte x b \<noteq> x"
  using high_byte_set_high_byte [of x b] by auto

lemma eeprom_WriteCalibrationData:
  "eeprom (WriteCalibrationData s) magic = MAGIC_ID"
  "eeprom (WriteCalibrationData s) ua1mV_h = high16 (l_mV_Divider s 0)"
  "eeprom (WriteCalibrationData s) ua1mV_l = low16 (l_mV_Divider s 0)"
  "eeprom (WriteCalibrationData s) ua1mA_h = high16 (l_mA_Divider s 0)"
  "eeprom (WriteCalibrationData s) ua1mA_l = low16 (l_mA_Divider s 0)"
  "eeprom (WriteCalibrationData s) ua2mV_h = high16 (l_mV_Divider s 1)"
  "eeprom (WriteCalibrationData s) ua2mV_l = low16 (l_mV_Divider s 1)"
  "eeprom (WriteCalibrationData s) ua2mA_h = high16 (l_mA_Divider s 1)"
  "eeprom (WriteCalibrationData s) ua2mA_l = low16 (l_mA_Divider s 1)"
  "eeprom (WriteCalibrationData s) chksum =
     MAGIC_ID + high16 (l_mV_Divider s 0) + low16 (l_mV_Divider s 0)
       + high16 (l_mA_Divider s 0) + low16 (l_mA_Divider s 0)
       + high16 (l_mV_Divider s 1) + low16 (l_mV_Divider s 1)
       + high16 (l_mA_Divider s 1) + low16 (l_mA_Divider s 1)"
  by (simp_all add: WriteCalibrationData_def Let_def EE_Write_def)

lemma WriteCalibrationData_image_valid:
  "image_checksum (eeprom (WriteCalibrationData s)) = eeprom (WriteCalibrationData s) chksum"
  by (simp add: image_checksum_def eeprom_WriteCalibrationData)

lemma ReadCalibrationData_dividers:
  "l_mV_Divider (ReadCalibrationData t) 0 =
     (if eeprom t magic = MAGIC_ID \<and> image_checksum (eeprom t) = eeprom t chksum
      then join16 (eeprom t ua1mV_h) (eeprom t ua1mV_l) else 0x10000)"
  "l_mA_Divider (ReadCalibrationData t) 0 =
     (if eeprom t magic = MAGIC_ID \<and> image_checksum (eeprom t) = eeprom t chksum
      then join16 (eeprom t ua1mA_h) (eeprom t ua1mA_l) else 0x10000)"
  "l_mV_Divider (ReadCalibrationData t) 1 =
     (if eeprom t magic = MAGIC_ID \<and> image_checksum (eeprom t) = eeprom t chksum
      then join16 (eeprom t ua2mV_h) (eeprom t ua2mV_l) else 0x10000)"
  "l_mA_Divider (ReadCalibrationData t) 1 =
     (if eeprom t magic = MAGIC_ID \<and> image_checksum (eeprom t) = eeprom t chksum
      then join16 (eeprom t ua2mA_h) (eeprom t ua2mA_l) else 0x10000)"
  by (simp_all add: ReadCalibrationData_def Let_def EE_Read_def set_default_dividers_def
        image_checksum_def)

lemma changed_word_invalid:
  assumes ok: "e magic = MAGIC_ID" "e chksum = image_checksum e" and x: "x \<noteq> e var"
  shows "\<not> ((e(var := x)) magic = MAGIC_ID \<and> image_checksum (e(var := x)) = (e(var := x)) chksum)"
  using assms by (cases var) (auto simp: image_checksum_def)

text \<open>
  Claim C9.  Whatever state \<open>t\<close> the firmware is in, if its storage image equals the one
  that \<^verbatim>\<open>WriteCalibrationData\<close> has written from state \<open>s\<close>, then
  \<^verbatim>\<open>ReadCalibrationData\<close> sets the four dividers (UA1 and UA2, mV and mA) to those of
  \<open>s\<close>.  If the image differs from the written one in a single byte (the low or the high
  byte of the magic word, of one of the eight divider halves or of the checksum, replaced
  by another value), the read path sets all four dividers to \<open>1 << 16\<close>.
\<close>

theorem calibration_round_trip:
  "(eeprom t = eeprom (WriteCalibrationData s) \<longrightarrow>
      l_mV_Divider (ReadCalibrationData t) 0 = l_mV_Divider s 0
    \<and> l_mA_Divider (ReadCalibrationData t) 0 = l_mA_Divider s 0
    \<and> l_mV_Divider (ReadCalibrationData t) 1 = l_mV_Divider s 1
    \<and> l_mA_Divider (ReadCalibrationData t) 1 = l_mA_Divider s 1)
 \<and> (eeprom t = eeprom (corrupt_byte var high b (WriteCalibrationData s))
      \<and> b \<noteq> (if high then high_byte (eeprom (WriteCalibrationData s) var)
               else low_byte (eeprom (WriteCalibrationData s) var)) \<longrightarrow>
      l_mV_Divider (ReadCalibrationData t) 0 = 0x10000
    \<and> l_mA_Divider (ReadCalibrationData t) 0 = 0x10000
    \<and> l_mV_Divider (ReadCalibrationData t) 1 = 0x10000
    \<and> l_mA_Divider (ReadCalibrationData t) 1 = 0x10000)"
proof (intro conjI impI)
  assume e: "eeprom t = eeprom (WriteCalibrationData s)"
  have v: "eeprom t magic = MAGIC_ID \<and> image_checksum (eeprom t) = eeprom t chksum"
    unfolding e by (simp add: WriteCalibrationData_image_valid eeprom_WriteCalibrationData(1))
  show "l_mV_Divider (ReadCalibrationData t) 0 = l_mV_Divider s 0"
    by (simp only: ReadCalibrationData_dividers v simp_thms if_True)
       (simp only: e eeprom_WriteCalibrationData join16_split)
  show "l_mA_Divider (ReadCalibrationData t) 0 = l_mA_Divider s 0"
    by (simp only: ReadCalibrationData_dividers v simp_thms if_True)
       (simp only: e eeprom_WriteCalibrationData join16_split)
  show "l_mV_Divider (ReadCalibrationData t) 1 = l_mV_Divider s 1"
    by (simp only: ReadCalibrationData_dividers v simp_thms if_True)
       (simp only: e eeprom_WriteCalibrationData join16_split)
  show "l_mA_Divider (ReadCalibrationData t) 1 = l_mA_Divider s 1"
    by (simp only: ReadCalibrationData_dividers v simp_thms if_True)
       (simp only: e eeprom_WriteCalibrationData join16_split)
next
  assume a: "eeprom t = eeprom (corrupt_byte var high b (WriteCalibrationData s))
      \<and> b \<noteq> (if high then high_byte (eeprom (WriteCalibrationData s) var)
               else low_byte (eeprom (WriteCalibrationData s) var))"
  define e where "e = eeprom (WriteCalibrationData s)"
  define x where "x = (if high then set_high_byte (e var) b else set_low_byte (e var) b)"
  have t: "eeprom t = e(var := x)"
    using a by (simp add: corrupt_byte_def e_def x_def)
  have "x \<noteq> e var"
    using a by (auto simp: x_def e_def set_high_byte_neq set_low_byte_neq)
  moreover have "e magic = MAGIC_ID" "e chksum = image_checksum e"
    by (simp_all add: e_def WriteCalibrationData_image_valid eeprom_WriteCalibrationData(1))
  ultimately have inv:
    "\<not> (eeprom t magic = MAGIC_ID \<and> image_checksum (eeprom t) = eeprom t chksum)"
    unfolding t by (intro changed_word_invalid)
  show "l_mV_Divider (ReadCalibrationData t) 0 = 0x10000"
    by (simp only: ReadCalibrationData_dividers inv if_False)
  show "l_mA_Divider (ReadCalibrationData t) 0 = 0x10000"
    by (simp only: ReadCalibrationData_dividers inv if_False)
  show "l_mV_Divider (ReadCalibrationData t) 1 = 0x10000"
    by (simp only: ReadCalibrationData_dividers inv if_False)
  show "l_mA_Divider (ReadCalibrationData t) 1 = 0x10000"
    by (simp only: ReadCalibrationData_dividers inv if_False)
qed

theorem calibration_round_trip_witness:
  "l_mV_Divider (ReadCalibrationData (WriteCalibrationData calibrated_state)) 0 = 0x12345
 \<and> l_mA_Divider (ReadCalibrationData (WriteCalibrationData calibrated_state)) 0 = 0x10000
 \<and> l_mV_Divider (ReadCalibrationData (WriteCalibrationData calibrated_state)) 1 = 0x0FEDC
 \<and> l_mA_Divider (ReadCalibrationData (WriteCalibrationData calibrated_state)) 1 = 0x23456
 \<and> low_byte (eeprom (WriteCalibrationData calibrated_state) ua2mA_l) = 0x56
 \<and> l_mV_Divider (ReadCalibrationData
        (corrupt_byte ua2mA_l False 0x57 (WriteCalibrationData calibrated_state))) 0 = 0x10000
 \<and> l_mA_Divider (ReadCalibrationData
        (corrupt_byte ua2mA_l False 0x57 (WriteCalibrationData calibrated_state))) 1 = 0x10000"
proof -
  have d: "l_mV_Divider calibrated_state 0 = 0x12345" "l_mA_Divider calibrated_state 0 = 0x10000"
          "l_mV_Divider calibrated_state 1 = 0x0FEDC" "l_mA_Divider calibrated_state 1 = 0x23456"
    by (simp_all add: calibrated_state_def)
  have lb: "low_byte (eeprom (WriteCalibrationData calibrated_state) ua2mA_l) = 0x56"
    by (simp add: eeprom_WriteCalibrationData d low16_def low_byte_def)
  have ne: "(0x57 :: u8) \<noteq> (if False then high_byte (eeprom (WriteCalibrationData calibrated_state) ua2mA_l)
               else low_byte (eeprom (WriteCalibrationData calibrated_state) ua2mA_l))"
    by (simp add: lb)
  note rt = calibration_round_trip [of "WriteCalibrationData calibrated_state" calibrated_state,
      THEN conjunct1, THEN mp, OF refl]
  note cr = calibration_round_trip
      [of "corrupt_byte ua2mA_l False 0x57 (WriteCalibrationData calibrated_state)"
          calibrated_state ua2mA_l False "0x57",
       THEN conjunct2, THEN mp, OF conjI, OF refl ne]
  from rt cr lb show ?thesis by (simp only: d)
qed

section \<open>Calibration with a zero reference value\<close>

text \<open>
  The guard of \<^verbatim>\<open>MenuCalibrateOutput\<close>: when the reference voltage configured for the
  output is 0, the SET key calibrates nothing and writes no log line; the key code is
  handed back to the caller.
\<close>

lemma MenuCalibrateOutput_zero_mV:
  "g_UA_Calib_mV s (arg - PWR_OUT_UA1) = 0 \<Longrightarrow>
     MenuCalibrateOutput KEYCODE_SET_RELEASE arg s
       = Some (KEYCODE_SET_RELEASE, DisplayTimerCancel (s\<lparr>l_PwrOut := arg\<rparr>))"
  by (simp add: MenuCalibrateOutput_def Let_def DisplayTimerCancel_def)

text \<open>
  \<^verbatim>\<open>CalibrateVoltage\<close> and \<^verbatim>\<open>CalibrateCurrent\<close> have no guard of their own: with the
  reference value 0 they divide by zero, for every output and in every state.
\<close>

lemma Calibrate_zero_reference:
  "CalibrateVoltage output 0 s = None" "CalibrateCurrent output 0 s = None"
  by (simp_all add: CalibrateVoltage_def CalibrateCurrent_def udiv32_def)

text \<open>With a reference value other than 0 they store the quotient.\<close>

lemma Calibrate_nonzero_reference:
  "ref \<noteq> 0 \<Longrightarrow>
     CalibrateVoltage output ref s
       = Some (s\<lparr>l_mV_Divider := (l_mV_Divider s)
                 (output := push_bit 16 (l_ADC_Value s (output * 2)) div ref)\<rparr>)"
  "ref \<noteq> 0 \<Longrightarrow>
     CalibrateCurrent output ref s
       = Some (s\<lparr>l_mA_Divider := (l_mA_Divider s)
                 (output := push_bit 16 (l_ADC_Value s (output * 2 + 1)) div ref)\<rparr>)"
  by (simp_all add: CalibrateVoltage_def CalibrateCurrent_def udiv32_def)

text \<open>
  Claim C4.  The code does not do what the claim says.  \<^verbatim>\<open>MenuCalibrateOutput\<close> tests
  the reference voltage only, although it is documented to calibrate only if both
  reference values have been provided.  With the reference voltage 5000 and no
  reference current for UA1, the SET key in the calibration menu of UA1 gets past the
  test, \<^verbatim>\<open>CalibrateVoltage\<close> stores a new voltage divider, and \<^verbatim>\<open>CalibrateCurrent\<close> is
  called with the reference value 0 and divides by it: the call is not rejected.
\<close>

theorem MenuCalibrateOutput_zero_mA:
  "g_UA_Calib_mV measuring_state 0 = 5000 \<and> g_UA_Calib_mA measuring_state 0 = 0
   \<and> map_option (\<lambda>s. l_mV_Divider s PWR_OUT_UA1)
        (CalibrateVoltage PWR_OUT_UA1 5000 measuring_state) = Some 0x3333
   \<and> CalibrateCurrent PWR_OUT_UA1 0 measuring_state = None
   \<and> MenuCalibrateOutput KEYCODE_SET_RELEASE PWR_OUT_UA1 measuring_state = None"
proof -
  have a: "g_UA_Calib_mV measuring_state 0 = 5000" "g_UA_Calib_mA measuring_state 0 = 0"
          "l_ADC_Value measuring_state = (\<lambda>_. 1000)" "l_hdlLCD_Off measuring_state = NONE"
    by (simp_all add: measuring_state_def reset_state_def)
  have q: "push_bit 16 (1000 :: u32) div 5000 = 0x3333" by simp
  show ?thesis
    by (simp add: MenuCalibrateOutput_def Let_def DisplayTimerCancel_def a q
          CalibrateVoltage_def CalibrateCurrent_def udiv32_def)
qed

section \<open>The decoder index stays inside the frame buffer\<close>

lemma unat_u8_Suc: "unat (x :: u8) \<le> 12 \<Longrightarrow> unat (x + 1) = Suc (unat x)"
  by (simp add: unat_word_ariths)

lemma snd_decode_SR:
  "snd (decode_SR byte s) = (unat (l_State s) = 13 \<and> w s 13 = xorsum s)"
  by (simp add: decode_SR_def Let_def)

lemma l_State_decode_SR:
  "l_State (fst (decode_SR byte s)) =
     (if unat (l_State s) \<le> 4 \<and> byte = ucast (v ! unat (l_State s))
         \<or> 5 \<le> unat (l_State s) \<and> unat (l_State s) \<le> 12
      then l_State s + 1
      else if unat (l_State s) = 13 \<and> w s 13 = xorsum s then l_State s else 0)"
  by (simp add: decode_SR_def Let_def)

lemma snd_decode_LR:
  "snd (decode_LR byte s) =
     (unat (l_State s) = 10 \<and> push_bit 8 (ucast (w s 10)) OR ucast (w s 9) = crc s)"
  by (simp add: decode_LR_def Let_def)

lemma l_State_decode_LR:
  "l_State (fst (decode_LR byte s)) =
     (if unat (l_State s) = 0 \<and> byte = 0x54 \<or> 1 \<le> unat (l_State s) \<and> unat (l_State s) \<le> 9
      then l_State s + 1
      else if unat (l_State s) = 10 \<and> push_bit 8 (ucast (w s 10)) OR ucast (w s 9) = crc s
      then l_State s else 0)"
  by (simp add: decode_LR_def Let_def) arith

lemma RFID_Decode_l_State:
  assumes "unat (l_State s) \<le> 13"
  shows "\<exists>s'. RFID_Decode rx s = Some s'
     \<and> l_State s' =
         (if l_pRFID_Cfg_Type s = RFID_TYPE_SR
               \<and> (unat (l_State s) \<le> 4 \<and> rx AND 0xFF = ucast (v ! unat (l_State s))
                    \<or> 5 \<le> unat (l_State s) \<and> unat (l_State s) \<le> 12)
           \<or> l_pRFID_Cfg_Type s = RFID_TYPE_LR
               \<and> (unat (l_State s) = 0 \<and> rx AND 0xFF = 0x54
                    \<or> 1 \<le> unat (l_State s) \<and> unat (l_State s) \<le> 9)
          then l_State s + 1 else 0)"
proof -
  consider (SR) "l_pRFID_Cfg_Type s = RFID_TYPE_SR" | (LR) "l_pRFID_Cfg_Type s = RFID_TYPE_LR"
    | (other) "l_pRFID_Cfg_Type s \<noteq> RFID_TYPE_SR" "l_pRFID_Cfg_Type s \<noteq> RFID_TYPE_LR"
    by blast
  then show ?thesis
  proof cases
    case SR
    with assms show ?thesis
      by (simp add: RFID_Decode_def Let_def snd_decode_SR l_State_decode_SR)
  next
    case LR
    with assms show ?thesis
      by (simp add: RFID_Decode_def Let_def snd_decode_LR l_State_decode_LR)
  next
    case other
    with assms show ?thesis
      by (simp add: RFID_Decode_def Let_def)
  qed
qed

lemma RFID_Decode_in_bounds:
  "unat (l_State s) \<le> 13 \<Longrightarrow> \<exists>s'. RFID_Decode rx s = Some s' \<and> unat (l_State s') \<le> 13"
proof -
  assume a: "unat (l_State s) \<le> 13"
  from RFID_Decode_l_State [OF a, of rx] obtain s' where
    s': "RFID_Decode rx s = Some s'" and
    l: "l_State s' = l_State s + 1 \<and> unat (l_State s) \<le> 12 \<or> l_State s' = 0"
    by (auto split: if_splits)
  from l have "unat (l_State s') \<le> 13"
    by (auto simp: unat_u8_Suc)
  with s' show ?thesis by blast
qed

lemma RFID_Decode_stream_in_bounds:
  "unat (l_State s) \<le> 13 \<Longrightarrow>
     \<exists>s'. RFID_Decode_stream rxs s = Some s' \<and> unat (l_State s') \<le> 13"
proof (induction rxs arbitrary: s)
  case Nil
  then show ?case by simp
next
  case (Cons rx rxs)
  from RFID_Decode_in_bounds [OF Cons.prems, of rx] obtain s1 where
    "RFID_Decode rx s = Some s1" "unat (l_State s1) \<le> 13" by blast
  with Cons.IH [of s1] show ?case by simp
qed

text \<open>
  Claim C10.  From a state with \<open>l_State \<le> 13\<close> (it is 0 after start-up and after
  every power-on and power-off of the reader), every sequence of received words is
  decoded without a store beyond \<^verbatim>\<open>w[13]\<close>, whatever the reader type, configured or
  not: each word arrives in a state with \<open>l_State \<le> 13\<close>.  A word advances \<open>l_State\<close> by
  one only while a frame is being collected (a matching prefix byte or a payload byte of
  a Short Range frame, the prefix \<open>0x54\<close> or one of the next nine bytes of a Long Range
  frame); every other word (the last byte of a frame with a good or a bad checksum,
  a prefix violation, any word for an unconfigured type) sets \<open>l_State\<close> to 0.
\<close>

theorem RFID_Decode_buffer_bounds:
  "unat (l_State s) \<le> 13 \<Longrightarrow>
     (\<forall>n. \<exists>s'. RFID_Decode_stream (take n rxs) s = Some s' \<and> unat (l_State s') \<le> 13)
   \<and> (\<exists>s'. RFID_Decode rx s = Some s'
         \<and> l_State s' =
             (if l_pRFID_Cfg_Type s = RFID_TYPE_SR
                   \<and> (unat (l_State s) \<le> 4 \<and> rx AND 0xFF = ucast (v ! unat (l_State s))
                        \<or> 5 \<le> unat (l_State s) \<and> unat (l_State s) \<le> 12)
               \<or> l_pRFID_Cfg_Type s = RFID_TYPE_LR
                   \<and> (unat (l_State s) = 0 \<and> rx AND 0xFF = 0x54
                        \<or> 1 \<le> unat (l_State s) \<and> unat (l_State s) \<le> 9)
              then l_State s + 1 else 0))"
  using RFID_Decode_stream_in_bounds [of s] RFID_Decode_l_State [of s rx] by blast

theorem RFID_Decode_buffer_bounds_witness:
  "unat (l_State reset_state) \<le> 13
   \<and> (\<exists>s'. RFID_Decode_stream (take 3 [0x0E, 0x00, 0x99, 0x54]) reset_state = Some s'
          \<and> unat (l_State s') \<le> 13)"
proof -
  have h: "unat (l_State reset_state) \<le> 13"
    by (simp add: reset_state_def)
  from RFID_Decode_buffer_bounds [OF h, of "[0x0E, 0x00, 0x99, 0x54]"] h show ?thesis
    by blast
qed

section \<open>Decoding a frame\<close>

lemma byte_of_rx:
  "ucast (rx AND 0xFF :: u32) = (ucast rx :: u8)"
  "(rx AND 0xFF = (ucast (x :: u8) :: u32)) \<longleftrightarrow> (ucast rx = x)"
proof -
  have m: "(0xFF :: u32) = mask 8" by (simp add: mask_eq_exp_minus_1)
  show a: "ucast (rx AND 0xFF :: u32) = (ucast rx :: u8)"
    unfolding m by (rule bit_eqI) (auto simp: bit_simps)
  have b: "(ucast (ucast rx :: u8) :: u32) = rx AND 0xFF"
    unfolding m by (rule bit_eqI) (auto simp: bit_simps)
  have c: "(ucast (ucast x :: u32) :: u8) = x"
    by (rule bit_eqI) (auto simp: bit_simps)
  show "(rx AND 0xFF = (ucast (x :: u8) :: u32)) \<longleftrightarrow> (ucast rx = x)"
  proof
    assume "rx AND 0xFF = ucast x"
    then have "(ucast (rx AND 0xFF :: u32) :: u8) = ucast (ucast x :: u32)" by simp
    then show "ucast rx = x" by (simp add: a c)
  next
    assume "ucast rx = x"
    with b show "rx AND 0xFF = ucast x" by simp
  qed
qed

lemma forget_decoder_count_comm_errors [simp]:
  "forget_decoder (count_comm_errors rx s) = forget_decoder s"
  by (simp add: forget_decoder_def count_comm_errors_def Let_def)

lemma forget_decoder_updates [simp]:
  "forget_decoder (s\<lparr>w := a\<rparr>) = forget_decoder s"
  "forget_decoder (s\<lparr>xorsum := b\<rparr>) = forget_decoder s"
  "forget_decoder (s\<lparr>l_State := c\<rparr>) = forget_decoder s"
  "forget_decoder (s\<lparr>crc := d\<rparr>) = forget_decoder s"
  by (simp_all add: forget_decoder_def)

lemma SR_mid:
  assumes "l_pRFID_Cfg_Type s = RFID_TYPE_SR" "unat (l_State s) = k" "k \<le> 12"
    and "k \<le> 4 \<longrightarrow> ucast rx = v ! k"
  shows "\<exists>s'. RFID_Decode rx s = Some s' \<and> forget_decoder s' = forget_decoder s
           \<and> unat (l_State s') = Suc k \<and> w s' = (w s)(k := ucast rx)
           \<and> xorsum s' = (if k = 0 then 0 else xorsum s) XOR ucast rx"
  using assms
  by (simp add: RFID_Decode_def decode_SR_def Let_def byte_of_rx unat_u8_Suc)

lemma SR_last:
  assumes "l_pRFID_Cfg_Type s = RFID_TYPE_SR" "unat (l_State s) = 13" "ucast rx = xorsum s"
  shows "RFID_Decode rx s
           = Some (received_ID ((count_comm_errors rx s)\<lparr>w := (w s)(13 := ucast rx)\<rparr>))"
  using assms
  by (simp add: RFID_Decode_def decode_SR_def Let_def byte_of_rx)

lemma SR_last_bad:
  assumes "l_pRFID_Cfg_Type s = RFID_TYPE_SR" "unat (l_State s) = 13" "ucast rx \<noteq> xorsum s"
  shows "\<exists>s'. RFID_Decode rx s = Some s' \<and> l_State s' = 0
           \<and> new_ID_notifications s' = new_ID_notifications s
           \<and> g_Transponder s' = g_Transponder s"
  using assms
  by (simp add: RFID_Decode_def decode_SR_def Let_def byte_of_rx new_ID_notifications_def)

lemma forget_decoder_fields:
  assumes "forget_decoder a = forget_decoder b"
  shows "l_pRFID_Cfg_Type a = l_pRFID_Cfg_Type b" "l_flgNewRun a = l_flgNewRun b"
    "g_Transponder a = g_Transponder b" "trace a = trace b" "l_flgNewID a = l_flgNewID b"
    "g_RFID_AbsentDetectTimeout a = g_RFID_AbsentDetectTimeout b"
    "l_hdlRFID_AbsentDetect a = l_hdlRFID_AbsentDetect b"
    "timer_cb a = timer_cb b" "timer_remaining a = timer_remaining b"
proof -
  have "l_pRFID_Cfg_Type (forget_decoder a) = l_pRFID_Cfg_Type (forget_decoder b)"
       "l_flgNewRun (forget_decoder a) = l_flgNewRun (forget_decoder b)"
       "g_Transponder (forget_decoder a) = g_Transponder (forget_decoder b)"
       "trace (forget_decoder a) = trace (forget_decoder b)"
       "l_flgNewID (forget_decoder a) = l_flgNewID (forget_decoder b)"
       "g_RFID_AbsentDetectTimeout (forget_decoder a) = g_RFID_AbsentDetectTimeout (forget_decoder b)"
       "l_hdlRFID_AbsentDetect (forget_decoder a) = l_hdlRFID_AbsentDetect (forget_decoder b)"
       "timer_cb (forget_decoder a) = timer_cb (forget_decoder b)"
       "timer_remaining (forget_decoder a) = timer_remaining (forget_decoder b)"
    using assms by simp_all
  then show "l_pRFID_Cfg_Type a = l_pRFID_Cfg_Type b" "l_flgNewRun a = l_flgNewRun b"
    "g_Transponder a = g_Transponder b" "trace a = trace b" "l_flgNewID a = l_flgNewID b"
    "g_RFID_AbsentDetectTimeout a = g_RFID_AbsentDetectTimeout b"
    "l_hdlRFID_AbsentDetect a = l_hdlRFID_AbsentDetect b"
    "timer_cb a = timer_cb b" "timer_remaining a = timer_remaining b"
    by (simp_all add: forget_decoder_def)
qed

lemma SR_run:
  assumes "l_pRFID_Cfg_Type s = RFID_TYPE_SR" "unat (l_State s) = k" "k + length bs \<le> 13"
    and "\<forall>i < length bs. k + i \<le> 4 \<longrightarrow> ucast (bs ! i) = v ! (k + i)"
  shows "\<exists>s'. RFID_Decode_stream bs s = Some s' \<and> forget_decoder s' = forget_decoder s
           \<and> unat (l_State s') = k + length bs
           \<and> (\<forall>j. w s' j = (if k \<le> j \<and> j < k + length bs then ucast (bs ! (j - k)) else w s j))
           \<and> (bs \<noteq> [] \<longrightarrow>
                xorsum s' = foldl (XOR) (if k = 0 then 0 else xorsum s) (map ucast bs))"
  using assms
proof (induction bs arbitrary: s k)
  case Nil
  then show ?case by auto
next
  case (Cons b bs)
  have k: "k \<le> 12" using Cons.prems(3) by simp
  have p: "k \<le> 4 \<longrightarrow> ucast b = v ! k" using Cons.prems(4) by auto
  from SR_mid [OF Cons.prems(1,2) k p] obtain s1 where
    s1: "RFID_Decode b s = Some s1" "forget_decoder s1 = forget_decoder s"
        "unat (l_State s1) = Suc k" "w s1 = (w s)(k := ucast b)"
        "xorsum s1 = (if k = 0 then 0 else xorsum s) XOR ucast b"
    by blast
  have t1: "l_pRFID_Cfg_Type s1 = RFID_TYPE_SR"
    using forget_decoder_fields(1) [OF s1(2)] Cons.prems(1) by simp
  have l1: "Suc k + length bs \<le> 13" using Cons.prems(3) by simp
  have p1: "\<forall>i < length bs. Suc k + i \<le> 4 \<longrightarrow> ucast (bs ! i) = v ! (Suc k + i)"
  proof (intro allI impI)
    fix i assume "i < length bs" "Suc k + i \<le> 4"
    with Cons.prems(4) [rule_format, of "Suc i"] show "ucast (bs ! i) = v ! (Suc k + i)"
      by simp
  qed
  from Cons.IH [OF t1 s1(3) l1 p1] obtain s' where
    s': "RFID_Decode_stream bs s1 = Some s'" "forget_decoder s' = forget_decoder s1"
        "unat (l_State s') = Suc k + length bs"
        "\<forall>j. w s' j = (if Suc k \<le> j \<and> j < Suc k + length bs then ucast (bs ! (j - Suc k)) else w s1 j)"
        "bs \<noteq> [] \<longrightarrow> xorsum s' = foldl (XOR) (xorsum s1) (map ucast bs)"
    by auto
  have run: "RFID_Decode_stream (b # bs) s = Some s'"
    using s1(1) s'(1) by simp
  have wj: "\<forall>j. w s' j = (if k \<le> j \<and> j < k + length (b # bs)
                then ucast ((b # bs) ! (j - k)) else w s j)"
  proof
    fix j
    show "w s' j = (if k \<le> j \<and> j < k + length (b # bs)
                then ucast ((b # bs) ! (j - k)) else w s j)"
    proof (cases "j = k")
      case True
      then show ?thesis using s'(4) s1(4) by simp
    next
      case False
      then show ?thesis using s'(4) s1(4)
        by (auto simp: nth_Cons' Suc_diff_le)
    qed
  qed
  have xs: "xorsum s' = foldl (XOR) (if k = 0 then 0 else xorsum s) (map ucast (b # bs))"
  proof (cases "bs = []")
    case True
    with s'(1) s1(5) show ?thesis by simp
  next
    case False
    with s'(5) s1(5) show ?thesis by simp
  qed
  from run s'(2) s1(2) s'(3) wj xs show ?case
    by (intro exI [of _ s']) simp
qed

lemma received_ID_result:
  "g_Transponder (received_ID s) = newTransponder (w s)"
  "l_flgNewRun (received_ID s) = False"
  "l_flgNewID (received_ID s)
     = (l_flgNewID s \<or> l_flgNewRun s \<or> newTransponder (w s) \<noteq> g_Transponder s)"
  "new_ID_notifications (received_ID s) =
     new_ID_notifications s
       + (if l_flgNewRun s \<or> newTransponder (w s) \<noteq> g_Transponder s then 1 else 0)"
  by (auto simp: received_ID_def Let_def new_ID_notifications_def)

lemma received_ID_absence_timer:
  "g_RFID_AbsentDetectTimeout s > 0 \<Longrightarrow>
     last (trace (received_ID s))
       = TimerStart (l_hdlRFID_AbsentDetect s) (uint (g_RFID_AbsentDetectTimeout s))
   \<and> (timer_cb s (l_hdlRFID_AbsentDetect s) \<noteq> None \<longrightarrow>
        timer_remaining (received_ID s) (l_hdlRFID_AbsentDetect s)
          = Some (uint (g_RFID_AbsentDetectTimeout s)))"
  by (simp add: received_ID_def Let_def)

lemma RFID_Decode_stream_append:
  "RFID_Decode_stream (a @ b) s =
     (case RFID_Decode_stream a s of None \<Rightarrow> None | Some s1 \<Rightarrow> RFID_Decode_stream b s1)"
  by (induction a arbitrary: s) (auto split: option.splits)

lemma newTransponder_bytes:
  "newTransponder buf =
     hex2 (buf 8) @ hex2 (buf 7) @ hex2 (buf 6) @ hex2 (buf 5)
       @ hex2 (buf 4) @ hex2 (buf 3) @ hex2 (buf 2) @ hex2 (buf 1)"
proof -
  have "[0..<8] = [0, 1, 2, 3, 4, 5, 6, 7 :: nat]" by code_simp
  then show ?thesis by (simp add: newTransponder_def)
qed

lemma nibble_less: "unat (x AND 0x0F :: u8) < 16"
proof -
  have "unat (x AND 0x0F) \<le> unat (0x0F :: u8)"
    by (rule word_and_le1 [THEN word_le_nat_alt [THEN iffD1]])
  then show ?thesis by simp
qed

lemma hex2_chars: "length (hex2 b) = 2" "set (hex2 b) \<subseteq> set HexChar"
proof -
  have l: "length HexChar = 16" by (simp add: HexChar_def)
  show "length (hex2 b) = 2" by (simp add: hex2_def)
  show "set (hex2 b) \<subseteq> set HexChar"
    using nibble_less [of b] nibble_less [of "drop_bit 4 b"] by (simp add: hex2_def l)
qed

lemma newTransponder_chars:
  "length (newTransponder buf) = 16" "set (newTransponder buf) \<subseteq> set HexChar"
  using hex2_chars by (simp_all add: newTransponder_bytes)

lemma SR_frame_received:
  assumes SR: "l_pRFID_Cfg_Type s = RFID_TYPE_SR" and st: "l_State s = 0"
    and fr: "SR_frame (map ucast rxs)"
  shows "\<exists>u. RFID_Decode_stream rxs s = Some (received_ID u)
           \<and> forget_decoder u = forget_decoder s
           \<and> (\<forall>j \<le> 13. w u j = ucast (rxs ! j))"
proof -
  from fr have len: "length rxs = 14"
    and pre: "take 5 (map ucast rxs) = v"
    and sum0: "map ucast rxs ! 13 = (foldl (XOR) 0 (take 13 (map ucast rxs)) :: u8)"
    by (simp_all add: SR_frame_def)
  from sum0 len have sum: "(ucast (rxs ! 13) :: u8) = foldl (XOR) 0 (take 13 (map ucast rxs))"
    by simp
  define bs where "bs = take 13 rxs"
  have split: "rxs = bs @ [rxs ! 13]"
    using len by (simp add: bs_def take_Suc_conv_app_nth [symmetric, of 13 rxs])
  have lbs: "length bs = 13" using len by (simp add: bs_def)
  have p: "\<forall>i < length bs. 0 + i \<le> 4 \<longrightarrow> (ucast (bs ! i) :: u8) = v ! (0 + i)"
  proof (intro allI impI)
    fix i assume i: "i < length bs" "0 + i \<le> 4"
    then have "v ! i = take 5 (map ucast rxs) ! i" using pre by simp
    also have "\<dots> = ucast (rxs ! i)" using i len by simp
    finally show "(ucast (bs ! i) :: u8) = v ! (0 + i)" using i lbs by (simp add: bs_def)
  qed
  have st0: "unat (l_State s) = 0" using st by simp
  have "0 + length bs \<le> 13" using lbs by simp
  from SR_run [OF SR st0 this p] lbs obtain s1 where
    s1: "RFID_Decode_stream bs s = Some s1" "forget_decoder s1 = forget_decoder s"
        "unat (l_State s1) = 13"
        "\<forall>j. w s1 j = (if j < 13 then ucast (bs ! j) else w s j)"
        "xorsum s1 = foldl (XOR) 0 (map ucast bs)"
    by auto
  have t1: "l_pRFID_Cfg_Type s1 = RFID_TYPE_SR"
    using forget_decoder_fields(1) [OF s1(2)] SR by simp
  have x: "ucast (rxs ! 13) = xorsum s1"
    using sum s1(5) by (simp add: bs_def take_map)
  define u where "u = (count_comm_errors (rxs ! 13) s1)\<lparr>w := (w s1)(13 := ucast (rxs ! 13))\<rparr>"
  have last: "RFID_Decode (rxs ! 13) s1 = Some (received_ID u)"
    unfolding u_def by (rule SR_last [OF t1 s1(3) x])
  have run: "RFID_Decode_stream rxs s = Some (received_ID u)"
    by (subst split) (simp add: RFID_Decode_stream_append s1(1) last)
  have fu: "forget_decoder u = forget_decoder s"
    using s1(2) by (simp add: u_def)
  have wu: "\<forall>j \<le> 13. w u j = ucast (rxs ! j)"
  proof (intro allI impI)
    fix j :: nat assume "j \<le> 13"
    then show "w u j = ucast (rxs ! j)"
      using s1(4) by (cases "j = 13") (simp_all add: u_def bs_def)
  qed
  from run fu wu show ?thesis by blast
qed

lemma example_hex:
  "hex2 0xA4 = ''A4''" "hex2 0x03 = ''03''" "hex2 0x02 = ''02''" "hex2 0x01 = ''01''"
  "hex2 0x05 = ''05''" "hex2 0x00 = ''00''" "hex2 0x11 = ''11''"
  by (simp_all add: hex2_def HexChar_def)

text \<open>
  Claim C1.  The reader type is SR, the decoder is in state 0 and a new run is marked.
  If the low bytes of the received words form a well-formed Short Range frame, all
  fourteen words are decoded, the decoder is back in state 0, the new-ID flag has been
  raised exactly once and is set, and \<^verbatim>\<open>g_Transponder\<close> holds the two hex digits of
  each of the bytes \<^verbatim>\<open>w[8]\<close> down to \<^verbatim>\<open>w[1]\<close>, in this order: sixteen characters
  out of \<open>0..9\<close> and \<open>A..F\<close>.
\<close>

theorem SR_frame_notifies:
  "l_pRFID_Cfg_Type s = RFID_TYPE_SR \<and> l_State s = 0 \<and> l_flgNewRun s
     \<and> SR_frame (map ucast rxs) \<Longrightarrow>
   \<exists>s'. RFID_Decode_stream rxs s = Some s'
     \<and> l_State s' = 0
     \<and> new_ID_notifications s' = new_ID_notifications s + 1
     \<and> l_flgNewID s' \<and> \<not> l_flgNewRun s'
     \<and> g_Transponder s' =
          hex2 (ucast (rxs ! 8)) @ hex2 (ucast (rxs ! 7)) @ hex2 (ucast (rxs ! 6))
            @ hex2 (ucast (rxs ! 5)) @ hex2 (ucast (rxs ! 4)) @ hex2 (ucast (rxs ! 3))
            @ hex2 (ucast (rxs ! 2)) @ hex2 (ucast (rxs ! 1))
     \<and> length (g_Transponder s') = 16
     \<and> set (g_Transponder s') \<subseteq> set ''0123456789ABCDEF''"
proof -
  assume a: "l_pRFID_Cfg_Type s = RFID_TYPE_SR \<and> l_State s = 0 \<and> l_flgNewRun s
     \<and> SR_frame (map ucast rxs)"
  then obtain u where u: "RFID_Decode_stream rxs s = Some (received_ID u)"
      "forget_decoder u = forget_decoder s" "\<forall>j \<le> 13. w u j = ucast (rxs ! j)"
    using SR_frame_received [of s rxs] by blast
  have nr: "l_flgNewRun u" and tr: "trace u = trace s"
    using forget_decoder_fields [OF u(2)] a by simp_all
  have n: "new_ID_notifications (received_ID u) = new_ID_notifications s + 1"
    using nr tr by (simp add: received_ID_result) (simp add: new_ID_notifications_def)
  have g: "g_Transponder (received_ID u) =
          hex2 (ucast (rxs ! 8)) @ hex2 (ucast (rxs ! 7)) @ hex2 (ucast (rxs ! 6))
            @ hex2 (ucast (rxs ! 5)) @ hex2 (ucast (rxs ! 4)) @ hex2 (ucast (rxs ! 3))
            @ hex2 (ucast (rxs ! 2)) @ hex2 (ucast (rxs ! 1))"
    using u(3) by (simp add: received_ID_result newTransponder_bytes)
  have c: "length (g_Transponder (received_ID u)) = 16"
      "set (g_Transponder (received_ID u)) \<subseteq> set ''0123456789ABCDEF''"
    using newTransponder_chars [of "w u"] by (simp_all add: received_ID_result HexChar_def)
  have f: "l_flgNewID (received_ID u)" "\<not> l_flgNewRun (received_ID u)"
    using nr by (simp_all add: received_ID_result)
  from u(1) n g c f show ?thesis
    by (intro exI [of _ "received_ID u"] conjI) simp_all
qed

theorem SR_frame_notifies_witness:
  "\<exists>s'. RFID_Decode_stream example_SR_frame SR_reader_state = Some s'
     \<and> l_State s' = 0 \<and> new_ID_notifications s' = 1
     \<and> g_Transponder s' = ''A403020105001100''"
proof -
  have h: "l_pRFID_Cfg_Type SR_reader_state = RFID_TYPE_SR \<and> l_State SR_reader_state = 0
      \<and> l_flgNewRun SR_reader_state \<and> SR_frame (map ucast example_SR_frame)"
    by (simp add: SR_reader_state_def reset_state_def RFID_Enable_def SR_frame_def
          example_SR_frame_def v_def)
  have n0: "new_ID_notifications SR_reader_state = 0"
    by (simp add: SR_reader_state_def new_ID_notifications_def RFID_Enable_def reset_state_def)
  from SR_frame_notifies [OF h] obtain s' where
    s': "RFID_Decode_stream example_SR_frame SR_reader_state = Some s'" "l_State s' = 0"
        "new_ID_notifications s' = new_ID_notifications SR_reader_state + 1"
        "g_Transponder s' =
          hex2 (ucast (example_SR_frame ! 8)) @ hex2 (ucast (example_SR_frame ! 7))
            @ hex2 (ucast (example_SR_frame ! 6)) @ hex2 (ucast (example_SR_frame ! 5))
            @ hex2 (ucast (example_SR_frame ! 4)) @ hex2 (ucast (example_SR_frame ! 3))
            @ hex2 (ucast (example_SR_frame ! 2)) @ hex2 (ucast (example_SR_frame ! 1))"
    by blast
  have "g_Transponder s' = ''A403020105001100''"
    unfolding s'(4) by (simp add: example_SR_frame_def example_hex)
  with s'(1,2,3) n0 show ?thesis by simp
qed

text \<open>
  Bytes 1 to 4 of a Short Range frame are prefix bytes, so the second half of such an ID
  is always the same.
\<close>

lemma SR_frame_ID_second_half:
  assumes "SR_frame (map ucast rxs)"
  shows "hex2 (ucast (rxs ! 4)) @ hex2 (ucast (rxs ! 3)) @ hex2 (ucast (rxs ! 2))
           @ hex2 (ucast (rxs ! 1)) = ''05001100''"
proof -
  from assms have len: "length rxs = 14" and pre: "take 5 (map ucast rxs) = v"
    by (simp_all add: SR_frame_def)
  have "\<And>i. i < 5 \<Longrightarrow> (ucast (rxs ! i) :: u8) = v ! i"
  proof -
    fix i :: nat assume i: "i < 5"
    then have "v ! i = take 5 (map ucast rxs) ! i" using pre by simp
    also have "\<dots> = ucast (rxs ! i)" using i len by simp
    finally show "(ucast (rxs ! i) :: u8) = v ! i" by simp
  qed
  from this [of 1] this [of 2] this [of 3] this [of 4] show ?thesis
    by (simp add: v_def example_hex)
qed

section \<open>Decoding the same frame twice\<close>

lemma newTransponder_cong:
  "(\<forall>j. 1 \<le> j \<and> j \<le> 8 \<longrightarrow> a j = b j) \<Longrightarrow> newTransponder a = newTransponder b"
  by (simp add: newTransponder_bytes)

lemma trace_received_ID_grows:
  "g_RFID_AbsentDetectTimeout s > 0 \<Longrightarrow> length (trace (received_ID s)) > length (trace s)"
  by (simp add: received_ID_def Let_def)

lemma repeated_frame:
  assumes rec: "\<And>s. l_pRFID_Cfg_Type s = ty \<Longrightarrow> l_State s = 0 \<Longrightarrow>
           \<exists>u. RFID_Decode_stream rxs s = Some (received_ID u)
             \<and> forget_decoder u = forget_decoder s
             \<and> (\<forall>j. 1 \<le> j \<and> j \<le> 8 \<longrightarrow> w u j = ucast (rxs ! j))"
    and ty: "l_pRFID_Cfg_Type s = ty" and st: "l_State s = 0"
  shows "\<exists>s1 s2. RFID_Decode_stream rxs s = Some s1 \<and> RFID_Decode_stream rxs s1 = Some s2
     \<and> RFID_Decode_stream (rxs @ rxs) s = Some s2
     \<and> l_State s1 = 0 \<and> l_State s2 = 0 \<and> l_pRFID_Cfg_Type s2 = ty
     \<and> \<not> l_flgNewRun s1 \<and> \<not> l_flgNewRun s2
     \<and> g_Transponder s1 = newTransponder (\<lambda>j. ucast (rxs ! j))
     \<and> g_Transponder s2 = g_Transponder s1
     \<and> new_ID_notifications s1 = new_ID_notifications s
          + (if l_flgNewRun s \<or> g_Transponder s \<noteq> newTransponder (\<lambda>j. ucast (rxs ! j))
             then 1 else 0)
     \<and> new_ID_notifications s2 = new_ID_notifications s1
     \<and> (g_RFID_AbsentDetectTimeout s > 0 \<longrightarrow>
          last (trace s1)
            = TimerStart (l_hdlRFID_AbsentDetect s) (uint (g_RFID_AbsentDetectTimeout s))
        \<and> length (trace s) < length (trace s1)
        \<and> last (trace s2)
            = TimerStart (l_hdlRFID_AbsentDetect s) (uint (g_RFID_AbsentDetectTimeout s))
        \<and> length (trace s1) < length (trace s2)
        \<and> (timer_cb s (l_hdlRFID_AbsentDetect s) \<noteq> None \<longrightarrow>
              timer_remaining s1 (l_hdlRFID_AbsentDetect s)
                = Some (uint (g_RFID_AbsentDetectTimeout s))
            \<and> timer_remaining s2 (l_hdlRFID_AbsentDetect s)
                = Some (uint (g_RFID_AbsentDetectTimeout s))))"
proof -
  let ?id = "newTransponder (\<lambda>j. ucast (rxs ! j))"
  from rec [OF ty st] obtain u where u: "RFID_Decode_stream rxs s = Some (received_ID u)"
    "forget_decoder u = forget_decoder s" "\<forall>j. 1 \<le> j \<and> j \<le> 8 \<longrightarrow> w u j = ucast (rxs ! j)"
    by blast
  define s1 where "s1 = received_ID u"
  have idu: "newTransponder (w u) = ?id"
    by (rule newTransponder_cong) (use u(3) in simp)
  note fu = forget_decoder_fields [OF u(2)]
  have ty1: "l_pRFID_Cfg_Type s1 = ty" and st1: "l_State s1 = 0"
    using fu(1) ty by (simp_all add: s1_def)
  from rec [OF ty1 st1] obtain u2 where u2: "RFID_Decode_stream rxs s1 = Some (received_ID u2)"
    "forget_decoder u2 = forget_decoder s1" "\<forall>j. 1 \<le> j \<and> j \<le> 8 \<longrightarrow> w u2 j = ucast (rxs ! j)"
    by blast
  define s2 where "s2 = received_ID u2"
  have idu2: "newTransponder (w u2) = ?id"
    by (rule newTransponder_cong) (use u2(3) in simp)
  note fu2 = forget_decoder_fields [OF u2(2)]
  have g1: "g_Transponder s1 = ?id" by (simp add: s1_def received_ID_result idu)
  have nr1: "\<not> l_flgNewRun s1" by (simp add: s1_def received_ID_result)
  have g2: "g_Transponder s2 = ?id" by (simp add: s2_def received_ID_result idu2)
  have n1: "new_ID_notifications s1 = new_ID_notifications s
          + (if l_flgNewRun s \<or> g_Transponder s \<noteq> ?id then 1 else 0)"
  proof -
    have "new_ID_notifications u = new_ID_notifications s"
      using fu(4) by (simp add: new_ID_notifications_def)
    then show ?thesis
      using fu(2,3) by (auto simp: s1_def received_ID_result idu)
  qed
  have n2: "new_ID_notifications s2 = new_ID_notifications s1"
  proof -
    have "new_ID_notifications u2 = new_ID_notifications s1"
      using fu2(4) by (simp add: new_ID_notifications_def)
    then show ?thesis
      using fu2(2,3) nr1 g1 by (simp add: s2_def received_ID_result idu2)
  qed
  have cfg1: "g_RFID_AbsentDetectTimeout s1 = g_RFID_AbsentDetectTimeout s"
      "l_hdlRFID_AbsentDetect s1 = l_hdlRFID_AbsentDetect s" "timer_cb s1 = timer_cb s"
    using fu(6,7,8) by (simp_all add: s1_def)
  have tm: "g_RFID_AbsentDetectTimeout s > 0 \<Longrightarrow>
          last (trace s1)
            = TimerStart (l_hdlRFID_AbsentDetect s) (uint (g_RFID_AbsentDetectTimeout s))
        \<and> length (trace s) < length (trace s1)
        \<and> last (trace s2)
            = TimerStart (l_hdlRFID_AbsentDetect s) (uint (g_RFID_AbsentDetectTimeout s))
        \<and> length (trace s1) < length (trace s2)
        \<and> (timer_cb s (l_hdlRFID_AbsentDetect s) \<noteq> None \<longrightarrow>
              timer_remaining s1 (l_hdlRFID_AbsentDetect s)
                = Some (uint (g_RFID_AbsentDetectTimeout s))
            \<and> timer_remaining s2 (l_hdlRFID_AbsentDetect s)
                = Some (uint (g_RFID_AbsentDetectTimeout s)))"
  proof -
    assume t: "g_RFID_AbsentDetectTimeout s > 0"
    then have tu: "g_RFID_AbsentDetectTimeout u > 0" using fu(6) by simp
    from t have tu2: "g_RFID_AbsentDetectTimeout u2 > 0" using fu2(6) cfg1(1) by simp
    from received_ID_absence_timer [OF tu] trace_received_ID_grows [OF tu]
         received_ID_absence_timer [OF tu2] trace_received_ID_grows [OF tu2]
    show ?thesis
      using fu(4,6,7,8) fu2(4,6,7,8) cfg1 by (simp add: s1_def [symmetric] s2_def [symmetric])
  qed
  have run2: "RFID_Decode_stream (rxs @ rxs) s = Some s2"
    using u(1) u2(1) by (simp add: RFID_Decode_stream_append s1_def s2_def)
  have st2: "l_State s2 = 0" "l_pRFID_Cfg_Type s2 = ty" "\<not> l_flgNewRun s2"
    using fu2(1) ty1 by (simp_all add: s2_def received_ID_result)
  from u(1) u2(1) run2 st1 st2 nr1 g1 g2 n1 n2 tm show ?thesis
    unfolding s1_def [symmetric] s2_def [symmetric]
    by (intro exI [of _ s1] exI [of _ s2]) simp
qed

lemma byte_of_rx_ucast: "rx AND 0xFF = (ucast (ucast rx :: u8) :: u32)"
  using byte_of_rx(2) [of rx "ucast rx"] by simp

lemma LR_crc_frame:
  "LR_crc 0 0 [b0, b1, b2, b3, b4, b5, b6, b7, b8, b9]
     = foldl (\<lambda>c b. crc_kermit c (ucast b)) 0 [b1, b2, b3, b4, b5, b6, b7, b8]"
  by simp

lemma LR_mid:
  assumes "l_pRFID_Cfg_Type s = RFID_TYPE_LR" "unat (l_State s) = k" "k \<le> 9"
    and "k = 0 \<longrightarrow> (ucast rx :: u8) = 0x54"
  shows "\<exists>s'. RFID_Decode rx s = Some s' \<and> forget_decoder s' = forget_decoder s
           \<and> unat (l_State s') = Suc k \<and> w s' = (w s)(k := ucast rx)
           \<and> crc s' = (if k \<le> 8 then crc_kermit (if k \<le> 1 then 0 else crc s) (ucast (ucast rx :: u8))
                        else crc s)"
proof -
  have p: "k = 0 \<longrightarrow> rx AND 0xFF = 0x54"
    using assms(4) byte_of_rx(2) [of rx "0x54"] by simp
  have u: "unat (l_State s + 1) = Suc k"
    using assms(2,3) by (simp add: unat_u8_Suc)
  show ?thesis
    using assms(1,2,3) p u
    by (simp add: RFID_Decode_def decode_LR_def Let_def byte_of_rx(1))
       (auto simp: byte_of_rx_ucast)
qed

lemma LR_last:
  assumes "l_pRFID_Cfg_Type s = RFID_TYPE_LR" "unat (l_State s) = 10"
    and "push_bit 8 (ucast (ucast rx :: u8)) OR ucast (w s 9) = crc s"
  shows "RFID_Decode rx s
           = Some (received_ID ((count_comm_errors rx s)\<lparr>w := (w s)(10 := ucast rx)\<rparr>))"
  using assms
  by (simp add: RFID_Decode_def decode_LR_def Let_def byte_of_rx)

lemma LR_run:
  assumes "l_pRFID_Cfg_Type s = RFID_TYPE_LR" "unat (l_State s) = k" "k + length bs \<le> 10"
    and "k = 0 \<and> bs \<noteq> [] \<longrightarrow> (ucast (bs ! 0) :: u8) = 0x54"
  shows "\<exists>s'. RFID_Decode_stream bs s = Some s' \<and> forget_decoder s' = forget_decoder s
           \<and> unat (l_State s') = k + length bs
           \<and> (\<forall>j. w s' j = (if k \<le> j \<and> j < k + length bs then ucast (bs ! (j - k)) else w s j))
           \<and> crc s' = LR_crc k (crc s) (map ucast bs)"
  using assms
proof (induction bs arbitrary: s k)
  case Nil
  then show ?case by auto
next
  case (Cons b bs)
  have k: "k \<le> 9" using Cons.prems(3) by simp
  have p: "k = 0 \<longrightarrow> (ucast b :: u8) = 0x54" using Cons.prems(4) by auto
  from LR_mid [OF Cons.prems(1,2) k p] obtain s1 where
    s1: "RFID_Decode b s = Some s1" "forget_decoder s1 = forget_decoder s"
        "unat (l_State s1) = Suc k" "w s1 = (w s)(k := ucast b)"
        "crc s1 = (if k \<le> 8 then crc_kermit (if k \<le> 1 then 0 else crc s) (ucast (ucast b :: u8))
                        else crc s)"
    by blast
  have t1: "l_pRFID_Cfg_Type s1 = RFID_TYPE_LR"
    using forget_decoder_fields(1) [OF s1(2)] Cons.prems(1) by simp
  have l1: "Suc k + length bs \<le> 10" using Cons.prems(3) by simp
  have p1: "Suc k = 0 \<and> bs \<noteq> [] \<longrightarrow> (ucast (bs ! 0) :: u8) = 0x54" by simp
  from Cons.IH [OF t1 s1(3) l1 p1] obtain s' where
    s': "RFID_Decode_stream bs s1 = Some s'" "forget_decoder s' = forget_decoder s1"
        "unat (l_State s') = Suc k + length bs"
        "\<forall>j. w s' j = (if Suc k \<le> j \<and> j < Suc k + length bs then ucast (bs ! (j - Suc k)) else w s1 j)"
        "crc s' = LR_crc (Suc k) (crc s1) (map ucast bs)"
    by auto
  have run: "RFID_Decode_stream (b # bs) s = Some s'"
    using s1(1) s'(1) by simp
  have wj: "\<forall>j. w s' j = (if k \<le> j \<and> j < k + length (b # bs)
                then ucast ((b # bs) ! (j - k)) else w s j)"
  proof
    fix j
    show "w s' j = (if k \<le> j \<and> j < k + length (b # bs)
                then ucast ((b # bs) ! (j - k)) else w s j)"
    proof (cases "j = k")
      case True
      then show ?thesis using s'(4) s1(4) by simp
    next
      case False
      then show ?thesis using s'(4) s1(4)
        by (auto simp: nth_Cons' Suc_diff_le)
    qed
  qed
  have c: "crc s' = LR_crc k (crc s) (map ucast (b # bs))"
    using s'(5) s1(5) by simp
  from run s'(2) s1(2) s'(3) wj c show ?case
    by (intro exI [of _ s']) simp
qed

lemma LR_frame_received:
  assumes LR: "l_pRFID_Cfg_Type s = RFID_TYPE_LR" and st: "l_State s = 0"
    and fr: "LR_frame (map ucast rxs)"
  shows "\<exists>u. RFID_Decode_stream rxs s = Some (received_ID u)
           \<and> forget_decoder u = forget_decoder s
           \<and> (\<forall>j \<le> 10. w u j = ucast (rxs ! j))"
proof -
  from fr have len: "length rxs = 11" by (simp add: LR_frame_def)
  from fr len have pre: "(ucast (rxs ! 0) :: u8) = 0x54"
    and sum: "push_bit 8 (ucast (ucast (rxs ! 10) :: u8)) OR ucast (ucast (rxs ! 9) :: u8)
                 = LR_crc 0 0 (take 10 (map ucast rxs))"
    by (simp_all add: LR_frame_def)
  define bs where "bs = take 10 rxs"
  have split: "rxs = bs @ [rxs ! 10]"
    using len by (simp add: bs_def take_Suc_conv_app_nth [symmetric, of 10 rxs])
  have lbs: "length bs = 10" using len by (simp add: bs_def)
  have p: "0 = 0 \<and> bs \<noteq> [] \<longrightarrow> (ucast (bs ! 0) :: u8) = 0x54"
    using pre len by (simp add: bs_def)
  have st0: "unat (l_State s) = 0" using st by simp
  have "0 + length bs \<le> 10" using lbs by simp
  from LR_run [OF LR st0 this p] lbs obtain s1 where
    s1: "RFID_Decode_stream bs s = Some s1" "forget_decoder s1 = forget_decoder s"
        "unat (l_State s1) = 10"
        "\<forall>j. w s1 j = (if j < 10 then ucast (bs ! j) else w s j)"
        "crc s1 = LR_crc 0 (crc s) (map ucast bs)"
    by auto
  have c0: "LR_crc 0 (crc s) (map ucast bs) = LR_crc 0 0 (map ucast bs)"
    using lbs by (cases bs) simp_all
  have t1: "l_pRFID_Cfg_Type s1 = RFID_TYPE_LR"
    using forget_decoder_fields(1) [OF s1(2)] LR by simp
  have w9: "w s1 9 = ucast (rxs ! 9)"
    using s1(4) by (simp add: bs_def)
  have x: "push_bit 8 (ucast (ucast (rxs ! 10) :: u8)) OR ucast (w s1 9) = crc s1"
    using sum s1(5) c0 w9 by (simp add: bs_def take_map)
  define u where "u = (count_comm_errors (rxs ! 10) s1)\<lparr>w := (w s1)(10 := ucast (rxs ! 10))\<rparr>"
  have last: "RFID_Decode (rxs ! 10) s1 = Some (received_ID u)"
    unfolding u_def by (rule LR_last [OF t1 s1(3) x])
  have run: "RFID_Decode_stream rxs s = Some (received_ID u)"
    by (subst split) (simp add: RFID_Decode_stream_append s1(1) last)
  have fu: "forget_decoder u = forget_decoder s"
    using s1(2) by (simp add: u_def)
  have wu: "\<forall>j \<le> 10. w u j = ucast (rxs ! j)"
  proof (intro allI impI)
    fix j :: nat assume "j \<le> 10"
    then show "w u j = ucast (rxs ! j)"
      using s1(4) by (cases "j = 10") (simp_all add: u_def bs_def)
  qed
  from run fu wu show ?thesis by blast
qed

lemma valid_frame_received:
  assumes "valid_frame ty (map ucast rxs)" "l_pRFID_Cfg_Type s = ty" "l_State s = 0"
  shows "\<exists>u. RFID_Decode_stream rxs s = Some (received_ID u)
             \<and> forget_decoder u = forget_decoder s
             \<and> (\<forall>j. 1 \<le> j \<and> j \<le> 8 \<longrightarrow> w u j = ucast (rxs ! j))"
proof -
  from assms(1) consider (SR) "ty = RFID_TYPE_SR" "SR_frame (map ucast rxs)"
    | (LR) "ty = RFID_TYPE_LR" "LR_frame (map ucast rxs)"
    by (auto simp: valid_frame_def)
  then show ?thesis
  proof cases
    case SR
    with SR_frame_received [of s rxs] assms(2,3) obtain u where
      "RFID_Decode_stream rxs s = Some (received_ID u)" "forget_decoder u = forget_decoder s"
      "\<forall>j \<le> 13. w u j = ucast (rxs ! j)" by auto
    then show ?thesis by (intro exI [of _ u]) simp
  next
    case LR
    with LR_frame_received [of s rxs] assms(2,3) obtain u where
      "RFID_Decode_stream rxs s = Some (received_ID u)" "forget_decoder u = forget_decoder s"
      "\<forall>j \<le> 10. w u j = ucast (rxs ! j)" by auto
    then show ?thesis by (intro exI [of _ u]) simp
  qed
qed

text \<open>
  Claim C5, as amended.  The decoder is in state 0 and receives twice in a row the same
  frame, well-formed for the configured reader type (SR or LR); nothing marks a new run
  in between.  Then both frames are decoded; the first raises the new-ID flag once if a
  new run is marked or the stored ID differs from the ID of the frame, and not at all
  otherwise; the second never raises it.  If the absence timeout is greater than 0, the
  absence timer is started at the end of each of the two frames (the last call recorded
  by each frame, and the countdown is the timeout afterwards).
\<close>

theorem repeated_frame_notifies_once:
  "valid_frame (l_pRFID_Cfg_Type s) (map ucast rxs) \<and> l_State s = 0 \<Longrightarrow>
   \<exists>s1 s2. RFID_Decode_stream rxs s = Some s1 \<and> RFID_Decode_stream rxs s1 = Some s2
     \<and> RFID_Decode_stream (rxs @ rxs) s = Some s2
     \<and> new_ID_notifications s1 = new_ID_notifications s
          + (if l_flgNewRun s \<or> g_Transponder s \<noteq> newTransponder (\<lambda>j. ucast (rxs ! j))
             then 1 else 0)
     \<and> new_ID_notifications s2 = new_ID_notifications s1
     \<and> (g_RFID_AbsentDetectTimeout s > 0 \<longrightarrow>
          last (trace s1)
            = TimerStart (l_hdlRFID_AbsentDetect s) (uint (g_RFID_AbsentDetectTimeout s))
        \<and> length (trace s) < length (trace s1)
        \<and> last (trace s2)
            = TimerStart (l_hdlRFID_AbsentDetect s) (uint (g_RFID_AbsentDetectTimeout s))
        \<and> length (trace s1) < length (trace s2)
        \<and> (timer_cb s (l_hdlRFID_AbsentDetect s) \<noteq> None \<longrightarrow>
              timer_remaining s1 (l_hdlRFID_AbsentDetect s)
                = Some (uint (g_RFID_AbsentDetectTimeout s))
            \<and> timer_remaining s2 (l_hdlRFID_AbsentDetect s)
                = Some (uint (g_RFID_AbsentDetectTimeout s))))"
proof -
  assume a: "valid_frame (l_pRFID_Cfg_Type s) (map ucast rxs) \<and> l_State s = 0"
  have rec: "\<And>t. l_pRFID_Cfg_Type t = l_pRFID_Cfg_Type s \<Longrightarrow> l_State t = 0 \<Longrightarrow>
           \<exists>u. RFID_Decode_stream rxs t = Some (received_ID u)
             \<and> forget_decoder u = forget_decoder t
             \<and> (\<forall>j. 1 \<le> j \<and> j \<le> 8 \<longrightarrow> w u j = ucast (rxs ! j))"
    using a by (intro valid_frame_received [of "l_pRFID_Cfg_Type s"]) simp_all
  from repeated_frame [of "l_pRFID_Cfg_Type s" rxs s, OF rec refl] a
  show ?thesis by blast
qed

lemma example_frame_facts:
  "valid_frame (l_pRFID_Cfg_Type SR_reader_state) (map ucast example_SR_frame)"
  "l_pRFID_Cfg_Type SR_reader_state = RFID_TYPE_SR"
  "l_State SR_reader_state = 0" "l_flgNewRun SR_reader_state"
  "new_ID_notifications SR_reader_state = 0"
  "g_RFID_AbsentDetectTimeout SR_reader_state = 5"
  "l_hdlRFID_AbsentDetect SR_reader_state = 6"
  by (simp_all add: SR_reader_state_def reset_state_def RFID_Enable_def SR_frame_def
        valid_frame_def example_SR_frame_def v_def new_ID_notifications_def)

theorem repeated_frame_notifies_once_witness:
  "\<exists>s1 s2. RFID_Decode_stream example_SR_frame SR_reader_state = Some s1
     \<and> RFID_Decode_stream (example_SR_frame @ example_SR_frame) SR_reader_state = Some s2
     \<and> new_ID_notifications s1 = 1 \<and> new_ID_notifications s2 = 1
     \<and> last (trace s1) = TimerStart 6 5 \<and> last (trace s2) = TimerStart 6 5
     \<and> length (trace s1) < length (trace s2)"
proof -
  have h: "valid_frame (l_pRFID_Cfg_Type SR_reader_state) (map ucast example_SR_frame)
      \<and> l_State SR_reader_state = 0"
    using example_frame_facts by simp
  have t: "g_RFID_AbsentDetectTimeout SR_reader_state > 0"
    by (simp add: example_frame_facts)
  from repeated_frame_notifies_once [OF h] t obtain s1 s2 where
    "RFID_Decode_stream example_SR_frame SR_reader_state = Some s1"
    "RFID_Decode_stream (example_SR_frame @ example_SR_frame) SR_reader_state = Some s2"
    "new_ID_notifications s1 = 1" "new_ID_notifications s2 = 1"
    "last (trace s1) = TimerStart 6 5" "last (trace s2) = TimerStart 6 5"
    "length (trace s1) < length (trace s2)"
    by (auto simp: example_frame_facts)
  then show ?thesis by blast
qed

text \<open>
  The claim as stated (exactly one notification in total) fails when the ID is already
  stored: of three equal frames in a row after the reader was enabled, the first raises
  the flag and clears the new-run mark, the second and the third raise nothing.
\<close>

theorem third_frame_not_notified:
  "map_option new_ID_notifications (RFID_Decode_stream example_SR_frame SR_reader_state) = Some 1
   \<and> map_option l_flgNewRun (RFID_Decode_stream example_SR_frame SR_reader_state) = Some False
   \<and> map_option new_ID_notifications
       (RFID_Decode_stream (example_SR_frame @ example_SR_frame @ example_SR_frame)
          SR_reader_state) = Some 1"
proof -
  let ?rxs = "example_SR_frame"
  have rec: "\<And>t. l_pRFID_Cfg_Type t = RFID_TYPE_SR \<Longrightarrow> l_State t = 0 \<Longrightarrow>
           \<exists>u. RFID_Decode_stream ?rxs t = Some (received_ID u)
             \<and> forget_decoder u = forget_decoder t
             \<and> (\<forall>j. 1 \<le> j \<and> j \<le> 8 \<longrightarrow> w u j = ucast (?rxs ! j))"
    using example_frame_facts(1,2)
    by (intro valid_frame_received [of RFID_TYPE_SR]) simp_all
  from repeated_frame [of RFID_TYPE_SR ?rxs SR_reader_state, OF rec example_frame_facts(2,3)]
  obtain s1 s2 where
    a: "RFID_Decode_stream ?rxs SR_reader_state = Some s1"
       "RFID_Decode_stream ?rxs s1 = Some s2"
       "l_State s2 = 0" "l_pRFID_Cfg_Type s2 = RFID_TYPE_SR"
       "\<not> l_flgNewRun s1" "\<not> l_flgNewRun s2"
       "g_Transponder s2 = newTransponder (\<lambda>j. ucast (?rxs ! j))"
       "new_ID_notifications s1 = 1" "new_ID_notifications s2 = 1"
    using example_frame_facts(4,5) by auto
  from repeated_frame [of RFID_TYPE_SR ?rxs s2, OF rec a(4,3)]
  obtain s3 where
    b: "RFID_Decode_stream ?rxs s2 = Some s3" "new_ID_notifications s3 = 1"
    using a(6,7,9) by auto
  have "RFID_Decode_stream (?rxs @ ?rxs @ ?rxs) SR_reader_state = Some s3"
    using a(1,2) b(1) by (simp add: RFID_Decode_stream_append)
  with a(1,5,8) b(2) show ?thesis by simp
qed

section \<open>Disabling the reader\<close>

lemma RFID_Decode_frame:
  assumes "RFID_Decode rx s = Some s'"
  shows "cfg_LOGGING s' = cfg_LOGGING s" "cfg_LIGHT_BARRIER s' = cfg_LIGHT_BARRIER s"
    "cfg_DISPLAY_UPDATE_WHEN_ABSENT s' = cfg_DISPLAY_UPDATE_WHEN_ABSENT s" "cfg_ALARM_UA1_ON_TIME_1 s' = cfg_ALARM_UA1_ON_TIME_1 s"
    "g_RFID_Type s' = g_RFID_Type s" "g_RFID_Power s' = g_RFID_Power s"
    "g_RFID_AbsentDetectTimeout s' = g_RFID_AbsentDetectTimeout s" "g_RFID_PwrOffTimeout s' = g_RFID_PwrOffTimeout s"
    "g_RFID_DetectTimeout s' = g_RFID_DetectTimeout s" "l_flgRFID_Activate s' = l_flgRFID_Activate s"
    "l_pRFID_Cfg_Type s' = l_pRFID_Cfg_Type s" "l_pRFID_Cfg_PwrOut s' = l_pRFID_Cfg_PwrOut s"
    "l_flgRFID_On s' = l_flgRFID_On s" "l_flgRFID_IsOn s' = l_flgRFID_IsOn s"
    "l_hdlRFID_AbsentDetect s' = l_hdlRFID_AbsentDetect s" "l_hdlRFID_Off s' = l_hdlRFID_Off s"
    "l_flgObjectPresent s' = l_flgObjectPresent s" "l_hdlRFID_DetectTimeout s' = l_hdlRFID_DetectTimeout s"
    "uart_clock s' = uart_clock s" "uart_rx_pin s' = uart_rx_pin s"
    "uart_type s' = uart_type s" "em1_mod_rfid s' = em1_mod_rfid s"
    "g_PwrInterval s' = g_PwrInterval s" "g_On_Duration s' = g_On_Duration s"
    "g_flgIRQ s' = g_flgIRQ s" "l_hdlPwrInterval s' = l_hdlPwrInterval s"
    "pwr_pin s' = pwr_pin s" "meas_pin s' = meas_pin s"
    "hdlFollowUpTime s' = hdlFollowUpTime s" "FollowUpTime s' = FollowUpTime s"
    "l_ScanDuration s' = l_ScanDuration s" "l_ADC_ActiveChanMask s' = l_ADC_ActiveChanMask s"
    "l_ADC_Value s' = l_ADC_Value s" "l_prev_value_mV s' = l_prev_value_mV s"
    "l_prev_value_mA s' = l_prev_value_mA s" "l_prev_BATT_mV s' = l_prev_BATT_mV s"
    "l_prev_BATT_mA s' = l_prev_BATT_mA s" "l_BATT_FollowUpTime s' = l_BATT_FollowUpTime s"
    "l_hdlFollowUpTimeBATT s' = l_hdlFollowUpTimeBATT s" "l_flgLogBATT s' = l_flgLogBATT s"
    "l_BATT_MeasureInterval s' = l_BATT_MeasureInterval s" "l_flgADC_On s' = l_flgADC_On s"
    "l_mV_Divider s' = l_mV_Divider s" "l_mA_Divider s' = l_mA_Divider s"
    "g_UA_Calib_mV s' = g_UA_Calib_mV s" "g_UA_Calib_mA s' = g_UA_Calib_mA s"
    "l_PwrOut s' = l_PwrOut s" "l_flgCalibration s' = l_flgCalibration s"
    "l_hdlLCD_Off s' = l_hdlLCD_Off s" "power_fail s' = power_fail s"
    "eeprom s' = eeprom s" "timer_cb s' = timer_cb s"
    "timer_count s' = timer_count s"
  using assms by (auto simp: RFID_Decode_def Let_def split: if_splits)

lemma RFID_Decode_keeps_ID:
  assumes "RFID_Decode rx s = Some s'" "g_Transponder s \<noteq> []"
  shows "g_Transponder s' \<noteq> []"
proof -
  have n: "newTransponder b \<noteq> []" for b
    using newTransponder_chars(1) [of b] by auto
  from assms show ?thesis
    by (auto simp: RFID_Decode_def Let_def received_ID_result n split: if_splits)
qed

lemma RFID_PowerOff_torn_down:
  "\<not> uart_clock (RFID_PowerOff s)" "\<not> uart_rx_pin (RFID_PowerOff s)"
  "pwr_pin (RFID_PowerOff s) =
     (if 0 \<le> l_pRFID_Cfg_PwrOut s \<and> l_pRFID_Cfg_PwrOut s < NUM_PWR_OUT
      then (pwr_pin s)(l_pRFID_Cfg_PwrOut s := False) else pwr_pin s)"
  by (simp_all add: RFID_PowerOff_def Let_def pwr_pin_PowerOutput)

lemma RFID_Disable_immediate:
  assumes "l_flgRFID_On s" "l_flgRFID_IsOn s"
    and "0 \<le> l_pRFID_Cfg_PwrOut s" "l_pRFID_Cfg_PwrOut s < NUM_PWR_OUT"
    and "g_RFID_AbsentDetectTimeout s = 0 \<or> g_Transponder s = []"
  shows "torn_down (RFID_Disable s)"
  using assms
  by (auto simp: torn_down_def RFID_Disable_def Let_def RFID_PowerOff_torn_down)

lemma RFID_Disable_deferred:
  assumes "l_flgRFID_On s" "g_RFID_AbsentDetectTimeout s \<noteq> 0" "g_Transponder s \<noteq> []"
  shows "l_flgRFID_IsOn (RFID_Disable s) = l_flgRFID_IsOn s"
    "uart_clock (RFID_Disable s) = uart_clock s" "uart_rx_pin (RFID_Disable s) = uart_rx_pin s"
    "pwr_pin (RFID_Disable s) = pwr_pin s" "l_State (RFID_Disable s) = l_State s"
    "\<not> l_flgRFID_On (RFID_Disable s)"
  using assms by (simp_all add: RFID_Disable_def Let_def)

text \<open>The state in which a power-off of the reader is pending.\<close>

lemma RFID_Check_deferred:
  assumes "\<not> l_flgRFID_On s" "g_RFID_AbsentDetectTimeout s \<noteq> 0" "g_Transponder s \<noteq> []"
  shows "l_flgRFID_IsOn (RFID_Check s) = l_flgRFID_IsOn s"
    "uart_clock (RFID_Check s) = uart_clock s" "uart_rx_pin (RFID_Check s) = uart_rx_pin s"
    "pwr_pin (RFID_Check s) = pwr_pin s" "l_State (RFID_Check s) = l_State s"
  using assms by (simp_all add: RFID_Check_def Let_def ControlUpdateID_def)

lemma RFID_Check_absent:
  assumes "\<not> l_flgRFID_On s" "l_flgRFID_IsOn s" "g_Transponder s = []"
    and "0 \<le> l_pRFID_Cfg_PwrOut s" "l_pRFID_Cfg_PwrOut s < NUM_PWR_OUT"
  shows "torn_down (RFID_Check s)"
  using assms
  by (auto simp: torn_down_def RFID_Check_def Let_def ControlUpdateID_def
        RFID_PowerOff_torn_down)

lemma g_Transponder_TransponderAbsent [simp]: "g_Transponder (TransponderAbsent h s) = []"
  by (simp add: TransponderAbsent_def Let_def)

lemma power_off_pending:
  assumes "reader_powered s" "\<not> l_flgRFID_On s"
    and "g_RFID_AbsentDetectTimeout s \<noteq> 0" "g_Transponder s \<noteq> []"
    and "unat (l_State s) \<le> 13"
  shows "\<exists>d. perform_all acts s = Some d \<and> reader_powered d \<and> \<not> l_flgRFID_On d
            \<and> g_RFID_AbsentDetectTimeout d \<noteq> 0 \<and> g_Transponder d \<noteq> []
            \<and> l_pRFID_Cfg_PwrOut d = l_pRFID_Cfg_PwrOut s"
  using assms
proof (induction acts arbitrary: s)
  case Nil
  then show ?case by simp
next
  case (Cons a acts)
  have "\<exists>s1. perform a s = Some s1 \<and> reader_powered s1 \<and> \<not> l_flgRFID_On s1
          \<and> g_RFID_AbsentDetectTimeout s1 \<noteq> 0 \<and> g_Transponder s1 \<noteq> []
          \<and> unat (l_State s1) \<le> 13 \<and> l_pRFID_Cfg_PwrOut s1 = l_pRFID_Cfg_PwrOut s"
  proof (cases a)
    case Call_RFID_Check
    have "g_Transponder (RFID_Check s) = g_Transponder s" by simp
    with Cons.prems Call_RFID_Check show ?thesis
      by (simp add: reader_powered_def RFID_Check_deferred)
  next
    case (Call_RFID_Decode rx)
    from RFID_Decode_in_bounds [OF Cons.prems(5), of rx] obtain s1 where
      s1: "RFID_Decode rx s = Some s1" "unat (l_State s1) \<le> 13" by blast
    from s1(1) Cons.prems Call_RFID_Decode s1(2) show ?thesis
      by (simp add: reader_powered_def RFID_Decode_frame [OF s1(1)]
            RFID_Decode_keeps_ID [OF s1(1)])
  qed
  then obtain s1 where s1: "perform a s = Some s1" "reader_powered s1" "\<not> l_flgRFID_On s1"
    "g_RFID_AbsentDetectTimeout s1 \<noteq> 0" "g_Transponder s1 \<noteq> []" "unat (l_State s1) \<le> 13"
    "l_pRFID_Cfg_PwrOut s1 = l_pRFID_Cfg_PwrOut s" by blast
  from Cons.IH [OF s1(2-6)] s1(1,7) show ?case by simp
qed

lemma TransponderAbsent_then_Check:
  assumes "reader_powered d" "\<not> l_flgRFID_On d"
    and "0 \<le> l_pRFID_Cfg_PwrOut d" "l_pRFID_Cfg_PwrOut d < NUM_PWR_OUT"
  shows "torn_down (RFID_Check (TransponderAbsent h d))"
  using assms by (intro RFID_Check_absent) (simp_all add: reader_powered_def)

text \<open>
  Claim C6.  \<^verbatim>\<open>RFID_Disable\<close> is called while the reader is enabled and powered (its
  supply is one of the three outputs).  Then the reader is torn down when the call
  returns if and only if the absence timeout is 0 or no transponder ID is stored.
  Otherwise the reader stays powered, whatever \<^verbatim>\<open>RFID_Check\<close> and \<^verbatim>\<open>RFID_Decode\<close>
  do afterwards, in any number and order, and an ID stays stored; when then the
  callback of the absence timer clears the ID, the next \<^verbatim>\<open>RFID_Check\<close> tears the
  reader down.
\<close>

theorem RFID_Disable_power_down:
  assumes "l_flgRFID_On s" and "reader_powered s"
    and "0 \<le> l_pRFID_Cfg_PwrOut s" and "l_pRFID_Cfg_PwrOut s < NUM_PWR_OUT"
    and "unat (l_State s) \<le> 13"
  shows "(torn_down (RFID_Disable s)
            \<longleftrightarrow> g_RFID_AbsentDetectTimeout s = 0 \<or> g_Transponder s = [])
       \<and> (g_RFID_AbsentDetectTimeout s \<noteq> 0 \<and> g_Transponder s \<noteq> [] \<longrightarrow>
            (\<forall>acts. \<exists>d. perform_all acts (RFID_Disable s) = Some d
                 \<and> reader_powered d \<and> g_Transponder d \<noteq> []
                 \<and> g_Transponder (TransponderAbsent h d) = []
                 \<and> torn_down (RFID_Check (TransponderAbsent h d))))"
proof (cases "g_RFID_AbsentDetectTimeout s = 0 \<or> g_Transponder s = []")
  case True
  from assms(2) have "l_flgRFID_IsOn s" by (simp add: reader_powered_def)
  from RFID_Disable_immediate [OF assms(1) this assms(3,4) True] True show ?thesis
    by blast
next
  case False
  then have c: "g_RFID_AbsentDetectTimeout s \<noteq> 0" "g_Transponder s \<noteq> []" by simp_all
  note d = RFID_Disable_deferred [OF assms(1) c]
  have p: "reader_powered (RFID_Disable s)"
    using assms(2) by (simp add: reader_powered_def d)
  then have nt: "\<not> torn_down (RFID_Disable s)"
    by (simp add: reader_powered_def torn_down_def)
  have keep: "g_RFID_AbsentDetectTimeout (RFID_Disable s) \<noteq> 0"
    "g_Transponder (RFID_Disable s) \<noteq> []" "unat (l_State (RFID_Disable s)) \<le> 13"
    using c assms(5) by (simp_all add: d)
  have "\<exists>d. perform_all acts (RFID_Disable s) = Some d
           \<and> reader_powered d \<and> g_Transponder d \<noteq> []
           \<and> g_Transponder (TransponderAbsent h d) = []
           \<and> torn_down (RFID_Check (TransponderAbsent h d))" for acts
  proof -
    from power_off_pending [OF p d(6) keep, of acts] obtain e where
      e: "perform_all acts (RFID_Disable s) = Some e" "reader_powered e" "\<not> l_flgRFID_On e"
         "g_Transponder e \<noteq> []" "l_pRFID_Cfg_PwrOut e = l_pRFID_Cfg_PwrOut (RFID_Disable s)"
      by blast
    from e(5) assms(3,4) have r: "0 \<le> l_pRFID_Cfg_PwrOut e" "l_pRFID_Cfg_PwrOut e < NUM_PWR_OUT"
      by simp_all
    from TransponderAbsent_then_Check [OF e(2,3) r, of h] e(1,2,4) show ?thesis
      by simp
  qed
  with False nt show ?thesis by blast
qed

lemma RFID_Check_powers_on:
  assumes "l_flgRFID_On s" "\<not> l_flgRFID_IsOn s" "l_flgRFID_Activate s" "\<not> power_fail s"
    and "0 \<le> l_pRFID_Cfg_PwrOut s" "l_pRFID_Cfg_PwrOut s < NUM_PWR_OUT"
  shows "reader_powered (RFID_Check s)" "l_State (RFID_Check s) = 0"
  using assms
  by (simp_all add: reader_powered_def RFID_Check_def RFID_PowerOn_def uartSetup_def Let_def
        ControlUpdateID_def pwr_pin_PowerOutput IsPowerFail_def)

lemma reader_on_state_facts:
  "l_flgRFID_On reader_on_state" "reader_powered reader_on_state"
  "l_pRFID_Cfg_PwrOut reader_on_state = PWR_OUT_UA1" "l_State reader_on_state = 0"
  "g_RFID_AbsentDetectTimeout reader_on_state = 5" "g_Transponder reader_on_state = []"
proof -
  have e: "l_flgRFID_On SR_reader_state" "\<not> l_flgRFID_IsOn SR_reader_state"
    "l_flgRFID_Activate SR_reader_state" "\<not> power_fail SR_reader_state"
    "l_pRFID_Cfg_PwrOut SR_reader_state = PWR_OUT_UA1"
    "g_RFID_AbsentDetectTimeout SR_reader_state = 5" "g_Transponder SR_reader_state = []"
    by (simp_all add: SR_reader_state_def reset_state_def RFID_Enable_def)
  show "l_flgRFID_On reader_on_state" "l_pRFID_Cfg_PwrOut reader_on_state = PWR_OUT_UA1"
    "g_RFID_AbsentDetectTimeout reader_on_state = 5" "g_Transponder reader_on_state = []"
    using e by (simp_all add: reader_on_state_def)
  show "reader_powered reader_on_state" "l_State reader_on_state = 0"
    unfolding reader_on_state_def using e by (simp_all add: RFID_Check_powers_on)
qed

lemma bird_present_state_facts:
  "l_flgRFID_On bird_present_state" "reader_powered bird_present_state"
  "l_pRFID_Cfg_PwrOut bird_present_state = PWR_OUT_UA1" "l_State bird_present_state = 0"
  "g_RFID_AbsentDetectTimeout bird_present_state = 5"
  "g_Transponder bird_present_state = ''A403020105001100''"
  using reader_on_state_facts by (simp_all add: bird_present_state_def reader_powered_def)

theorem RFID_Disable_power_down_witness:
  "torn_down (RFID_Disable reader_on_state)
   \<and> \<not> torn_down (RFID_Disable bird_present_state)
   \<and> (\<exists>d. perform_all [Call_RFID_Check, Call_RFID_Decode 0x0E, Call_RFID_Check]
              (RFID_Disable bird_present_state) = Some d
          \<and> reader_powered d
          \<and> torn_down (RFID_Check (TransponderAbsent 6 d)))"
proof -
  have a: "torn_down (RFID_Disable reader_on_state)"
    using RFID_Disable_power_down [of reader_on_state]
    by (simp add: reader_on_state_facts)
  have h: "l_flgRFID_On bird_present_state" "reader_powered bird_present_state"
    "0 \<le> l_pRFID_Cfg_PwrOut bird_present_state"
    "l_pRFID_Cfg_PwrOut bird_present_state < NUM_PWR_OUT"
    "unat (l_State bird_present_state) \<le> 13"
    by (simp_all add: bird_present_state_facts)
  have c: "g_RFID_AbsentDetectTimeout bird_present_state \<noteq> 0"
    "g_Transponder bird_present_state \<noteq> []"
    by (simp_all add: bird_present_state_facts)
  note t = RFID_Disable_power_down [OF h, of 6]
  from t c have b: "\<not> torn_down (RFID_Disable bird_present_state)" by blast
  from t c have "\<forall>acts. \<exists>d. perform_all acts (RFID_Disable bird_present_state) = Some d
                 \<and> reader_powered d \<and> g_Transponder d \<noteq> []
                 \<and> g_Transponder (TransponderAbsent 6 d) = []
                 \<and> torn_down (RFID_Check (TransponderAbsent 6 d))"
    by blast
  then obtain d where
    "perform_all [Call_RFID_Check, Call_RFID_Decode 0x0E, Call_RFID_Check]
       (RFID_Disable bird_present_state) = Some d"
    "reader_powered d" "torn_down (RFID_Check (TransponderAbsent 6 d))"
    by blast
  with a b show ?thesis by blast
qed

section \<open>The power cycle of an output\<close>





lemma pwr_pin_RFID_Enable [simp]: "pwr_pin (RFID_Enable s) = pwr_pin s"
  by (simp add: RFID_Enable_def Let_def)




lemma foreign_timer_sTimerStart [simp]:
  "foreign_timer h (sTimerStart h' n s) = foreign_timer h s"
  by (simp add: foreign_timer_def)

lemma RFID_supply_sTimerStart [simp]:
  "RFID_supply r (sTimerStart h' n s) = RFID_supply r s"
  by (simp add: RFID_supply_def reader_unused_def)








lemma reader_unused_simps [simp]:
  "reader_unused (s\<lparr>timer_remaining := x\<rparr>) = reader_unused s"
  "reader_unused (s\<lparr>g_flgIRQ := y\<rparr>) = reader_unused s"
  "reader_unused (sTimerStart h n s) = reader_unused s"
  "reader_unused (sTimerCancel h s) = reader_unused s"
  "reader_unused (PowerOutput p e s) = reader_unused s"
  "reader_unused (emit ev s) = reader_unused s"
  "reader_unused (MeasureStop h s) = reader_unused s"
  "reader_unused (MeasureStopBATT h s) = reader_unused s"
  "reader_unused (TransponderAbsent h s) = reader_unused s"
  "reader_unused (RFID_DetectTimeout h s) = reader_unused s"
  by (simp_all add: reader_unused_def)











text \<open>
  Nothing that a second or an alarm does changes the configuration of the cycle, the
  power-fail input or the timer handles.
\<close>

lemma cycle_setup_kept [simp]:
  "cycle_setup (s\<lparr>timer_remaining := x\<rparr>) = cycle_setup s"
  "cycle_setup (timer_tick_slot h s) = cycle_setup s"
  "cycle_setup (timer_tick_slots k a s) = cycle_setup s"
  "cycle_setup (sTimerTick s) = cycle_setup s"
  "cycle_setup (RFID_Check s) = cycle_setup s"
  "cycle_setup (second s) = cycle_setup s"
  "cycle_setup (AlarmPowerControl al s) = cycle_setup s"
  by (simp_all add: cycle_setup_def second_def service_loop_def)

lemma cycle_setup_seconds [simp]: "cycle_setup (seconds k s) = cycle_setup s"
  by (induction k arbitrary: s) simp_all

lemma cycle_setup_fields:
  assumes "cycle_setup a = cycle_setup b"
  shows "g_PwrInterval a = g_PwrInterval b" "g_On_Duration a = g_On_Duration b"
    "g_RFID_Power a = g_RFID_Power b" "l_pRFID_Cfg_PwrOut a = l_pRFID_Cfg_PwrOut b"
    "power_fail a = power_fail b" "cfg_ALARM_UA1_ON_TIME_1 a = cfg_ALARM_UA1_ON_TIME_1 b"
    "timer_cb a = timer_cb b" "timer_count a = timer_count b"
    "l_hdlPwrInterval a = l_hdlPwrInterval b" "hdlFollowUpTime a = hdlFollowUpTime b"
    "l_hdlFollowUpTimeBATT a = l_hdlFollowUpTimeBATT b"
    "l_hdlRFID_AbsentDetect a = l_hdlRFID_AbsentDetect b" "l_hdlRFID_Off a = l_hdlRFID_Off b"
    "l_hdlRFID_DetectTimeout a = l_hdlRFID_DetectTimeout b"
  using assms by (simp_all add: cycle_setup_def)

lemma static_second [simp]:
  "g_PwrInterval (second s) = g_PwrInterval s" "g_On_Duration (second s) = g_On_Duration s"
  "l_hdlPwrInterval (second s) = l_hdlPwrInterval s"
  using cycle_setup_fields [of "second s" s] by simp_all

lemma static_seconds [simp]:
  "g_PwrInterval (seconds k s) = g_PwrInterval s" "g_On_Duration (seconds k s) = g_On_Duration s"
  "l_hdlPwrInterval (seconds k s) = l_hdlPwrInterval s"
  using cycle_setup_fields [of "seconds k s" s] by simp_all

















text \<open>
  A configuration that \<^verbatim>\<open>VerifyConfiguration\<close> leaves with an interval greater than 0
  is valid.
\<close>

lemma VerifyConfiguration_valid_cycle:
  assumes "0 \<le> r" "r < NUM_PWR_OUT" "g_PwrInterval (VerifyConfiguration s) r > 0"
  shows "valid_cycle r (VerifyConfiguration s)"
proof -
  from assms(1,2) have "r = 0 \<or> r = 1 \<or> r = 2" by arith
  with assms(3) show ?thesis
    by (auto simp: VerifyConfiguration_def verify_interval_cfg valid_cycle_def
          split: if_splits)
qed





end
